(* ===== verification/Prelude.thy ===== *)
theory Prelude
  imports Main "HOL-Library.Word" "HOL-Library.List_Lexorder" "HOL-Library.Char_ord"
begin

text \<open>
  Shared vocabulary of the EAS development: the types that name identifiers and
  times in the Django models, the lemma collections the component theories fill,
  and the Python built-ins the source relies on (truthiness, \<open>str.join\<close>,
  \<open>int()\<close> on a header string, \<open>str()\<close> of an integer and of a \<open>uuid.UUID\<close>).
  The built-ins are library code, modelled here once so that every component
  uses the same reading of them.
\<close>

section \<open>Types of the model\<close>

type_synonym campus_id = nat   \<comment> \<open>Django \<open>BigAutoField\<close> primary keys start at 1\<close>

type_synonym user_id = nat

type_synonym record_id = nat

type_synonym uuid = "128 word" \<comment> \<open>\<open>Event.id = UUIDField(default=uuid.uuid4)\<close>\<close>

type_synonym timestamp = int   \<comment> \<open>an aware \<open>datetime\<close>: seconds since the epoch, UTC\<close>

type_synonym day = int         \<comment> \<open>a \<open>date\<close>: days since the epoch\<close>

type_synonym time_of_day = nat \<comment> \<open>a \<open>time\<close>: seconds since midnight, below 86400\<close>

named_theorems py_simps "evaluation rules of the modelled Python built-ins"

named_theorems tenant_simps "unfolding rules of the campus-scoping operations"

section \<open>Truthiness and joins\<close>

text \<open>
  \<open>not xs\<close> on a list or string is \<open>xs = []\<close>; an integer id is falsy exactly at 0,
  and \<open>None\<close> is falsy.
\<close>

definition py_truthy_id :: "nat option \<Rightarrow> bool" where
  "py_truthy_id x = (case x of None \<Rightarrow> False | Some n \<Rightarrow> n \<noteq> 0)"

primrec py_join :: "string \<Rightarrow> string list \<Rightarrow> string" where
  "py_join sep [] = []"
| "py_join sep (x # xs) = (case xs of [] \<Rightarrow> x | _ \<Rightarrow> x @ sep @ py_join sep xs)"

section \<open>Tables\<close>

text \<open>
  A table is a list of rows. \<open>Model.save()\<close> on a row updates the row with the same
  primary key, or inserts it when there is none; \<open>QuerySet.filter(pk=k).update(...)\<close>
  rewrites the rows with that key.
\<close>

definition table_save :: "('r \<Rightarrow> 'k) \<Rightarrow> 'r \<Rightarrow> 'r list \<Rightarrow> 'r list" where
  "table_save key r rows =
     (if \<exists>x \<in> set rows. key x = key r then map (\<lambda>x. if key x = key r then r else x) rows
      else rows @ [r])"

definition table_update :: "('r \<Rightarrow> 'k) \<Rightarrow> 'k \<Rightarrow> ('r \<Rightarrow> 'r) \<Rightarrow> 'r list \<Rightarrow> 'r list" where
  "table_update key k f rows = map (\<lambda>x. if key x = k then f x else x) rows"

definition table_get :: "('r \<Rightarrow> 'k) \<Rightarrow> 'k \<Rightarrow> 'r list \<Rightarrow> 'r option" where
  "table_get key k rows = find (\<lambda>x. key x = k) rows"

section \<open>Digits\<close>

text \<open>The characters \<open>str.strip()\<close> and \<open>int()\<close> treat as whitespace among the 256 a
  header can carry (WSGI decodes header bytes as Latin-1): the ASCII controls and space, and
  Latin-1's NEXT LINE (0x85) and NO-BREAK SPACE (0xA0), for which \<open>str.isspace()\<close> holds.\<close>

definition py_space_code :: "char \<Rightarrow> bool" where
  "py_space_code c \<longleftrightarrow> (of_char c :: nat) \<in> {9, 10, 11, 12, 13, 28, 29, 30, 31, 32, 133, 160}"

definition digit_char :: "nat \<Rightarrow> char" where
  "digit_char d = char_of (if d < 10 then 48 + d else 87 + d)"

definition dec_val :: "char \<Rightarrow> nat option" where
  "dec_val c = (let n = of_char c :: nat in if 48 \<le> n \<and> n \<le> 57 then Some (n - 48) else None)"

definition hex_val :: "char \<Rightarrow> nat option" where
  "hex_val c = (let n = of_char c :: nat in
     if 48 \<le> n \<and> n \<le> 57 then Some (n - 48)
     else if 97 \<le> n \<and> n \<le> 102 then Some (n - 87) else None)"

subsection \<open>Fixed-width lowercase hexadecimal, as \<open>'%032x'\<close>\<close>

fun hex_digits :: "nat \<Rightarrow> nat \<Rightarrow> string" where
  "hex_digits 0 n = []"
| "hex_digits (Suc k) n = hex_digits k (n div 16) @ [digit_char (n mod 16)]"

fun hex_acc :: "nat \<Rightarrow> string \<Rightarrow> nat option" where
  "hex_acc a [] = Some a"
| "hex_acc a (c # cs) = (case hex_val c of None \<Rightarrow> None | Some d \<Rightarrow> hex_acc (16 * a + d) cs)"

subsection \<open>Decimal, as \<open>str(n)\<close> and \<open>int(s)\<close>\<close>

fun nat_str :: "nat \<Rightarrow> string" where
  "nat_str n = (if n < 10 then [digit_char n] else nat_str (n div 10) @ [digit_char (n mod 10)])"

declare nat_str.simps [simp del]

text \<open>
  \<open>int(s)\<close> with base 10 on an ASCII string: surrounding whitespace is stripped,
  an optional sign follows, then decimal digits in which single underscores may
  separate two digits. Anything else raises \<open>ValueError\<close>, the \<open>None\<close> here.
\<close>

definition py_strip :: "string \<Rightarrow> string" where
  "py_strip s = rev (dropWhile py_space_code (rev (dropWhile py_space_code s)))"

fun py_digits :: "nat \<Rightarrow> string \<Rightarrow> nat option" where
  "py_digits a [] = Some a"
| "py_digits a (c # cs) =
     (if c = CHR ''_'' then
        (case cs of [] \<Rightarrow> None
         | d # ds \<Rightarrow> (case dec_val d of None \<Rightarrow> None | Some v \<Rightarrow> py_digits (10 * a + v) ds))
      else (case dec_val c of None \<Rightarrow> None | Some v \<Rightarrow> py_digits (10 * a + v) cs))"

definition py_unsigned :: "string \<Rightarrow> nat option" where
  "py_unsigned s = (case s of [] \<Rightarrow> None
     | c # cs \<Rightarrow> (case dec_val c of None \<Rightarrow> None | Some v \<Rightarrow> py_digits v cs))"

definition py_int :: "string \<Rightarrow> int option" where
  "py_int s = (case py_strip s of [] \<Rightarrow> None
     | c # cs \<Rightarrow>
         if c = CHR ''-'' then map_option (\<lambda>n. - int n) (py_unsigned cs)
         else if c = CHR ''+'' then map_option int (py_unsigned cs)
         else map_option int (py_unsigned (c # cs)))"

subsection \<open>\<open>str(uuid.UUID)\<close>\<close>

text \<open>
  Python prints a UUID as its 128-bit value in 32 lowercase hexadecimal digits,
  grouped 8-4-4-4-12 by hyphens.
\<close>

definition uuid_hex :: "uuid \<Rightarrow> string" where
  "uuid_hex u = hex_digits 32 (unat u)"

definition uuid_str :: "uuid \<Rightarrow> string" where
  "uuid_str u = (let h = uuid_hex u in
     take 8 h @ ''-'' @ take 4 (drop 8 h) @ ''-'' @ take 4 (drop 12 h) @ ''-''
     @ take 4 (drop 16 h) @ ''-'' @ drop 20 h)"

section \<open>Lemmas\<close>

lemma py_truthy_id_Some [simp, py_simps]: "py_truthy_id (Some n) \<longleftrightarrow> 0 < n"
  by (simp add: py_truthy_id_def)

lemma py_truthy_id_None [simp, py_simps]: "\<not> py_truthy_id None"
  by (simp add: py_truthy_id_def)

subsection \<open>Tables\<close>

text \<open>
  A database table is a list of rows. A lookup by a unique key returns the row
  with that key, whatever else the query asks of it.
\<close>

lemma table_save_keys [simp]:
  "map key (table_save key r rows) =
     (if key r \<in> key ` set rows then map key rows else map key rows @ [key r])"
  by (auto simp: table_save_def comp_def image_iff intro!: map_cong) (metis)

lemma table_save_distinct:
  "distinct (map key rows) \<Longrightarrow> distinct (map key (table_save key r rows))"
  by (auto simp: image_iff)

lemma table_get_table_save [simp]:
  "table_get key (key r) (table_save key r rows) = Some r"
proof (cases "\<exists>x \<in> set rows. key x = key r")
  case True
  then have "find (\<lambda>x. key x = key r) (map (\<lambda>x. if key x = key r then r else x) rows) = Some r"
    by (induction rows) auto
  with True show ?thesis by (simp add: table_get_def table_save_def)
next
  case False
  then have "find (\<lambda>x. key x = key r) (rows @ [r]) = Some r"
    by (induction rows) auto
  with False show ?thesis by (simp add: table_get_def table_save_def)
qed

lemma table_update_keys [simp]: "map key (table_update key k f rows) = map key rows \<longleftrightarrow>
     (\<forall>x \<in> set rows. key x = k \<longrightarrow> key (f x) = k)"
  by (auto simp: table_update_def)

lemma table_get_table_update:
  "key (f r) = k \<Longrightarrow> table_get key k rows = Some r \<Longrightarrow> table_get key k (table_update key k f rows) = Some (f r)"
  by (induction rows) (auto simp: table_get_def table_update_def)

lemma table_get_distinct:
  "distinct (map key rows) \<Longrightarrow> x \<in> set rows \<Longrightarrow> table_get key (key x) rows = Some x"
  by (induction rows) (auto simp: table_get_def rev_image_eqI)

lemma table_save_same:
  assumes "distinct (map key rows)" "table_get key (key r) rows = Some r"
  shows "table_save key r rows = rows"
proof -
  from assms(2) have r: "r \<in> set rows"
    by (auto simp: table_get_def find_Some_iff dest: nth_mem)
  have "x = r" if "x \<in> set rows" "key x = key r" for x
    using table_get_distinct [OF assms(1) that(1)] that(2) assms(2) by simp
  then have "map (\<lambda>x. if key x = key r then r else x) rows = rows"
    by (induction rows) auto
  with r show ?thesis by (auto simp: table_save_def)
qed

lemma table_update_distinct:
  assumes "distinct (map key rows)" and f: "\<And>x. key (f x) = key x"
  shows "distinct (map key (table_update key k f rows))"
proof -
  have "map key (table_update key k f rows) = map key rows"
    unfolding table_update_def by (induction rows) (simp_all add: f)
  with assms(1) show ?thesis by (simp only:)
qed

lemma map_replace_distinct_secondary:
  assumes "distinct (map key rows)" "distinct (map k2 rows)"
    "\<forall>x \<in> set rows. k2 x = k2 r \<longrightarrow> key x = key r"
  shows "distinct (map k2 (map (\<lambda>x. if key x = key r then r else x) rows))"
  using assms
proof (induction rows)
  case Nil
  then show ?case by simp
next
  case (Cons x xs)
  then have IH: "distinct (map k2 (map (\<lambda>x. if key x = key r then r else x) xs))" by simp
  have neq: "k2 (if key x = key r then r else x) \<noteq> k2 (if key y = key r then r else y)"
    if y: "y \<in> set xs" for y
  proof (cases "key x = key r")
    case True
    with Cons.prems(1) y have "key y \<noteq> key r" by (auto simp: image_iff)
    with True Cons.prems(3) y show ?thesis by auto
  next
    case False
    with Cons.prems(2,3) y show ?thesis by auto
  qed
  have "k2 (if key x = key r then r else x) \<notin> set (map k2 (map (\<lambda>x. if key x = key r then r else x) xs))"
  proof
    assume "k2 (if key x = key r then r else x) \<in> set (map k2 (map (\<lambda>x. if key x = key r then r else x) xs))"
    then obtain y where "y \<in> set xs" "k2 (if key x = key r then r else x) = k2 (if key y = key r then r else y)"
      by auto
    with neq show False by blast
  qed
  with IH show ?case by simp
qed

lemma table_save_distinct_secondary:
  assumes "distinct (map key rows)" "distinct (map k2 rows)"
    "\<forall>x \<in> set rows. k2 x = k2 r \<longrightarrow> key x = key r"
  shows "distinct (map k2 (table_save key r rows))"
proof (cases "\<exists>x \<in> set rows. key x = key r")
  case True
  with map_replace_distinct_secondary [OF assms] show ?thesis by (simp add: table_save_def)
next
  case False
  with assms(2,3) show ?thesis by (auto simp: table_save_def)
qed

lemma fold_max_ge: "x \<in> set xs \<or> x \<le> a \<Longrightarrow> x \<le> fold max xs (a::nat)"
proof (induction xs arbitrary: a)
  case Nil
  then show ?case by simp
next
  case (Cons y ys)
  then have "x \<in> set ys \<or> x \<le> max y a" by auto
  then show ?case using Cons.IH by simp
qed

lemma find_unique_key:
  "distinct (map f xs) \<Longrightarrow> x \<in> set xs \<Longrightarrow> P x \<Longrightarrow> find (\<lambda>y. f y = f x \<and> P y) xs = Some x"
  by (induction xs) (auto simp: rev_image_eqI)

lemma find_unique_key_None:
  "\<forall>y \<in> set xs. f y \<noteq> k \<Longrightarrow> find (\<lambda>y. f y = k \<and> P y) xs = None"
  by (auto simp: find_None_iff)

lemma filter_key_distinct:
  "distinct (map key xs) \<Longrightarrow> x \<in> set xs \<Longrightarrow> filter (\<lambda>y. key y = key x) xs = [x]"
proof (induction xs)
  case Nil then show ?case by simp
next
  case (Cons y ys)
  show ?case
  proof (cases "y = x")
    case True
    with Cons.prems(1) have "\<forall>z \<in> set ys. key z \<noteq> key x" by (auto simp: image_iff)
    with True show ?thesis by (simp add: filter_empty_conv)
  next
    case False
    with Cons.prems have "x \<in> set ys" "key y \<noteq> key x" by (auto simp: image_iff)
    with Cons.IH Cons.prems(1) False show ?thesis by simp
  qed
qed

lemma table_save_replace:
  assumes "distinct (map key rows)" "r \<in> set rows" "key b = key r"
  shows "table_save key b rows = map (\<lambda>x. if x = r then b else x) rows"
proof -
  have "key x = key r \<longleftrightarrow> x = r" if "x \<in> set rows" for x
  proof -
    from assms(1) have "inj_on key (set rows)" by (simp add: distinct_map)
    with assms(2) that show ?thesis by (auto dest: inj_onD)
  qed
  then have "map (\<lambda>x. if key x = key b then b else x) rows = map (\<lambda>x. if x = r then b else x) rows"
    using assms(3) by (auto intro!: map_cong)
  with assms(2,3) show ?thesis by (auto simp: table_save_def)
qed

lemma sum_list_map_update:
  "i < length xs \<Longrightarrow> sum_list (map f (xs[i := x])) + f (xs ! i) = sum_list (map f xs) + (f x :: nat)"
proof (induction xs arbitrary: i)
  case Nil then show ?case by simp
next
  case (Cons y ys) then show ?case by (cases i) simp_all
qed

lemma fold_max_Suc_fresh: "Suc (fold max xs (0::nat)) \<notin> set xs"
  using fold_max_ge [of _ xs 0] by (metis Suc_n_not_le_n)

lemma Inr_projr: "\<exists>a b. x = Inr (a, b) \<Longrightarrow> x = Inr (fst (projr x), snd (projr x))"
  by auto

lemma dec_val_digit_char [simp, py_simps]: "d < 10 \<Longrightarrow> dec_val (digit_char d) = Some d"
  by (simp add: dec_val_def digit_char_def)

lemma hex_val_digit_char [simp, py_simps]: "d < 16 \<Longrightarrow> hex_val (digit_char d) = Some d"
  by (simp add: hex_val_def digit_char_def)

lemma dec_val_underscore [simp, py_simps]: "dec_val (CHR ''_'') = None"
  by (simp add: dec_val_def)

lemma digit_char_not_sign [simp]:
  "d < 10 \<Longrightarrow> digit_char d \<noteq> CHR ''_'' \<and> digit_char d \<noteq> CHR ''-'' \<and> digit_char d \<noteq> CHR ''+''"
proof -
  assume "d < 10"
  then have "dec_val (digit_char d) = Some d" by simp
  moreover have "dec_val (CHR ''-'') = None" and "dec_val (CHR ''+'') = None"
    by (simp_all add: dec_val_def)
  ultimately show ?thesis by auto
qed

lemma digit_char_not_space [simp]: "d < 10 \<Longrightarrow> \<not> py_space_code (digit_char d)"
  by (simp add: py_space_code_def digit_char_def)

lemma length_hex_digits [simp]: "length (hex_digits k n) = k"
  by (induction k arbitrary: n) auto

lemma hex_acc_append:
  "hex_acc a (xs @ ys) = (case hex_acc a xs of None \<Rightarrow> None | Some b \<Rightarrow> hex_acc b ys)"
  by (induction a xs rule: hex_acc.induct) (auto split: option.splits)

lemma hex_acc_hex_digits: "hex_acc a (hex_digits k n) = Some (a * 16 ^ k + n mod 16 ^ k)"
proof (induction k arbitrary: a n)
  case 0
  then show ?case by simp
next
  case (Suc k)
  have "16 * (a * 16 ^ k + n div 16 mod 16 ^ k) + n mod 16 = a * 16 ^ Suc k + n mod 16 ^ Suc k"
    by (simp add: mod_mult2_eq algebra_simps)
  with Suc.IH show ?case by (simp add: hex_acc_append)
qed

lemma py_digits_append_digit:
  "\<forall>c \<in> set xs. dec_val c \<noteq> None \<Longrightarrow> d < 10 \<Longrightarrow> py_digits a (xs @ [digit_char d]) =
     (case py_digits a xs of None \<Rightarrow> None | Some b \<Rightarrow> Some (10 * b + d))"
proof (induction a xs rule: py_digits.induct)
  case (1 a)
  then show ?case by simp
next
  case (2 a c cs)
  then show ?case by (auto split: option.splits)
qed

lemma nat_str_chars: "c \<in> set (nat_str n) \<Longrightarrow> \<exists>d < 10. c = digit_char d"
proof (induction n rule: nat_str.induct)
  case (1 n)
  show ?case
  proof (cases "n < 10")
    case True
    with "1.prems" show ?thesis by (auto simp: nat_str.simps [of n])
  next
    case False
    with "1.prems" have "c \<in> set (nat_str (n div 10)) \<or> c = digit_char (n mod 10)"
      by (auto simp: nat_str.simps [of n])
    moreover have "n mod 10 < (10::nat)" by simp
    ultimately show ?thesis using False "1.IH" by blast
  qed
qed

lemma nat_str_Cons: "\<exists>c cs. nat_str n = c # cs"
  by (cases "nat_str n") (auto simp: nat_str.simps [of n] split: if_splits)

lemma py_unsigned_nat_str: "py_unsigned (nat_str n) = Some n"
proof (induction n rule: nat_str.induct)
  case (1 n)
  show ?case
  proof (cases "n < 10")
    case True
    then show ?thesis by (simp add: nat_str.simps [of n] py_unsigned_def)
  next
    case False
    obtain c cs where cs: "nat_str (n div 10) = c # cs"
      using nat_str_Cons by blast
    have digits: "\<forall>c' \<in> set cs. dec_val c' \<noteq> None"
      using nat_str_chars [of _ "n div 10"] cs by fastforce
    from False "1.IH" cs obtain v where "dec_val c = Some v" "py_digits v cs = Some (n div 10)"
      by (auto simp: py_unsigned_def split: option.splits)
    with False cs digits show ?thesis
      by (simp add: nat_str.simps [of n] py_unsigned_def py_digits_append_digit)
  qed
qed

lemma dropWhile_nowhere: "\<forall>x \<in> set xs. \<not> P x \<Longrightarrow> dropWhile P xs = xs"
  by (induction xs) auto

lemma py_strip_nat_str [simp]: "py_strip (nat_str n) = nat_str n"
proof -
  have nosp: "\<forall>x \<in> set (nat_str n). \<not> py_space_code x"
    by (metis digit_char_not_space nat_str_chars)
  then have "\<forall>x \<in> set (rev (nat_str n)). \<not> py_space_code x" by simp
  with nosp show ?thesis by (simp add: py_strip_def dropWhile_nowhere)
qed

lemma py_int_nat_str [py_simps]: "py_int (nat_str n) = Some (int n)"
proof -
  obtain c cs where cs: "nat_str n = c # cs"
    using nat_str_Cons by blast
  then obtain d where d: "d < 10" "c = digit_char d"
    using nat_str_chars [of c n] by auto
  have "py_int (nat_str n) = (case nat_str n of [] \<Rightarrow> None
     | c # cs \<Rightarrow>
         if c = CHR ''-'' then map_option (\<lambda>n. - int n) (py_unsigned cs)
         else if c = CHR ''+'' then map_option int (py_unsigned cs)
         else map_option int (py_unsigned (c # cs)))"
    by (simp only: py_int_def py_strip_nat_str)
  also have "\<dots> = map_option int (py_unsigned (nat_str n))"
    using cs d by simp
  also have "\<dots> = Some (int n)"
    by (simp add: py_unsigned_nat_str)
  finally show ?thesis .
qed

lemma length_uuid_str [simp]: "length (uuid_str u) = 36"
  by (simp add: uuid_str_def uuid_hex_def Let_def)

lemma hex_acc_uuid_hex: "hex_acc 0 (uuid_hex u) = Some (unat u)"
proof -
  have "unat u < 16 ^ 32"
    using unsigned_less [of u] by simp
  then show ?thesis
    by (simp add: uuid_hex_def hex_acc_hex_digits)
qed

end
