(* ===== verification/Campus.thy ===== *)
theory Campus
  imports Prelude
begin

text \<open>
  The campus tenant and its configuration (\<open>apps/campus/models.py\<close>): the
  \<open>Campus\<close> and \<open>CampusConfiguration\<close> models as records, the field defaults
  of the configuration, the code validator, and the query the tenant resolver
  runs on the campus table (\<open>Campus.objects.filter(is_active=True)\<close>, ordered by
  the model's \<open>Meta.ordering = ['name']\<close>). Decimal coordinates with seven
  decimal places are kept as integers in units of \<open>10\<^sup>-\<^sup>7\<close> degree.
\<close>

section \<open>Models\<close>

record campus =
  campus_pk :: campus_id
  campus_name :: string
  campus_code :: string
  campus_domain :: string
  campus_address :: string
  campus_latitude :: "int option"
  campus_longitude :: "int option"
  campus_timezone :: string
  campus_is_active :: bool

record campus_configuration =
  cfg_campus :: campus_id
  multi_campus_events_enabled :: bool
  cross_campus_attendance_enabled :: bool
  qr_code_expiry_hours :: nat
  attendance_window_minutes :: nat
  email_notifications_enabled :: bool
  sms_notifications_enabled :: bool
  gps_validation_enabled :: bool
  gps_radius_meters :: nat

text \<open>A configuration created with no explicit values takes the field defaults.\<close>

definition default_configuration :: "campus_id \<Rightarrow> campus_configuration" where
  "default_configuration c = \<lparr>cfg_campus = c,
     multi_campus_events_enabled = False,
     cross_campus_attendance_enabled = False,
     qr_code_expiry_hours = 24,
     attendance_window_minutes = 30,
     email_notifications_enabled = True,
     sms_notifications_enabled = False,
     gps_validation_enabled = True,
     gps_radius_meters = 100\<rparr>"

text \<open>\<open>RegexValidator(r'^[A-Z]+$')\<close> together with \<open>max_length=10\<close>. The validator
  uses \<open>re.search\<close>, where \<open>$\<close> also matches just before one final newline, so a run of
  capitals followed by a newline passes it; the length bound counts the newline.\<close>

definition campus_code_core :: "string \<Rightarrow> bool" where
  "campus_code_core s \<longleftrightarrow> s \<noteq> [] \<and> list_all (\<lambda>c. CHR ''A'' \<le> c \<and> c \<le> CHR ''Z'') s"

definition valid_campus_code :: "string \<Rightarrow> bool" where
  "valid_campus_code s \<longleftrightarrow> length s \<le> 10 \<and>
     (campus_code_core s \<or> (s \<noteq> [] \<and> last s = CHR 0x0A \<and> campus_code_core (butlast s)))"

section \<open>Seed data\<close>

text \<open>
  The four campuses that \<open>setup_initial_data\<close> creates (its \<open>campuses_data\<close>),
  with the model defaults for the fields the command leaves out.
\<close>

definition seed_campus ::
  "campus_id \<Rightarrow> string \<Rightarrow> string \<Rightarrow> string \<Rightarrow> string \<Rightarrow> int \<Rightarrow> int \<Rightarrow> campus" where
  "seed_campus i n c d a lat lng = \<lparr>campus_pk = i, campus_name = n, campus_code = c,
     campus_domain = d, campus_address = a, campus_latitude = Some lat,
     campus_longitude = Some lng, campus_timezone = ''Asia/Manila'', campus_is_active = True\<rparr>"

definition seed_campuses :: "campus list" where
  "seed_campuses = [
     seed_campus 1 ''Surigao del Norte State University'' ''SNSU'' ''snsu.edu.ph''
       ''Narciso St., Surigao City, Surigao del Norte'' 97893000 1254954000,
     seed_campus 2 ''SNSU Malimono Campus'' ''MALIMONO'' ''malimono.snsu.edu.ph''
       ''Malimono, Surigao del Norte'' 96167000 1254833000,
     seed_campus 3 ''SNSU Del Carmen Campus'' ''DELCARMEN'' ''delcarmen.snsu.edu.ph''
       ''Del Carmen, Surigao del Norte'' 96000000 1255000000,
     seed_campus 4 ''SNSU Mainit Campus'' ''MAINIT'' ''mainit.snsu.edu.ph''
       ''Mainit, Surigao del Norte'' 95500000 1255167000]"

text \<open>The configuration the command creates with each new campus.\<close>

definition seed_configuration :: "campus_id \<Rightarrow> campus_configuration" where
  "seed_configuration c = (default_configuration c)\<lparr>
     multi_campus_events_enabled := True, cross_campus_attendance_enabled := True,
     qr_code_expiry_hours := 24, attendance_window_minutes := 30,
     gps_validation_enabled := True, gps_radius_meters := 100\<rparr>"

section \<open>Queries on the campus table\<close>

definition active_campuses :: "campus list \<Rightarrow> campus list" where
  "active_campuses cs = sort_key campus_name (filter campus_is_active cs)"

definition active_campus_ids :: "campus list \<Rightarrow> campus_id list" where
  "active_campus_ids cs = map campus_pk (active_campuses cs)"

definition find_campus :: "campus list \<Rightarrow> campus_id \<Rightarrow> campus option" where
  "find_campus cs i = find (\<lambda>c. campus_pk c = i) cs"

text \<open>
  The table keeps its primary key unique, and auto-increment keys start at 1,
  so no stored campus has the falsy id 0.
\<close>

definition campus_table_ok :: "campus list \<Rightarrow> bool" where
  "campus_table_ok cs \<longleftrightarrow> distinct (map campus_pk cs) \<and> list_all (\<lambda>c. 0 < campus_pk c) cs"

section \<open>Lemmas\<close>

lemma set_active_campus_ids [tenant_simps]:
  "set (active_campus_ids cs) = campus_pk ` {c \<in> set cs. campus_is_active c}"
  by (auto simp: active_campus_ids_def active_campuses_def)

lemma active_campus_ids_distinct:
  "campus_table_ok cs \<Longrightarrow> distinct (active_campus_ids cs)"
proof -
  assume "campus_table_ok cs"
  then have "distinct (map campus_pk (filter campus_is_active cs))"
    by (simp add: campus_table_ok_def distinct_map_filter)
  then show ?thesis
    by (simp add: active_campus_ids_def active_campuses_def distinct_map)
qed

lemma find_campus_Some:
  "find_campus cs i = Some c \<Longrightarrow> c \<in> set cs \<and> campus_pk c = i"
  by (auto simp: find_campus_def find_Some_iff)

lemma find_campus_None:
  "find_campus cs i = None \<longleftrightarrow> (\<forall>c \<in> set cs. campus_pk c \<noteq> i)"
  by (auto simp: find_campus_def find_None_iff)

end
