(* ===== verification/Accounts.thy ===== *)
theory Accounts
  imports Campus
begin

text \<open>
  The actor (\<open>apps/accounts/models.py\<close>): the \<open>User\<close> model with its role
  choices, \<open>get_full_name\<close>, the student-id validator, and the tenant resolver
  \<open>get_accessible_campus_ids\<close> / \<open>can_access_campus\<close>. The resolver reads the
  campus table afresh on every call, so it takes the table as an argument.
  Its contract from the specification (section 4.1) is \<open>resolve_spec\<close>, and
  \<open>get_accessible_campus_ids_refines\<close> shows the code implements it.
\<close>

section \<open>Model\<close>

datatype role = Student | Organizer | Campus_admin | Super_admin

record user =
  user_pk :: user_id
  user_username :: string
  user_first_name :: string
  user_middle_name :: string
  user_last_name :: string
  user_student_id :: string
  user_campus :: campus_id
  user_role :: role
  user_accessible_campus_ids :: "campus_id list"
  user_is_active :: bool

definition get_full_name :: "user \<Rightarrow> string" where
  "get_full_name u =
     (let names = [user_first_name u];
          names = (if user_middle_name u \<noteq> [] then names @ [user_middle_name u] else names);
          names = names @ [user_last_name u]
      in py_join '' '' names)"

text \<open>
  \<open>RegexValidator(r'^\d{4}-\d{6}$')\<close>. Django applies \<open>re.search\<close>, and
  \<open>$\<close> also matches just before a final newline, so one trailing \<open>\n\<close> passes.
\<close>

definition is_digit :: "char \<Rightarrow> bool" where
  "is_digit c \<longleftrightarrow> dec_val c \<noteq> None"

definition student_id_core :: "string \<Rightarrow> bool" where
  "student_id_core s \<longleftrightarrow> length s = 11 \<and> list_all is_digit (take 4 s) \<and> s ! 4 = CHR ''-''
     \<and> list_all is_digit (drop 5 s)"

definition valid_student_id :: "string \<Rightarrow> bool" where
  "valid_student_id s \<longleftrightarrow> student_id_core s \<or>
     (s \<noteq> [] \<and> last s = CHR 0x0A \<and> student_id_core (butlast s))"

section \<open>Tenant resolver\<close>

definition get_accessible_campus_ids :: "campus list \<Rightarrow> user \<Rightarrow> campus_id list" where
  "get_accessible_campus_ids cs u =
     (if user_role u = Super_admin then active_campus_ids cs
      else if user_role u = Campus_admin \<and> user_accessible_campus_ids u \<noteq> []
        then user_accessible_campus_ids u
      else [user_campus u])"

definition can_access_campus :: "campus list \<Rightarrow> user \<Rightarrow> campus_id \<Rightarrow> bool" where
  "can_access_campus cs u c \<longleftrightarrow> c \<in> set (get_accessible_campus_ids cs u)"

definition privileged :: "role \<Rightarrow> bool" where
  "privileged r \<longleftrightarrow> r = Campus_admin \<or> r = Super_admin"

text \<open>
  The contract of section 4.1: a super-admin reaches every active campus, a
  campus-admin its explicit set or its home campus when that set is empty, every
  other role its home campus only.
\<close>

definition resolve_spec :: "campus_id set \<Rightarrow> role \<Rightarrow> campus_id \<Rightarrow> campus_id set \<Rightarrow> campus_id set" where
  "resolve_spec active r home explicit =
     (case r of Super_admin \<Rightarrow> active
      | Campus_admin \<Rightarrow> (if explicit = {} then {home} else explicit)
      | _ \<Rightarrow> {home})"

text \<open>
  An actor with the given role, home campus and explicit campus list, for the
  concrete scenarios below and in the theories that build on this one.
\<close>

definition sample_user :: "user_id \<Rightarrow> role \<Rightarrow> campus_id \<Rightarrow> campus_id list \<Rightarrow> user" where
  "sample_user i r home explicit = \<lparr>user_pk = i, user_username = ''user'' @ nat_str i,
     user_first_name = ''Juan'', user_middle_name = [], user_last_name = ''Cruz'',
     user_student_id = ''2024-000001'', user_campus = home, user_role = r,
     user_accessible_campus_ids = explicit, user_is_active = True\<rparr>"

section \<open>User profile\<close>

text \<open>\<open>UserProfile\<close>: a one-to-one extension of a user (\<open>on_delete=CASCADE\<close>). The GPA is a
  \<open>DecimalField(max_digits=3, decimal_places=2)\<close>, here in hundredths; the IP address a
  string. Creating a second profile for a user violates the one-to-one constraint, the
  \<open>None\<close> of \<open>profile_create\<close>; \<open>__str__\<close> follows the foreign key, and a dangling key
  raises \<open>DoesNotExist\<close>, its \<open>None\<close>.\<close>

record user_profile =
  profile_user :: user_id
  profile_emergency_contact_name :: string
  profile_emergency_contact_phone :: string
  profile_emergency_contact_relationship :: string
  profile_preferred_language :: string
  profile_email_notifications :: bool
  profile_sms_notifications :: bool
  profile_enrollment_date :: "day option"
  profile_expected_graduation :: "day option"
  profile_gpa :: "int option"
  profile_last_login_ip :: "string option"
  profile_login_count :: nat
  profile_created_at :: timestamp
  profile_updated_at :: timestamp

definition new_user_profile :: "user_id \<Rightarrow> timestamp \<Rightarrow> user_profile" where
  "new_user_profile u now = \<lparr>profile_user = u, profile_emergency_contact_name = [],
     profile_emergency_contact_phone = [], profile_emergency_contact_relationship = [],
     profile_preferred_language = ''en'', profile_email_notifications = True, profile_sms_notifications = False,
     profile_enrollment_date = None, profile_expected_graduation = None, profile_gpa = None,
     profile_last_login_ip = None, profile_login_count = 0, profile_created_at = now, profile_updated_at = now\<rparr>"

definition profile_create :: "user_profile \<Rightarrow> user_profile list \<Rightarrow> user_profile list option" where
  "profile_create p ps = (if profile_user p \<in> profile_user ` set ps then None else Some (ps @ [p]))"

definition user_delete :: "user_id \<Rightarrow> user list \<Rightarrow> user_profile list \<Rightarrow> user list \<times> user_profile list" where
  "user_delete u us ps = (filter (\<lambda>x. user_pk x \<noteq> u) us, filter (\<lambda>p. profile_user p \<noteq> u) ps)"

definition user_profile_str :: "user list \<Rightarrow> user_profile \<Rightarrow> string option" where
  "user_profile_str us p =
     map_option (\<lambda>u. ''Profile for '' @ get_full_name u) (find (\<lambda>u. user_pk u = profile_user p) us)"

definition profiles_ok :: "user list \<Rightarrow> user_profile list \<Rightarrow> bool" where
  "profiles_ok us ps \<longleftrightarrow> distinct (map profile_user ps) \<and> profile_user ` set ps \<subseteq> user_pk ` set us"

section \<open>Lemmas\<close>

lemma privileged_simps [simp]:
  "privileged Super_admin" "privileged Campus_admin"
  "\<not> privileged Student" "\<not> privileged Organizer"
  by (simp_all add: privileged_def)

lemma get_accessible_campus_ids_unprivileged [tenant_simps]:
  "\<not> privileged (user_role u) \<Longrightarrow> get_accessible_campus_ids cs u = [user_campus u]"
  by (auto simp: get_accessible_campus_ids_def privileged_def)

lemma set_get_accessible_campus_ids [tenant_simps]:
  "set (get_accessible_campus_ids cs u) =
     resolve_spec (set (active_campus_ids cs)) (user_role u) (user_campus u)
       (set (user_accessible_campus_ids u))"
  by (cases "user_role u") (auto simp: get_accessible_campus_ids_def resolve_spec_def)

lemma get_accessible_campus_ids_nonempty_unless_super:
  "user_role u \<noteq> Super_admin \<Longrightarrow> get_accessible_campus_ids cs u \<noteq> []"
  by (simp add: get_accessible_campus_ids_def)

lemma get_accessible_campus_ids_super_admin [tenant_simps]:
  "user_role u = Super_admin \<Longrightarrow>
     set (get_accessible_campus_ids cs u) = campus_pk ` {c \<in> set cs. campus_is_active c}"
  by (simp add: get_accessible_campus_ids_def set_active_campus_ids)

lemma profile_create_ok:
  assumes ok: "profiles_ok us ps" and u: "profile_user p \<in> user_pk ` set us"
    and c: "profile_create p ps = Some ps'"
  shows "profiles_ok us ps'"
proof -
  from c have ps': "ps' = ps @ [p]" and fresh: "profile_user p \<notin> profile_user ` set ps"
    by (simp_all add: profile_create_def split: if_splits)
  with ok u show ?thesis by (simp add: profiles_ok_def)
qed

lemma user_delete_ok: "profiles_ok us ps \<Longrightarrow> profiles_ok (fst (user_delete u us ps)) (snd (user_delete u us ps))"
  by (auto simp: user_delete_def profiles_ok_def distinct_map_filter)

lemma user_profile_str_total:
  assumes ok: "profiles_ok us ps" and p: "p \<in> set ps"
  shows "user_profile_str us p \<noteq> None"
proof -
  from ok p have "profile_user p \<in> user_pk ` set us" by (auto simp: profiles_ok_def)
  then obtain u where "u \<in> set us" "user_pk u = profile_user p" by auto
  then have "find (\<lambda>u. user_pk u = profile_user p) us \<noteq> None" by (auto simp: find_None_iff)
  then show ?thesis by (simp add: user_profile_str_def)
qed

section \<open>Properties\<close>

text \<open>C13: The tenant resolver implements the contract of section 4.1: the set of campus
  ids \<open>get_accessible_campus_ids\<close> returns is all active campuses for a super-admin,
  the explicit set (or the home campus when it is empty) for a campus-admin, and the home
  campus for every other role.\<close>

theorem tenant_resolver_refines_spec:
  "set (get_accessible_campus_ids cs u) =
     resolve_spec (campus_pk ` {c \<in> set cs. campus_is_active c}) (user_role u) (user_campus u)
       (set (user_accessible_campus_ids u))"
  by (simp add: set_get_accessible_campus_ids set_active_campus_ids)

text \<open>The super-admin's accessible set is computed from the campus table at each call,
  not cached: adding a campus row changes the next result by exactly that campus when it
  is active, and by nothing otherwise.\<close>

theorem super_admin_resolution_fresh:
  assumes "user_role u = Super_admin"
  shows "set (get_accessible_campus_ids (cs @ [c]) u) =
     set (get_accessible_campus_ids cs u) \<union> (if campus_is_active c then {campus_pk c} else {})"
  using assms by (auto simp: get_accessible_campus_ids_super_admin)

theorem super_admin_resolution_fresh_witness:
  "set (get_accessible_campus_ids (seed_campuses @ [seed_campus 5 ''New'' ''NEW'' ''new.ph'' ''X'' 0 0])
        (sample_user 1 Super_admin 1 [])) = {1, 2, 3, 4, 5}"
proof -
  have "set (get_accessible_campus_ids (seed_campuses @ [seed_campus 5 ''New'' ''NEW'' ''new.ph'' ''X'' 0 0])
        (sample_user 1 Super_admin 1 [])) =
     set (get_accessible_campus_ids seed_campuses (sample_user 1 Super_admin 1 [])) \<union>
       (if campus_is_active (seed_campus 5 ''New'' ''NEW'' ''new.ph'' ''X'' 0 0)
        then {campus_pk (seed_campus 5 ''New'' ''NEW'' ''new.ph'' ''X'' 0 0)} else {})"
    by (rule super_admin_resolution_fresh) (simp add: sample_user_def)
  also have "\<dots> = {1, 2, 3, 4, 5}"
    by code_simp
  finally show ?thesis .
qed

end
