(* ===== verification/Tenancy.thy ===== *)
theory Tenancy
  imports Accounts
begin

text \<open>
  Campus scoping of every data access. Three pieces of the source:
  \<^item> \<open>CampusAwareQuerySet\<close> (\<open>apps/campus/managers.py\<close>): \<open>for_campus\<close>,
    \<open>for_user_campus\<close> and \<open>accessible_to_user\<close>, here over any table, given the
    projection of a row to its campus (events, users and attendance records all
    carry a \<open>campus\<close> foreign key and share the manager);
  \<^item> \<open>CampusContextMiddleware\<close> (\<open>apps/shared/middleware.py\<close>): the effective
    campus of a request, with the \<open>X-Campus-ID\<close> override, and the response
    headers that echo it;
  \<^item> \<open>CampusViewSet.get_queryset\<close> (\<open>apps/campus/api/views.py\<close>).
\<close>

section \<open>Campus-aware query set\<close>

definition for_campus :: "('r \<Rightarrow> campus_id) \<Rightarrow> campus_id \<Rightarrow> 'r list \<Rightarrow> 'r list" where
  "for_campus campus_of c rows = filter (\<lambda>r. campus_of r = c) rows"

definition for_user_campus :: "('r \<Rightarrow> campus_id) \<Rightarrow> user \<Rightarrow> 'r list \<Rightarrow> 'r list" where
  "for_user_campus campus_of u rows =
     (if user_role u = Super_admin then rows else for_campus campus_of (user_campus u) rows)"

definition accessible_to_user ::
  "campus list \<Rightarrow> ('r \<Rightarrow> campus_id) \<Rightarrow> user \<Rightarrow> campus_id option \<Rightarrow> 'r list \<Rightarrow> 'r list" where
  "accessible_to_user cs campus_of u campus_id rows =
     (if user_role u = Super_admin then
        (case campus_id of
           Some c \<Rightarrow> if c \<noteq> 0 then for_campus campus_of c rows else rows
         | None \<Rightarrow> rows)
      else
        (let accessible_campuses = get_accessible_campus_ids cs u in
         case campus_id of
           Some c \<Rightarrow>
             if c \<noteq> 0 \<and> c \<in> set accessible_campuses then for_campus campus_of c rows
             else for_campus campus_of (user_campus u) rows
         | None \<Rightarrow> for_campus campus_of (user_campus u) rows))"

section \<open>Campus-aware manager\<close>

text \<open>\<open>CampusAwareManager\<close> (and \<open>Event.objects = CampusAwareQuerySet.as_manager()\<close>):
  \<open>get_queryset()\<close> is the whole table, and each method applies the query set's method to
  it.\<close>

definition manager_get_queryset :: "'r list \<Rightarrow> 'r list" where
  "manager_get_queryset table = table"

definition manager_for_campus :: "('r \<Rightarrow> campus_id) \<Rightarrow> 'r list \<Rightarrow> campus_id \<Rightarrow> 'r list" where
  "manager_for_campus campus_of table c = for_campus campus_of c (manager_get_queryset table)"

definition manager_for_user_campus :: "('r \<Rightarrow> campus_id) \<Rightarrow> 'r list \<Rightarrow> user \<Rightarrow> 'r list" where
  "manager_for_user_campus campus_of table u = for_user_campus campus_of u (manager_get_queryset table)"

definition manager_accessible_to_user ::
  "campus list \<Rightarrow> ('r \<Rightarrow> campus_id) \<Rightarrow> 'r list \<Rightarrow> user \<Rightarrow> campus_id option \<Rightarrow> 'r list" where
  "manager_accessible_to_user cs campus_of table u campus_id =
     accessible_to_user cs campus_of u campus_id (manager_get_queryset table)"

section \<open>Request context middleware\<close>

text \<open>
  What \<open>process_request\<close> attaches to the request. \<open>request.campus\<close> is the
  campus row (or \<open>None\<close>), \<open>request.accessible_campuses\<close> a query on the
  campus table. An unauthenticated request is \<open>None\<close> for the user. The header is
  \<open>HTTP_X_CAMPUS_ID\<close> when present. \<open>hasattr(request.user, 'campus')\<close> is false
  exactly when the foreign key does not resolve (Django's
  \<open>RelatedObjectDoesNotExist\<close> is an \<open>AttributeError\<close>).
\<close>

record request_ctx =
  req_campus :: "campus option"
  req_accessible :: "campus list"

definition override_campus :: "campus list \<Rightarrow> user \<Rightarrow> string \<Rightarrow> campus option" where
  "override_campus cs u h =
     (case py_int h of
        None \<Rightarrow> None
      | Some k \<Rightarrow> find (\<lambda>c. int (campus_pk c) = k \<and> campus_pk c \<in> set (get_accessible_campus_ids cs u)) cs)"

definition process_request :: "campus list \<Rightarrow> user option \<Rightarrow> string option \<Rightarrow> request_ctx" where
  "process_request cs user_opt header =
     (case user_opt of
        None \<Rightarrow> \<lparr>req_campus = None, req_accessible = []\<rparr>
      | Some u \<Rightarrow>
          (let campus = find_campus cs (user_campus u);
               accessible_ids = get_accessible_campus_ids cs u;
               accessible = sort_key campus_name
                 (filter (\<lambda>c. campus_pk c \<in> set accessible_ids \<and> campus_is_active c) cs);
               campus' =
                 (case header of
                    Some h \<Rightarrow>
                      if h \<noteq> [] \<and> privileged (user_role u) then
                        (case override_campus cs u h of None \<Rightarrow> campus | Some c \<Rightarrow> Some c)
                      else campus
                  | None \<Rightarrow> campus)
           in \<lparr>req_campus = campus', req_accessible = accessible\<rparr>))"



section \<open>Campus API view\<close>

definition campus_view_queryset :: "campus list \<Rightarrow> user \<Rightarrow> campus list" where
  "campus_view_queryset cs u =
     (if user_role u = Super_admin then sort_key campus_name cs
      else sort_key campus_name (filter (\<lambda>c. campus_pk c \<in> set (get_accessible_campus_ids cs u)) cs))"

section \<open>Lemmas\<close>

lemma set_for_campus [tenant_simps]: "set (for_campus f c rows) = {r \<in> set rows. f r = c}"
  by (auto simp: for_campus_def)

lemma override_campus_Some:
  "override_campus cs u h = Some c \<Longrightarrow>
     c \<in> set cs \<and> py_int h = Some (int (campus_pk c)) \<and> campus_pk c \<in> set (get_accessible_campus_ids cs u)"
  by (auto simp: override_campus_def find_Some_iff split: option.splits dest: nth_mem)

lemma process_request_campus:
  "req_campus (process_request cs (Some u) header) =
     (case header of
        Some h \<Rightarrow>
          if h \<noteq> [] \<and> privileged (user_role u) \<and> override_campus cs u h \<noteq> None
          then override_campus cs u h else find_campus cs (user_campus u)
      | None \<Rightarrow> find_campus cs (user_campus u))"
  by (auto simp: process_request_def Let_def split: option.splits)

lemma process_request_unprivileged [tenant_simps]:
  "\<not> privileged (user_role u) \<Longrightarrow>
     req_campus (process_request cs (Some u) header) = find_campus cs (user_campus u)"
  by (simp add: process_request_campus split: option.splits)

lemma effective_campus_scope:
  assumes "req_campus (process_request cs (Some u) header) = Some c"
  shows "c \<in> set cs \<and> (campus_pk c = user_campus u \<or> campus_pk c \<in> set (get_accessible_campus_ids cs u))"
  using assms
  by (auto simp: process_request_campus find_campus_Some split: option.splits if_splits
      dest: override_campus_Some)


section \<open>Properties\<close>

text \<open>C12: For an actor whose role is neither campus-admin nor super-admin the effective
  campus is the home campus whatever \<open>X-Campus-ID\<close> header the request carries, and the
  accessible set is exactly the home campus.\<close>

theorem resolve_unprivileged_ignores_override:
  assumes "\<not> privileged (user_role u)"
  shows "req_campus (process_request cs (Some u) header) = find_campus cs (user_campus u)
     \<and> set (get_accessible_campus_ids cs u) = {user_campus u}"
  using assms by (simp add: process_request_unprivileged get_accessible_campus_ids_unprivileged)

theorem resolve_unprivileged_ignores_override_witness:
  "\<not> privileged (user_role (sample_user 7 Student 1 [2]))
   \<and> req_campus (process_request seed_campuses (Some (sample_user 7 Student 1 [2])) (Some ''2''))
       = find_campus seed_campuses 1
   \<and> set (get_accessible_campus_ids seed_campuses (sample_user 7 Student 1 [2])) = {1}"
  using resolve_unprivileged_ignores_override [of "sample_user 7 Student 1 [2]" seed_campuses "Some ''2''"]
  by (simp add: sample_user_def)

text \<open>The effective campus of an authenticated request is a row of the campus table
  and is either the actor's home campus or one of the campuses the resolver grants.\<close>

theorem effective_campus_in_scope:
  assumes "req_campus (process_request cs (Some u) header) = Some c"
  shows "c \<in> set cs \<and> (campus_pk c = user_campus u \<or> campus_pk c \<in> set (get_accessible_campus_ids cs u))"
  using assms by (rule effective_campus_scope)

theorem effective_campus_in_scope_witness:
  "req_campus (process_request seed_campuses (Some (sample_user 9 Campus_admin 1 [2, 3])) (Some '' 3''))
     = Some (seed_campuses ! 2)
   \<and> seed_campuses ! 2 \<in> set seed_campuses
   \<and> (campus_pk (seed_campuses ! 2) = 1 \<or>
        campus_pk (seed_campuses ! 2) \<in> set (get_accessible_campus_ids seed_campuses (sample_user 9 Campus_admin 1 [2, 3])))"
proof -
  have r: "req_campus (process_request seed_campuses (Some (sample_user 9 Campus_admin 1 [2, 3])) (Some '' 3''))
     = Some (seed_campuses ! 2)"
    by code_simp
  show ?thesis
    using r effective_campus_in_scope [OF r] by (simp add: sample_user_def)
qed



text \<open>C14: A requested override that does not name a campus of the actor's accessible set
  (unparseable, unknown, or outside the set) is silently ignored: the effective campus
  stays the home campus (the fail-open policy of section 4.1).\<close>

theorem override_outside_scope_ignored:
  assumes "\<not> (\<exists>c \<in> set cs. py_int h = Some (int (campus_pk c))
              \<and> campus_pk c \<in> set (get_accessible_campus_ids cs u))"
  shows "req_campus (process_request cs (Some u) (Some h)) = find_campus cs (user_campus u)"
proof -
  have "override_campus cs u h = None"
    using assms by (auto simp: override_campus_def find_None_iff split: option.splits)
  then show ?thesis by (simp add: process_request_campus)
qed

text \<open>The scenario of section 8: a campus-admin of SNSU (id 1) whose explicit set is
  {2, 3} asks for campus 4; the request stays scoped to SNSU.\<close>

theorem override_outside_scope_ignored_witness:
  "req_campus (process_request seed_campuses (Some (sample_user 9 Campus_admin 1 [2, 3])) (Some ''4''))
     = Some (seed_campuses ! 0)"
proof -
  have "\<not> (\<exists>c \<in> set seed_campuses. py_int ''4'' = Some (int (campus_pk c))
         \<and> campus_pk c \<in> set (get_accessible_campus_ids seed_campuses (sample_user 9 Campus_admin 1 [2, 3])))"
    by code_simp
  then have "req_campus (process_request seed_campuses (Some (sample_user 9 Campus_admin 1 [2, 3])) (Some ''4''))
      = find_campus seed_campuses (user_campus (sample_user 9 Campus_admin 1 [2, 3]))"
    by (rule override_outside_scope_ignored)
  also have "\<dots> = Some (seed_campuses ! 0)"
    by code_simp
  finally show ?thesis .
qed

text \<open>C24: Outside the super-admin role, every row a campus-aware query returns belongs to
  the actor's home campus or to a campus the resolver grants, whatever campus the
  caller asks for.\<close>

theorem accessible_to_user_scoped:
  assumes "user_role u \<noteq> Super_admin" "r \<in> set (accessible_to_user cs f u cid rows)"
  shows "r \<in> set rows \<and> (f r = user_campus u \<or> f r \<in> set (get_accessible_campus_ids cs u))"
  using assms by (auto simp: accessible_to_user_def Let_def set_for_campus split: option.splits if_splits)

theorem accessible_to_user_scoped_witness:
  "(2::nat) \<in> set (accessible_to_user seed_campuses id (sample_user 5 Campus_admin 1 [2, 3]) (Some 2) [1, 2, 3, 4])
   \<and> (id 2 = user_campus (sample_user 5 Campus_admin 1 [2, 3])
        \<or> id 2 \<in> set (get_accessible_campus_ids seed_campuses (sample_user 5 Campus_admin 1 [2, 3])))"
proof -
  have m: "(2::nat) \<in> set (accessible_to_user seed_campuses id (sample_user 5 Campus_admin 1 [2, 3]) (Some 2) [1, 2, 3, 4])"
    by code_simp
  have "user_role (sample_user 5 Campus_admin 1 [2, 3]) \<noteq> Super_admin"
    by (simp add: sample_user_def)
  from accessible_to_user_scoped [OF this m] m show ?thesis by simp
qed

text \<open>C40: A super-admin's query with no campus requested is not scoped at all: it returns
  every row, rows of inactive campuses included, although section 4.1 grants a
  super-admin the active campuses only.\<close>

theorem super_admin_query_unscoped:
  assumes "user_role u = Super_admin"
  shows "accessible_to_user cs f u None rows = rows"
  using assms by (simp add: accessible_to_user_def)

theorem super_admin_query_unscoped_witness:
  "accessible_to_user [seed_campus 1 ''A'' ''A'' ''a'' ''a'' 0 0\<lparr>campus_is_active := False\<rparr>] id
     (sample_user 1 Super_admin 1 []) None [1::nat] = [1]
   \<and> 1 \<notin> set (get_accessible_campus_ids [seed_campus 1 ''A'' ''A'' ''a'' ''a'' 0 0\<lparr>campus_is_active := False\<rparr>]
     (sample_user 1 Super_admin 1 []))"
proof -
  have "user_role (sample_user 1 Super_admin 1 []) = Super_admin" by (simp add: sample_user_def)
  from super_admin_query_unscoped [OF this] show ?thesis
    by (simp add: get_accessible_campus_ids_def active_campus_ids_def active_campuses_def
        seed_campus_def sample_user_def)
qed



text \<open>C25: The campus the middleware makes effective for a campus-admin or super-admin,
  passed on to a campus-aware query, scopes that query to exactly that campus.\<close>

theorem middleware_scopes_manager:
  assumes ok: "campus_table_ok cs" and priv: "privileged (user_role u)"
    and rc: "req_campus (process_request cs (Some u) header) = Some c"
  shows "manager_accessible_to_user cs f rows u (Some (campus_pk c)) = manager_for_campus f rows (campus_pk c)"
proof -
  from rc have c: "c \<in> set cs"
    and scope: "campus_pk c = user_campus u \<or> campus_pk c \<in> set (get_accessible_campus_ids cs u)"
    using effective_campus_scope by blast+
  from ok c have pos: "campus_pk c \<noteq> 0" by (auto simp: campus_table_ok_def list_all_iff)
  from scope pos show ?thesis
    by (auto simp: manager_accessible_to_user_def manager_for_campus_def manager_get_queryset_def
        accessible_to_user_def Let_def)
qed

theorem middleware_scopes_manager_witness:
  "manager_accessible_to_user seed_campuses id [1, 2, 3, 3, 4::nat] (sample_user 9 Campus_admin 1 [2, 3]) (Some 3) = [3, 3]"
proof -
  have "campus_table_ok seed_campuses" "privileged (user_role (sample_user 9 Campus_admin 1 [2, 3]))"
    "req_campus (process_request seed_campuses (Some (sample_user 9 Campus_admin 1 [2, 3])) (Some ''3''))
       = Some (seed_campuses ! 2)"
    by code_simp+
  from middleware_scopes_manager [OF this, of id "[1, 2, 3, 3, 4]"] show ?thesis by code_simp
qed

end
