(* ===== verification/Events.thy ===== *)
theory Events
  imports Accounts "HOL-Library.Product_Lexorder"
begin

text \<open>
  The event (\<open>apps/events/models.py\<close>): the \<open>Event\<close> model, its \<open>save\<close> with
  the attendance window it derives and the QR payload it issues once
  (\<open>generate_qr_code\<close>), and the time predicates \<open>is_ongoing\<close> and
  \<open>can_mark_attendance\<close>. The queries an event runs on the attendance table are in
  \<open>Attendance\<close>.

  Time: \<open>datetime.combine(date, time)\<close> is a naive local wall-clock value;
  \<open>make_aware\<close> reads it in the current time zone, whose UTC offset (seconds) is the
  parameter \<open>tz_offset\<close>; aware values are seconds since the epoch in UTC.
\<close>

section \<open>Model\<close>

datatype event_status = Draft | Published | Ongoing | Completed | Cancelled

datatype event_kind = Academic | Seminar | Workshop | Conference | Social | Sports | Cultural | Other

record event =
  event_pk :: uuid
  event_campus :: campus_id
  event_organizer :: user_id
  event_title :: string
  event_type :: event_kind
  event_date :: day
  event_start_time :: time_of_day
  event_end_time :: time_of_day
  event_venue :: string
  event_location :: "(int \<times> int) option"
  event_is_multi_campus :: bool
  event_allowed_campuses :: "campus_id list"
  event_max_participants :: "nat option"
  event_requires_registration :: bool
  event_qr_code :: string
  event_qr_code_data :: string
  event_window_start :: "timestamp option"
  event_window_end :: "timestamp option"
  event_status :: event_status
  event_is_active :: bool
  event_requires_selfie :: bool
  event_requires_gps :: bool
  event_requires_signature :: bool

section \<open>Operations\<close>

definition make_aware_combine :: "int \<Rightarrow> day \<Rightarrow> time_of_day \<Rightarrow> timestamp" where
  "make_aware_combine tz_offset d t = d * 86400 + int t - tz_offset"

text \<open>The first half of \<open>Event.save\<close>: the window, when none is set yet.\<close>

definition event_save_window :: "int \<Rightarrow> event \<Rightarrow> event" where
  "event_save_window tz_offset e =
     (if event_window_start e = None then
        (let event_datetime = make_aware_combine tz_offset (event_date e) (event_start_time e)
         in e\<lparr>event_window_start := Some (event_datetime - 30 * 60),
              event_window_end := Some (event_datetime + 30 * 60)\<rparr>)
      else e)"

definition qr_payload :: "uuid \<Rightarrow> string" where
  "qr_payload i = ''https://easuniversity.site/attend/'' @ uuid_str i"

definition qr_file_name :: "uuid \<Rightarrow> string" where
  "qr_file_name i = ''qr_codes/qr_event_'' @ uuid_str i @ ''.png''"

text \<open>
  \<open>generate_qr_code\<close>: sets the payload and the stored image's name on the object
  and writes both to the event's row. Its guard \<open>if not self.id\<close> never fires: a
  \<open>uuid.UUID\<close> is always truthy and the field has a default.
\<close>

definition generate_qr_code :: "event \<Rightarrow> event list \<Rightarrow> event \<times> event list" where
  "generate_qr_code e rows =
     (let qr_data = qr_payload (event_pk e);
          e' = e\<lparr>event_qr_code_data := qr_data, event_qr_code := qr_file_name (event_pk e)\<rparr>
      in (e', table_update event_pk (event_pk e)
                (\<lambda>r. r\<lparr>event_qr_code := event_qr_code e', event_qr_code_data := event_qr_code_data e'\<rparr>) rows))"

definition event_save :: "int \<Rightarrow> event \<Rightarrow> event list \<Rightarrow> event \<times> event list" where
  "event_save tz_offset e rows =
     (let e1 = event_save_window tz_offset e;
          rows1 = table_save event_pk e1 rows
      in if event_qr_code e1 = [] then generate_qr_code e1 rows1 else (e1, rows1))"

definition is_ongoing :: "int \<Rightarrow> timestamp \<Rightarrow> event \<Rightarrow> bool" where
  "is_ongoing tz_offset now e \<longleftrightarrow>
     make_aware_combine tz_offset (event_date e) (event_start_time e) \<le> now
     \<and> now \<le> make_aware_combine tz_offset (event_date e) (event_end_time e)"

text \<open>The time-window validator of section 4.4: both bounds inclusive, a missing bound fails.\<close>

definition can_mark_attendance :: "timestamp \<Rightarrow> event \<Rightarrow> bool" where
  "can_mark_attendance now e =
     (case (event_window_start e, event_window_end e) of
        (Some ws, Some we) \<Rightarrow> ws \<le> now \<and> now \<le> we
      | _ \<Rightarrow> False)"

text \<open>\<open>Meta.ordering = ['-date', '-start_time']\<close>: the default order of every event query,
  latest day first and, within a day, latest start first.\<close>

definition event_order_key :: "event \<Rightarrow> int \<times> int" where
  "event_order_key e = (- event_date e, - int (event_start_time e))"

definition event_ordering :: "event list \<Rightarrow> event list" where
  "event_ordering es = sort_key event_order_key es"

text \<open>An event with the given key, campus and schedule, and the model's field defaults.\<close>

definition sample_event :: "uuid \<Rightarrow> campus_id \<Rightarrow> day \<Rightarrow> time_of_day \<Rightarrow> time_of_day \<Rightarrow> event" where
  "sample_event i c d t0 t1 = \<lparr>event_pk = i, event_campus = c, event_organizer = 2,
     event_title = ''Orientation'', event_type = Academic, event_date = d,
     event_start_time = t0, event_end_time = t1, event_venue = ''Gym'',
     event_location = None, event_is_multi_campus = False, event_allowed_campuses = [],
     event_max_participants = None, event_requires_registration = False,
     event_qr_code = [], event_qr_code_data = [], event_window_start = None,
     event_window_end = None, event_status = Draft, event_is_active = True,
     event_requires_selfie = True, event_requires_gps = True, event_requires_signature = True\<rparr>"

section \<open>Lemmas\<close>

lemma event_save_window_keeps [simp]:
  "event_pk (event_save_window tz e) = event_pk e"
  "event_campus (event_save_window tz e) = event_campus e"
  "event_qr_code (event_save_window tz e) = event_qr_code e"
  "event_qr_code_data (event_save_window tz e) = event_qr_code_data e"
  "event_date (event_save_window tz e) = event_date e"
  "event_start_time (event_save_window tz e) = event_start_time e"
  "event_end_time (event_save_window tz e) = event_end_time e"
  by (simp_all add: event_save_window_def Let_def)

lemma event_save_window_set:
  "event_window_start e = None \<Longrightarrow>
     event_window_start (event_save_window tz e) =
       Some (make_aware_combine tz (event_date e) (event_start_time e) - 1800)
   \<and> event_window_end (event_save_window tz e) =
       Some (make_aware_combine tz (event_date e) (event_start_time e) + 1800)"
  by (simp add: event_save_window_def Let_def)

lemma event_save_window_idem [simp]:
  "event_save_window tz (event_save_window tz' e) = event_save_window tz' e"
  by (simp add: event_save_window_def Let_def)

lemma qr_file_name_nonempty [simp]: "qr_file_name i \<noteq> []"
  by (simp add: qr_file_name_def)

lemma event_save_object:
  "fst (event_save tz e rows) =
     (let e1 = event_save_window tz e in
      if event_qr_code e1 = [] then
        e1\<lparr>event_qr_code_data := qr_payload (event_pk e), event_qr_code := qr_file_name (event_pk e)\<rparr>
      else e1)"
  by (simp add: event_save_def generate_qr_code_def Let_def)

lemma event_save_row:
  "table_get event_pk (event_pk e) (snd (event_save tz e rows)) = Some (fst (event_save tz e rows))"
proof (cases "event_qr_code (event_save_window tz e) = []")
  case True
  let ?e1 = "event_save_window tz e"
  have "table_get event_pk (event_pk ?e1) (table_save event_pk ?e1 rows) = Some ?e1"
    by (rule table_get_table_save)
  then have "table_get event_pk (event_pk e)
      (table_update event_pk (event_pk e)
        (\<lambda>r. r\<lparr>event_qr_code := qr_file_name (event_pk e), event_qr_code_data := qr_payload (event_pk e)\<rparr>)
        (table_save event_pk ?e1 rows))
      = Some (?e1\<lparr>event_qr_code := qr_file_name (event_pk e), event_qr_code_data := qr_payload (event_pk e)\<rparr>)"
    by (intro table_get_table_update) simp_all
  with True show ?thesis
    by (simp add: event_save_def generate_qr_code_def Let_def)
next
  case False
  then show ?thesis
    using table_get_table_save [of event_pk "event_save_window tz e" rows]
    by (simp add: event_save_def Let_def)
qed

lemma can_mark_attendance_iff:
  "can_mark_attendance now e \<longleftrightarrow>
     (\<exists>ws we. event_window_start e = Some ws \<and> event_window_end e = Some we \<and> ws \<le> now \<and> now \<le> we)"
  by (simp add: can_mark_attendance_def split: option.splits)

lemma event_save_distinct:
  "distinct (map event_pk rows) \<Longrightarrow> distinct (map event_pk (snd (event_save tz e rows)))"
  by (simp add: event_save_def generate_qr_code_def Let_def table_update_distinct table_save_distinct
      del: table_save_keys)

lemma event_save_fixed:
  "event_window_start (fst (event_save tz e rows)) \<noteq> None
   \<and> event_qr_code (fst (event_save tz e rows)) \<noteq> []"
  by (simp add: event_save_object Let_def event_save_window_def)

lemma event_ordering_sorted:
  "sorted (map event_order_key (event_ordering es)) \<and> set (event_ordering es) = set es
   \<and> length (event_ordering es) = length es"
  by (simp add: event_ordering_def)

lemma event_ordering_latest_first:
  assumes "i < j" "j < length (event_ordering es)"
  shows "event_date (event_ordering es ! j) < event_date (event_ordering es ! i)
     \<or> event_date (event_ordering es ! j) = event_date (event_ordering es ! i)
       \<and> event_start_time (event_ordering es ! j) \<le> event_start_time (event_ordering es ! i)"
proof -
  have "sorted (map event_order_key (event_ordering es))" using event_ordering_sorted by blast
  from sorted_nth_mono [OF this, of i j] assms
  have "event_order_key (event_ordering es ! i) \<le> event_order_key (event_ordering es ! j)" by simp
  then show ?thesis by (auto simp: event_order_key_def less_eq_prod_def)
qed

section \<open>Properties\<close>

text \<open>The time-window check is inclusive at both ends: it accepts exactly at the
  window's start and end and rejects one second before the start and one second after
  the end.\<close>

theorem time_window_inclusive:
  assumes "event_window_start e = Some ws" "event_window_end e = Some we" "ws \<le> we"
  shows "can_mark_attendance ws e \<and> can_mark_attendance we e
     \<and> \<not> can_mark_attendance (ws - 1) e \<and> \<not> can_mark_attendance (we + 1) e"
  using assms by (simp add: can_mark_attendance_def)

theorem time_window_inclusive_witness:
  "can_mark_attendance 1000 (fst (event_save 0 (sample_event 7 1 0 2800 7200) []))
   \<and> can_mark_attendance 4600 (fst (event_save 0 (sample_event 7 1 0 2800 7200) []))
   \<and> \<not> can_mark_attendance 999 (fst (event_save 0 (sample_event 7 1 0 2800 7200) []))
   \<and> \<not> can_mark_attendance 4601 (fst (event_save 0 (sample_event 7 1 0 2800 7200) []))"
proof -
  have "event_window_start (fst (event_save 0 (sample_event 7 1 0 2800 7200) [])) = Some 1000"
    "event_window_end (fst (event_save 0 (sample_event 7 1 0 2800 7200) [])) = Some 4600"
    "(1000::int) \<le> 4600"
    by code_simp+
  from time_window_inclusive [OF this] show ?thesis by simp
qed

text \<open>An event with no attendance window (either bound absent) rejects every marking
  time: a missing bound is a hard failure, never an open window.\<close>

theorem time_window_missing_bound_fails:
  assumes "event_window_start e = None \<or> event_window_end e = None"
  shows "\<not> can_mark_attendance now e"
  using assms by (auto simp: can_mark_attendance_def split: option.splits)

theorem time_window_missing_bound_fails_witness:
  "\<not> can_mark_attendance 0 (sample_event 7 1 0 2800 7200)"
  by (rule time_window_missing_bound_fails) (simp add: sample_event_def)

text \<open>C33: Saving an event that has no window yet sets it to thirty minutes either side of
  the event's start, whatever its end time and whatever the campus's
  \<open>attendance_window_minutes\<close>; an event running more than thirty minutes therefore
  closes attendance while it is still in progress.\<close>

theorem event_window_from_start_only:
  assumes "event_window_start e = None"
  shows "event_window_start (fst (event_save tz e rows)) =
           Some (make_aware_combine tz (event_date e) (event_start_time e) - 1800)
     \<and> event_window_end (fst (event_save tz e rows)) =
           Some (make_aware_combine tz (event_date e) (event_start_time e) + 1800)
     \<and> (event_start_time e + 1800 < event_end_time e \<longrightarrow>
           is_ongoing tz (make_aware_combine tz (event_date e) (event_end_time e)) e
         \<and> \<not> can_mark_attendance (make_aware_combine tz (event_date e) (event_end_time e))
               (fst (event_save tz e rows)))"
  using assms
  by (auto simp: event_save_object Let_def event_save_window_def can_mark_attendance_def
      is_ongoing_def make_aware_combine_def)

theorem event_window_from_start_only_witness:
  "is_ongoing 28800 (make_aware_combine 28800 20000 36000) (sample_event 7 1 20000 28800 36000)
   \<and> \<not> can_mark_attendance (make_aware_combine 28800 20000 36000)
         (fst (event_save 28800 (sample_event 7 1 20000 28800 36000) []))"
proof -
  have "event_window_start (sample_event 7 1 20000 28800 36000) = None"
    by (simp add: sample_event_def)
  from event_window_from_start_only [OF this, of 28800 "[]"] show ?thesis
    by (simp add: sample_event_def)
qed

text \<open>C37: The first save of an event issues its QR payload, the attendance URL that embeds
  the event's UUID, and stores it in the event's row.\<close>

theorem event_save_issues_payload:
  assumes "event_qr_code e = []"
  shows "event_qr_code_data (fst (event_save tz e rows)) = qr_payload (event_pk e)
     \<and> table_get event_pk (event_pk e) (snd (event_save tz e rows)) = Some (fst (event_save tz e rows))"
  using assms event_save_row [of e tz rows]
  by (simp add: event_save_object Let_def)

theorem event_save_issues_payload_witness:
  "event_qr_code_data (fst (event_save 0 (sample_event 255 1 0 2800 7200) [])) =
     ''https://easuniversity.site/attend/00000000-0000-0000-0000-0000000000ff''"
proof -
  have "event_qr_code (sample_event 255 1 0 2800 7200) = []" by (simp add: sample_event_def)
  from event_save_issues_payload [OF this, of 0 "[]"]
  have "event_qr_code_data (fst (event_save 0 (sample_event 255 1 0 2800 7200) [])) = qr_payload 255"
    by (simp add: sample_event_def)
  also have "\<dots> = ''https://easuniversity.site/attend/00000000-0000-0000-0000-0000000000ff''"
    by code_simp
  finally show ?thesis .
qed

text \<open>C38: Saving an event again changes nothing: the window, the QR payload and the table
  are those of the first save (re-issuing the token is idempotent).\<close>

theorem event_resave_idempotent:
  assumes "distinct (map event_pk rows)"
  shows "event_save tz' (fst (event_save tz e rows)) (snd (event_save tz e rows)) = event_save tz e rows"
proof -
  let ?e' = "fst (event_save tz e rows)" and ?rows' = "snd (event_save tz e rows)"
  have keep: "event_save_window tz' ?e' = ?e'"
    using event_save_fixed [of tz e rows]
    by (cases "event_window_start ?e'") (simp_all add: event_save_window_def)
  have "event_pk ?e' = event_pk e"
    by (simp add: event_save_object Let_def)
  then have get: "table_get event_pk (event_pk ?e') ?rows' = Some ?e'"
    using event_save_row [of e tz rows] by simp
  have "table_save event_pk ?e' ?rows' = ?rows'"
    using event_save_distinct [OF assms] get by (rule table_save_same)
  with keep event_save_fixed [of tz e rows] show ?thesis
    by (simp add: event_save_def [of tz' ?e'] Let_def)
qed

theorem event_resave_idempotent_witness:
  "event_save 0 (fst (event_save 0 (sample_event 7 1 0 2800 7200) [])) (snd (event_save 0 (sample_event 7 1 0 2800 7200) []))
     = event_save 0 (sample_event 7 1 0 2800 7200) []"
  by (rule event_resave_idempotent) simp

end
