(* ===== verification/Attendance.thy ===== *)
theory Attendance
  imports Events
begin

text \<open>
  Attendance records (\<open>apps/attendance/models.py\<close>) and the queries the event
  and user models run on them (\<open>apps/events/models.py\<close>,
  \<open>apps/accounts/models.py\<close>).
  \<^item> \<open>Attendance.save\<close> fills in the campus, the cross-campus flag and the arrival
    time, then writes the row; the database's \<open>unique_together = ['event', 'user']\<close>
    refuses a second row for the same pair with an \<open>IntegrityError\<close>, the
    \<open>Integrity_error\<close> value here. Keys are assigned by the database on insert.
  \<^item> \<open>AttendanceLog\<close> rows are appended, \<open>AttendanceValidation\<close> rows carry their
    own \<open>unique_together = ['attendance', 'validation_type']\<close>.
  \<^item> \<open>Event.attendance_count\<close>, \<open>get_attendance_for_campus\<close> and
    \<open>can_user_attend\<close>; \<open>User.get_attendance_count\<close> and
    \<open>get_organized_events_count\<close>.
  GPS coordinates are a JSON object of floats in the source; here latitude and
  longitude are integers in \<open>10\<^sup>-\<^sup>7\<close> degree and the accuracy in metres.
\<close>

section \<open>Model\<close>

datatype attendance_status = Present | Absent | Late | Excused

datatype verification_method = Qr_code | Manual | Facial_recognition | Admin_override

record gps_reading =
  gps_lat :: int
  gps_lng :: int
  gps_accuracy :: "nat option"

record attendance =
  att_pk :: "record_id option"
  att_campus :: "campus_id option"
  att_event :: uuid
  att_user :: user_id
  att_status :: attendance_status
  att_method :: verification_method
  att_cross_campus :: bool
  att_selfie :: bool
  att_signature :: bool
  att_gps :: "gps_reading option"
  att_marked_at :: timestamp
  att_arrival_time :: "time_of_day option"
  att_departure_time :: "time_of_day option"
  att_is_verified :: bool
  att_score :: "nat option"
  att_notes :: string
  att_ip :: "string option"
  att_user_agent :: string
  att_marked_by :: "user_id option"

datatype log_action = Marked | Updated | Verified | Rejected | Deleted

record attendance_log =
  log_attendance :: record_id
  log_campus :: campus_id
  log_action :: log_action
  log_performed_by :: "user_id option"
  log_details :: "(string \<times> string) list"
  log_ip :: "string option"
  log_timestamp :: timestamp

datatype validation_type = Gps_distance | Time_window | Image_verification | Duplicate_check

datatype validation_status = Passed | Failed | Warning

record attendance_validation =
  val_attendance :: record_id
  val_type :: validation_type
  val_status :: validation_status
  val_confidence :: nat
  val_details :: "(string \<times> string) list"

datatype db_error = Integrity_error

section \<open>Saving a record\<close>

text \<open>
  \<open>marked_at.time()\<close> on an aware \<open>datetime\<close> is its time of day in UTC, the zone
  Django keeps aware values in.
\<close>

definition utc_time_of :: "timestamp \<Rightarrow> time_of_day" where
  "utc_time_of t = nat (t mod 86400)"

definition attendance_prepare :: "user \<Rightarrow> event \<Rightarrow> attendance \<Rightarrow> attendance" where
  "attendance_prepare u e a =
     (let a1 = (if \<not> py_truthy_id (att_campus a) then a\<lparr>att_campus := Some (event_campus e)\<rparr> else a);
          a2 = a1\<lparr>att_cross_campus := (user_campus u \<noteq> event_campus e)\<rparr>;
          a3 = (if att_arrival_time a2 = None then a2\<lparr>att_arrival_time := Some (utc_time_of (att_marked_at a2))\<rparr>
                else a2)
      in a3)"

definition att_key :: "attendance \<Rightarrow> uuid \<times> user_id" where
  "att_key a = (att_event a, att_user a)"

definition next_record_id :: "attendance list \<Rightarrow> record_id" where
  "next_record_id rows = Suc (fold max (map (\<lambda>r. case att_pk r of Some k \<Rightarrow> k | None \<Rightarrow> 0) rows) 0)"

text \<open>
  The write of \<open>super().save()\<close>: an insert when the object has no key yet, an
  update of the row with its key otherwise; either is refused when another row has
  the same (event, user) pair.
\<close>

definition attendance_db_save :: "attendance \<Rightarrow> attendance list \<Rightarrow> db_error + attendance \<times> attendance list" where
  "attendance_db_save a rows =
     (if \<exists>r \<in> set rows. att_key r = att_key a \<and> (att_pk a = None \<or> att_pk r \<noteq> att_pk a)
      then Inl Integrity_error
      else (case att_pk a of
              None \<Rightarrow> (let a' = a\<lparr>att_pk := Some (next_record_id rows)\<rparr> in Inr (a', rows @ [a']))
            | Some _ \<Rightarrow> Inr (a, table_save att_pk a rows)))"

definition attendance_save :: "user \<Rightarrow> event \<Rightarrow> attendance \<Rightarrow> attendance list \<Rightarrow> db_error + attendance \<times> attendance list" where
  "attendance_save u e a rows = attendance_db_save (attendance_prepare u e a) rows"

definition is_late :: "event \<Rightarrow> attendance \<Rightarrow> bool" where
  "is_late e a = (case att_arrival_time a of None \<Rightarrow> False | Some t \<Rightarrow> event_start_time e < t)"

record verification_details =
  vd_method :: verification_method
  vd_has_selfie :: bool
  vd_has_signature :: bool
  vd_has_gps :: bool
  vd_score :: "nat option"
  vd_gps_accuracy :: "nat option option"

definition verification_details :: "attendance \<Rightarrow> verification_details" where
  "verification_details a = \<lparr>vd_method = att_method a, vd_has_selfie = att_selfie a,
     vd_has_signature = att_signature a, vd_has_gps = (att_gps a \<noteq> None),
     vd_score = att_score a,
     vd_gps_accuracy = (case att_gps a of None \<Rightarrow> None | Some g \<Rightarrow> Some (gps_accuracy g))\<rparr>"

section \<open>Logs and validations\<close>

definition append_log :: "attendance_log \<Rightarrow> attendance_log list \<Rightarrow> attendance_log list" where
  "append_log l logs = logs @ [l]"

definition validation_key :: "attendance_validation \<Rightarrow> record_id \<times> validation_type" where
  "validation_key v = (val_attendance v, val_type v)"

definition insert_validation ::
  "attendance_validation \<Rightarrow> attendance_validation list \<Rightarrow> db_error + attendance_validation list" where
  "insert_validation v vs =
     (if \<exists>w \<in> set vs. validation_key w = validation_key v then Inl Integrity_error else Inr (vs @ [v]))"

section \<open>Queries of the event and user models\<close>

definition attendance_count :: "event \<Rightarrow> attendance list \<Rightarrow> nat" where
  "attendance_count e rows = length (filter (\<lambda>a. att_event a = event_pk e \<and> att_status a = Present) rows)"

definition get_attendance_for_campus :: "event \<Rightarrow> campus_id \<Rightarrow> attendance list \<Rightarrow> nat" where
  "get_attendance_for_campus e c rows =
     length (filter (\<lambda>a. att_event a = event_pk e \<and> att_campus a = Some c \<and> att_status a = Present) rows)"

definition msg_not_available :: string where "msg_not_available = ''Event not available for your campus''"
definition msg_at_capacity :: string where "msg_at_capacity = ''Event is at capacity''"
definition msg_already_marked :: string where "msg_already_marked = ''Already marked attendance for this event''"
definition msg_window_closed :: string where "msg_window_closed = ''Attendance window is closed''"
definition msg_can_attend :: string where "msg_can_attend = ''Can attend''"

definition at_capacity :: "event \<Rightarrow> attendance list \<Rightarrow> bool" where
  "at_capacity e rows =
     (case event_max_participants e of None \<Rightarrow> False | Some m \<Rightarrow> m \<noteq> 0 \<and> m \<le> attendance_count e rows)"

definition has_record :: "event \<Rightarrow> user \<Rightarrow> attendance list \<Rightarrow> bool" where
  "has_record e u rows \<longleftrightarrow> (\<exists>a \<in> set rows. att_event a = event_pk e \<and> att_user a = user_pk u)"

definition can_user_attend :: "timestamp \<Rightarrow> user \<Rightarrow> event \<Rightarrow> attendance list \<Rightarrow> bool \<times> string" where
  "can_user_attend now u e rows =
     (if \<not> event_is_multi_campus e \<and> user_campus u \<noteq> event_campus e then (False, msg_not_available)
      else if event_is_multi_campus e \<and> user_campus u \<notin> set (event_allowed_campuses e)
        then (False, msg_not_available)
      else if at_capacity e rows then (False, msg_at_capacity)
      else if has_record e u rows then (False, msg_already_marked)
      else if \<not> can_mark_attendance now e then (False, msg_window_closed)
      else (True, msg_can_attend))"

definition get_attendance_count :: "user \<Rightarrow> campus_id option \<Rightarrow> attendance list \<Rightarrow> nat" where
  "get_attendance_count u campus_id rows =
     (let mine = filter (\<lambda>a. att_user a = user_pk u) rows in
      case campus_id of
        Some c \<Rightarrow> if c \<noteq> 0 then length (filter (\<lambda>a. att_campus a = Some c) mine) else length mine
      | None \<Rightarrow> length mine)"

definition get_organized_events_count :: "user \<Rightarrow> campus_id option \<Rightarrow> event list \<Rightarrow> nat" where
  "get_organized_events_count u campus_id events =
     (let mine = filter (\<lambda>e. event_organizer e = user_pk u) events in
      case campus_id of
        Some c \<Rightarrow> if c \<noteq> 0 then length (filter (\<lambda>e. event_campus e = c) mine) else length mine
      | None \<Rightarrow> length mine)"

text \<open>
  The table keeps one row per (event, user) pair, unique keys, and no row without
  a key.
\<close>

definition attendance_table_ok :: "attendance list \<Rightarrow> bool" where
  "attendance_table_ok rows \<longleftrightarrow>
     distinct (map att_key rows) \<and> distinct (map att_pk rows) \<and> None \<notin> set (map att_pk rows)"

text \<open>A new record as a submission builds it, before \<open>save\<close>.\<close>

definition new_attendance ::
  "uuid \<Rightarrow> user_id \<Rightarrow> verification_method \<Rightarrow> timestamp \<Rightarrow> attendance" where
  "new_attendance e u m t = \<lparr>att_pk = None, att_campus = None, att_event = e, att_user = u,
     att_status = Present, att_method = m, att_cross_campus = False, att_selfie = False,
     att_signature = False, att_gps = None, att_marked_at = t, att_arrival_time = None,
     att_departure_time = None, att_is_verified = True, att_score = None, att_notes = [],
     att_ip = None, att_user_agent = [], att_marked_by = None\<rparr>"

section \<open>Lemmas\<close>

lemma attendance_prepare_keeps [simp]:
  "att_pk (attendance_prepare u e a) = att_pk a"
  "att_event (attendance_prepare u e a) = att_event a"
  "att_user (attendance_prepare u e a) = att_user a"
  "att_status (attendance_prepare u e a) = att_status a"
  "att_marked_at (attendance_prepare u e a) = att_marked_at a"
  "att_key (attendance_prepare u e a) = att_key a"
  by (simp_all add: attendance_prepare_def Let_def att_key_def)

lemma attendance_prepare_derived:
  "att_cross_campus (attendance_prepare u e a) = (user_campus u \<noteq> event_campus e)
   \<and> att_campus (attendance_prepare u e a) =
       (if py_truthy_id (att_campus a) then att_campus a else Some (event_campus e))
   \<and> att_arrival_time (attendance_prepare u e a) =
       (case att_arrival_time a of None \<Rightarrow> Some (utc_time_of (att_marked_at a)) | Some t \<Rightarrow> Some t)"
  by (simp add: attendance_prepare_def Let_def split: option.splits)

lemma next_record_id_fresh: "r \<in> set rows \<Longrightarrow> att_pk r \<noteq> Some (next_record_id rows)"
proof
  assume r: "r \<in> set rows" and eq: "att_pk r = Some (next_record_id rows)"
  have "(case att_pk r of Some k \<Rightarrow> k | None \<Rightarrow> 0)
          \<in> set (map (\<lambda>r. case att_pk r of Some k \<Rightarrow> k | None \<Rightarrow> 0) rows)"
    using r by simp
  then have "next_record_id rows \<le> fold max (map (\<lambda>r. case att_pk r of Some k \<Rightarrow> k | None \<Rightarrow> 0) rows) 0"
    using eq fold_max_ge by (metis option.simps(5))
  then show False by (simp add: next_record_id_def)
qed

lemma attendance_db_save_Inr:
  assumes "attendance_db_save a rows = Inr (a', rows')"
  shows "\<not> (\<exists>r \<in> set rows. att_key r = att_key a \<and> (att_pk a = None \<or> att_pk r \<noteq> att_pk a))
    \<and> att_key a' = att_key a \<and> att_pk a' \<noteq> None
    \<and> (att_pk a = None \<longrightarrow> a' = a\<lparr>att_pk := Some (next_record_id rows)\<rparr> \<and> rows' = rows @ [a'])
    \<and> (att_pk a \<noteq> None \<longrightarrow> a' = a \<and> rows' = table_save att_pk a rows)"
  using assms
  by (auto simp: attendance_db_save_def att_key_def Let_def split: if_splits option.splits)

lemma attendance_db_save_ok:
  assumes ok: "attendance_table_ok rows" and s: "attendance_db_save a rows = Inr (a', rows')"
  shows "attendance_table_ok rows' \<and> table_get att_pk (att_pk a') rows' = Some a'"
proof (cases "att_pk a")
  case None
  with attendance_db_save_Inr [OF s]
  have guard: "\<forall>r \<in> set rows. att_key r \<noteq> att_key a"
    and a': "a' = a\<lparr>att_pk := Some (next_record_id rows)\<rparr>" and rows': "rows' = rows @ [a']"
    by auto
  have fresh: "\<forall>r \<in> set rows. att_pk r \<noteq> att_pk a'"
    using next_record_id_fresh a' by auto
  have "att_key a' = att_key a" using a' by (simp add: att_key_def)
  with ok guard fresh rows' a' have "attendance_table_ok rows'"
    by (auto simp: attendance_table_ok_def image_iff)
  moreover have "table_get att_pk (att_pk a') (rows @ [a']) = Some a'"
    using fresh by (induction rows) (auto simp: table_get_def)
  ultimately show ?thesis using rows' by simp
next
  case (Some k)
  with attendance_db_save_Inr [OF s]
  have guard: "\<forall>r \<in> set rows. att_key r = att_key a \<longrightarrow> att_pk r = att_pk a"
    and a': "a' = a" and rows': "rows' = table_save att_pk a rows"
    by auto
  from ok have d1: "distinct (map att_pk rows)" and d2: "distinct (map att_key rows)"
    by (simp_all add: attendance_table_ok_def)
  have "distinct (map att_key rows')"
    using table_save_distinct_secondary [OF d1 d2] guard rows' by blast
  moreover have "distinct (map att_pk rows')"
    using table_save_distinct [OF d1] rows' by blast
  moreover have "None \<notin> set (map att_pk rows')"
    using ok Some rows' by (auto simp: attendance_table_ok_def)
  ultimately show ?thesis
    using rows' a' by (simp add: attendance_table_ok_def)
qed

lemma attendance_count_le: "attendance_count e rows \<le> length rows"
  by (simp add: attendance_count_def)

lemma can_user_attend_True:
  "fst (can_user_attend now u e rows) \<longleftrightarrow>
     (if event_is_multi_campus e then user_campus u \<in> set (event_allowed_campuses e)
      else user_campus u = event_campus e)
     \<and> \<not> at_capacity e rows \<and> \<not> has_record e u rows \<and> can_mark_attendance now e"
  by (auto simp: can_user_attend_def)

lemma attendance_save_Inr_in:
  assumes "attendance_table_ok rows" "attendance_save u e a rows = Inr (a', rows')"
  shows "attendance_table_ok rows' \<and> a' \<in> set rows' \<and> att_key a' = att_key a"
proof -
  from assms have s: "attendance_db_save (attendance_prepare u e a) rows = Inr (a', rows')"
    by (simp add: attendance_save_def)
  from attendance_db_save_ok [OF assms(1) s]
  have ok: "attendance_table_ok rows'" and get: "table_get att_pk (att_pk a') rows' = Some a'" by simp_all
  from get have "a' \<in> set rows'" by (auto simp: table_get_def find_Some_iff dest: nth_mem)
  moreover from attendance_db_save_Inr [OF s] have "att_key a' = att_key a" by simp
  ultimately show ?thesis using ok by simp
qed

section \<open>Properties\<close>

text \<open>C1: Saving an attendance record keeps the table's invariant (at most one record per
  event and actor, unique keys) and stores the saved record under the same event and
  actor.\<close>

theorem attendance_save_preserves_uniqueness:
  assumes "attendance_table_ok rows" "attendance_save u e a rows = Inr (a', rows')"
  shows "attendance_table_ok rows' \<and> a' \<in> set rows' \<and> att_key a' = att_key a"
  using assms by (rule attendance_save_Inr_in)

theorem attendance_save_preserves_uniqueness_witness:
  "attendance_table_ok (snd (projr (attendance_save (sample_user 3 Student 1 []) (sample_event 7 1 0 2800 7200)
      (new_attendance 7 3 Qr_code 1500) [])))"
proof -
  let ?r = "attendance_save (sample_user 3 Student 1 []) (sample_event 7 1 0 2800 7200) (new_attendance 7 3 Qr_code 1500) []"
  have ok: "attendance_table_ok []" by (simp add: attendance_table_ok_def)
  have r: "?r = Inr (fst (projr ?r), snd (projr ?r))" by code_simp
  from attendance_save_preserves_uniqueness [OF ok r] show ?thesis by simp
qed

text \<open>C4: A second record for an event and actor that already have one is refused by the
  database's unique constraint with an integrity error, never stored.\<close>

theorem attendance_save_rejects_duplicate_pair:
  assumes "\<exists>r \<in> set rows. att_event r = att_event a \<and> att_user r = att_user a \<and> att_pk r \<noteq> att_pk a"
  shows "attendance_save u e a rows = Inl Integrity_error"
  using assms by (auto simp: attendance_save_def attendance_db_save_def att_key_def)

theorem attendance_save_rejects_duplicate_pair_witness:
  "attendance_save (sample_user 3 Student 1 []) (sample_event 7 1 0 2800 7200) (new_attendance 7 3 Manual 1600)
     [(new_attendance 7 3 Qr_code 1500)\<lparr>att_pk := Some 1\<rparr>] = Inl Integrity_error"
  by (rule attendance_save_rejects_duplicate_pair) (simp add: new_attendance_def)

text \<open>C36: A saved record carries the derived fields the save computes: its campus defaults to
  the event's campus, its cross-campus flag is exactly "the actor's home campus differs
  from the event's", and its arrival time defaults to the marking time's time of day.\<close>

theorem attendance_save_derived_fields:
  assumes "attendance_save u e a rows = Inr (a', rows')"
  shows "att_cross_campus a' = (user_campus u \<noteq> event_campus e)
    \<and> att_campus a' = (if py_truthy_id (att_campus a) then att_campus a else Some (event_campus e))
    \<and> att_arrival_time a' =
         (case att_arrival_time a of None \<Rightarrow> Some (utc_time_of (att_marked_at a)) | Some t \<Rightarrow> Some t)"
proof -
  from assms have s: "attendance_db_save (attendance_prepare u e a) rows = Inr (a', rows')"
    by (simp add: attendance_save_def)
  from attendance_db_save_Inr [OF s] have
    "att_cross_campus a' = att_cross_campus (attendance_prepare u e a)
     \<and> att_campus a' = att_campus (attendance_prepare u e a)
     \<and> att_arrival_time a' = att_arrival_time (attendance_prepare u e a)"
    by (cases "att_pk a") auto
  then show ?thesis by (simp add: attendance_prepare_derived)
qed

theorem attendance_save_derived_fields_witness:
  "att_cross_campus (fst (projr (attendance_save (sample_user 3 Student 2 []) (sample_event 7 1 0 2800 7200)
      (new_attendance 7 3 Qr_code 1500) [])))
   \<and> att_campus (fst (projr (attendance_save (sample_user 3 Student 2 []) (sample_event 7 1 0 2800 7200)
      (new_attendance 7 3 Qr_code 1500) []))) = Some 1"
proof -
  let ?r = "attendance_save (sample_user 3 Student 2 []) (sample_event 7 1 0 2800 7200) (new_attendance 7 3 Qr_code 1500) []"
  have r: "?r = Inr (fst (projr ?r), snd (projr ?r))" by code_simp
  from attendance_save_derived_fields [OF r] show ?thesis
    by (simp add: sample_user_def sample_event_def new_attendance_def)
qed

text \<open>C35: Lateness compares the arrival time that \<open>save\<close> takes from the marking time's UTC
  clock with the event's local start time: in a zone ahead of UTC an actor marked ten
  minutes after a 09:00 local start is not late.\<close>

theorem is_late_uses_utc_arrival:
  assumes "att_arrival_time a = None" "attendance_save u e a rows = Inr (a', rows')"
  shows "is_late e a' \<longleftrightarrow> event_start_time e < utc_time_of (att_marked_at a)"
proof -
  from assms have s: "attendance_db_save (attendance_prepare u e a) rows = Inr (a', rows')"
    by (simp add: attendance_save_def)
  from attendance_db_save_Inr [OF s] have
    "att_arrival_time a' = att_arrival_time (attendance_prepare u e a)"
    by (cases "att_pk a") auto
  with assms(1) show ?thesis by (simp add: is_late_def attendance_prepare_derived)
qed

theorem is_late_uses_utc_arrival_witness:
  "make_aware_combine 28800 1 33000 = 90600 \<and> (32400::nat) < 33000 \<and> \<not> is_late (sample_event 7 1 1 32400 36000)
      (fst (projr (attendance_save (sample_user 3 Student 1 []) (sample_event 7 1 1 32400 36000)
        (new_attendance 7 3 Qr_code 90600) [])))"
proof -
  let ?a = "new_attendance 7 3 Qr_code 90600"
  let ?a' = "attendance_prepare (sample_user 3 Student 1 []) (sample_event 7 1 1 32400 36000) ?a\<lparr>att_pk := Some 1\<rparr>"
  have a: "att_arrival_time ?a = None" by (simp add: new_attendance_def)
  have r: "attendance_save (sample_user 3 Student 1 []) (sample_event 7 1 1 32400 36000) ?a [] = Inr (?a', [?a'])"
    by (simp add: attendance_save_def attendance_db_save_def next_record_id_def new_attendance_def Let_def)
  from is_late_uses_utc_arrival [OF a r] r show ?thesis
    by (simp add: sample_event_def new_attendance_def utc_time_of_def make_aware_combine_def)
qed

text \<open>For an event that is not multi-campus, an actor from another campus is refused
  with "Event not available for your campus", before capacity, duplicates or the window
  are looked at.\<close>

theorem can_user_attend_foreign_campus:
  assumes "\<not> event_is_multi_campus e" "user_campus u \<noteq> event_campus e"
  shows "can_user_attend now u e rows = (False, msg_not_available)"
  using assms by (simp add: can_user_attend_def)

theorem can_user_attend_foreign_campus_witness:
  "can_user_attend 1500 (sample_user 3 Student 2 []) (sample_event 7 1 0 2800 7200) [] =
     (False, ''Event not available for your campus'')"
  using can_user_attend_foreign_campus [of "sample_event 7 1 0 2800 7200" "sample_user 3 Student 2 []" 1500 "[]"]
  by (simp add: sample_event_def sample_user_def msg_not_available_def)

text \<open>C34: A capacity of 0 is falsy in the capacity test, so an event whose
  \<open>max_participants\<close> is 0 is never reported at capacity: it behaves as unlimited.\<close>

theorem capacity_zero_unlimited:
  assumes "event_max_participants e = Some 0"
  shows "\<not> at_capacity e rows \<and> snd (can_user_attend now u e rows) \<noteq> msg_at_capacity"
  using assms
  by (auto simp: can_user_attend_def at_capacity_def msg_at_capacity_def msg_not_available_def
      msg_already_marked_def msg_window_closed_def msg_can_attend_def)

theorem capacity_zero_unlimited_witness:
  "can_user_attend 1500 (sample_user 3 Student 1 []) (fst (event_save 0 ((sample_event 7 1 0 2800 7200)\<lparr>event_max_participants := Some 0\<rparr>) []))
     [] = (True, ''Can attend'')"
proof -
  let ?e = "fst (event_save 0 ((sample_event 7 1 0 2800 7200)\<lparr>event_max_participants := Some 0\<rparr>) [])"
  have "event_max_participants ?e = Some 0" by code_simp
  from capacity_zero_unlimited [OF this, of "[]" 1500 "sample_user 3 Student 1 []"]
  show ?thesis by code_simp
qed

end
