(* ===== verification/QRToken.thy ===== *)
theory QRToken
  imports Events
begin

text \<open>
  The QR token manager of section 4.2. Issuing is the source's
  \<open>generate_qr_code\<close> (\<open>Events.qr_payload\<close>: the attendance URL with the event's
  UUID, written once by \<open>Event.save\<close>). Validation has no code in the repository
  (the attend endpoint is not part of it), so it is modelled from the
  specification: a token is well-formed when it is the attendance URL followed by a
  UUID in Python's canonical form (8-4-4-4-12 lowercase hexadecimal digits), and it
  is valid until \<open>qr_code_expiry_hours\<close> after its issue time. A malformed token is
  a different error from an expired one.
\<close>

section \<open>Validation\<close>

datatype token_error = Token_expired | Token_malformed

definition qr_prefix :: string where
  "qr_prefix = ''https://easuniversity.site/attend/''"

definition uuid_ungroup :: "string \<Rightarrow> string" where
  "uuid_ungroup s = take 8 s @ take 4 (drop 9 s) @ take 4 (drop 14 s) @ take 4 (drop 19 s) @ drop 24 s"

definition parse_uuid :: "string \<Rightarrow> uuid option" where
  "parse_uuid s =
     (if length s = 36 \<and> s ! 8 = CHR ''-'' \<and> s ! 13 = CHR ''-'' \<and> s ! 18 = CHR ''-'' \<and> s ! 23 = CHR ''-''
      then map_option of_nat (hex_acc 0 (uuid_ungroup s)) else None)"

definition parse_token :: "string \<Rightarrow> uuid option" where
  "parse_token s =
     (if take (length qr_prefix) s = qr_prefix then parse_uuid (drop (length qr_prefix) s) else None)"

definition token_deadline :: "campus_configuration \<Rightarrow> timestamp \<Rightarrow> timestamp" where
  "token_deadline cfg issued = issued + int (qr_code_expiry_hours cfg) * 3600"

definition validate_token :: "campus_configuration \<Rightarrow> timestamp \<Rightarrow> string \<Rightarrow> timestamp \<Rightarrow> token_error + uuid" where
  "validate_token cfg issued tok now =
     (case parse_token tok of
        None \<Rightarrow> Inl Token_malformed
      | Some i \<Rightarrow> if now \<le> token_deadline cfg issued then Inr i else Inl Token_expired)"

section \<open>Lemmas\<close>

lemma take_drop_join: "take n (drop m xs) @ drop (n + m) xs = drop m xs"
  by (metis append_take_drop_id drop_drop)

lemma uuid_regroup: "take 8 h @ take 4 (drop 8 h) @ take 4 (drop 12 h) @ take 4 (drop 16 h) @ drop 20 h = h"
proof -
  have "take 4 (drop 16 h) @ drop 20 h = drop 16 h" using take_drop_join [of 4 16 h] by simp
  moreover have "take 4 (drop 12 h) @ drop 16 h = drop 12 h" using take_drop_join [of 4 12 h] by simp
  moreover have "take 4 (drop 8 h) @ drop 12 h = drop 8 h" using take_drop_join [of 4 8 h] by simp
  ultimately show ?thesis by simp
qed

lemma uuid_str_hyphens:
  "uuid_str u ! 8 = CHR ''-'' \<and> uuid_str u ! 13 = CHR ''-'' \<and> uuid_str u ! 18 = CHR ''-''
   \<and> uuid_str u ! 23 = CHR ''-''"
  by (simp add: uuid_str_def uuid_hex_def Let_def nth_append)

lemma uuid_ungroup_uuid_str: "uuid_ungroup (uuid_str u) = uuid_hex u"
proof -
  have "length (uuid_hex u) = 32" by (simp add: uuid_hex_def)
  then have "uuid_ungroup (uuid_str u) =
      take 8 (uuid_hex u) @ take 4 (drop 8 (uuid_hex u)) @ take 4 (drop 12 (uuid_hex u))
      @ take 4 (drop 16 (uuid_hex u)) @ drop 20 (uuid_hex u)"
    by (simp add: uuid_ungroup_def uuid_str_def Let_def)
  then show ?thesis by (simp only: uuid_regroup)
qed

lemma parse_uuid_uuid_str [simp]: "parse_uuid (uuid_str u) = Some u"
  using uuid_str_hyphens [of u] hex_acc_uuid_hex [of u]
  by (simp add: parse_uuid_def uuid_ungroup_uuid_str)

lemma qr_payload_prefix: "qr_payload i = qr_prefix @ uuid_str i"
  by (simp add: qr_payload_def qr_prefix_def)

lemma parse_token_qr_payload [simp]: "parse_token (qr_payload i) = Some i"
  by (simp add: parse_token_def qr_payload_prefix)

lemma qr_payload_inj: "qr_payload i = qr_payload j \<Longrightarrow> i = j"
  by (metis option.inject parse_token_qr_payload)

section \<open>Properties\<close>

text \<open>C22: Token round trip: the payload the event's first save issues parses back to that
  event's UUID, so distinct events never share a token.\<close>

theorem qr_token_roundtrip:
  "parse_token (qr_payload i) = Some i \<and> (qr_payload i = qr_payload j \<longleftrightarrow> i = j)"
  using qr_payload_inj by auto

text \<open>Up to its deadline (issue time plus \<open>qr_code_expiry_hours\<close>) an issued token
  validates to the event it was issued for.\<close>

theorem qr_token_valid_until_deadline:
  assumes "now \<le> token_deadline cfg issued"
  shows "validate_token cfg issued (qr_payload i) now = Inr i"
  using assms by (simp add: validate_token_def)

theorem qr_token_valid_until_deadline_witness:
  "validate_token (seed_configuration 1) 0 (qr_payload 7) (24 * 3600) = Inr 7"
  by (rule qr_token_valid_until_deadline) (simp add: token_deadline_def seed_configuration_def default_configuration_def)

text \<open>C23: An issued token validates to its event exactly up to the issue time plus
  \<open>qr_code_expiry_hours\<close> hours, inclusive, and fails with the expiry error from the next
  second on; a string that is not an issued payload fails with the malformed-token error at
  any time.\<close>

theorem qr_token_expired_not_malformed:
  "validate_token cfg issued (qr_payload i) now =
     (if now \<le> issued + int (qr_code_expiry_hours cfg) * 3600 then Inr i else Inl Token_expired)
   \<and> (parse_token s = None \<longrightarrow> validate_token cfg issued s now' = Inl Token_malformed)"
  by (simp add: validate_token_def token_deadline_def)

theorem qr_token_expired_not_malformed_witness:
  "validate_token (seed_configuration 1) 0 (qr_payload 7) (24 * 3600) = Inr 7
   \<and> validate_token (seed_configuration 1) 0 (qr_payload 7) (24 * 3600 + 1) = Inl Token_expired
   \<and> validate_token (seed_configuration 1) 0 ''https://easuniversity.site/attend/7'' 0 = Inl Token_malformed"
proof -
  have h: "qr_code_expiry_hours (seed_configuration 1) = 24"
    by (simp add: seed_configuration_def default_configuration_def)
  have p: "parse_token ''https://easuniversity.site/attend/7'' = None"
    by code_simp
  note t = qr_token_expired_not_malformed [where cfg = "seed_configuration 1" and issued = 0 and i = 7
      and s = "''https://easuniversity.site/attend/7''" and now' = 0]
  from t [where now = "24 * 3600"] t [where now = "24 * 3600 + 1"] p h show ?thesis by simp
qed

end
