(* ===== verification/Pipeline.thy ===== *)
theory Pipeline
  imports Attendance QRToken
begin

text \<open>
  The attendance verification pipeline of section 4.5 and the audit log writer of
  section 4.6. The repository has no view or service that marks attendance (its
  attendance API is commented out of \<open>App/urls.py\<close>), so the orchestration is
  modelled from the specification, on top of the source's own pieces:
  \<^item> gates 1 to 4 (campus eligibility, capacity, duplicate, time window) are the
    source's \<open>Event.can_user_attend\<close>, its message mapped to the typed error;
  \<^item> gate 5 validates the QR token (\<open>QRToken\<close>), gate 6 the GPS distance, gate 7 the
    required selfie and signature;
  \<^item> persistence is the source's \<open>Attendance.save\<close>; its unique-constraint error
    collapses to \<open>Already_marked\<close>, the outcome of the explicit duplicate gate;
  \<^item> the audit entry is written with the record; when the audit store is down the
    whole submission fails and nothing is kept (section 4.6).
  The great-circle distance is a parameter \<open>dist\<close> (metres between two coordinate
  pairs): haversine is trigonometry on reals, which the kernel does not evaluate, and
  every lemma here holds for any distance function.
\<close>

section \<open>Model\<close>

datatype submit_error =
    Not_eligible_for_campus | Event_at_capacity | Already_marked | Window_closed
  | Invalid_token | Location_out_of_range "nat option" | Missing_evidence | Audit_write_failure

record evidence =
  ev_method :: verification_method
  ev_token :: "string option"
  ev_gps :: "gps_reading option"
  ev_selfie :: bool
  ev_signature :: bool
  ev_ip :: "string option"
  ev_user_agent :: string

record store =
  st_attendance :: "attendance list"
  st_validations :: "attendance_validation list"
  st_logs :: "attendance_log list"
  st_audit_up :: bool

type_synonym distance_fn = "int \<times> int \<Rightarrow> int \<times> int \<Rightarrow> nat"

datatype gps_outcome = Gps_skipped | Gps_passed nat | Gps_failed "nat option"

section \<open>Gates\<close>

definition error_of_message :: "string \<Rightarrow> submit_error" where
  "error_of_message m =
     (if m = msg_not_available then Not_eligible_for_campus
      else if m = msg_at_capacity then Event_at_capacity
      else if m = msg_already_marked then Already_marked
      else Window_closed)"

definition eligibility_gate :: "timestamp \<Rightarrow> user \<Rightarrow> event \<Rightarrow> attendance list \<Rightarrow> submit_error option" where
  "eligibility_gate now u e rows =
     (case can_user_attend now u e rows of (ok, m) \<Rightarrow> if ok then None else Some (error_of_message m))"

definition token_gate ::
  "campus_configuration \<Rightarrow> timestamp \<Rightarrow> timestamp \<Rightarrow> event \<Rightarrow> evidence \<Rightarrow> submit_error option" where
  "token_gate cfg issued now e ev =
     (if ev_method ev = Qr_code then
        (case ev_token ev of
           None \<Rightarrow> Some Invalid_token
         | Some t \<Rightarrow>
             (case validate_token cfg issued t now of
                Inr i \<Rightarrow> if i = event_pk e then None else Some Invalid_token
              | Inl _ \<Rightarrow> Some Invalid_token))
      else None)"

text \<open>The venue's coordinates when the event has them, the campus's otherwise.\<close>

definition gps_target :: "campus \<Rightarrow> event \<Rightarrow> (int \<times> int) option" where
  "gps_target c e =
     (case event_location e of
        Some p \<Rightarrow> Some p
      | None \<Rightarrow> (case (campus_latitude c, campus_longitude c) of
                   (Some la, Some lo) \<Rightarrow> Some (la, lo)
                 | _ \<Rightarrow> None))"

definition gps_check ::
  "distance_fn \<Rightarrow> campus_configuration \<Rightarrow> campus \<Rightarrow> event \<Rightarrow> evidence \<Rightarrow> gps_outcome" where
  "gps_check dist cfg c e ev =
     (if \<not> (event_requires_gps e \<and> gps_validation_enabled cfg) then Gps_skipped
      else (case ev_gps ev of
              None \<Rightarrow> Gps_failed None
            | Some g \<Rightarrow>
                (case gps_target c e of
                   None \<Rightarrow> Gps_skipped
                 | Some t \<Rightarrow>
                     (let d = dist (gps_lat g, gps_lng g) t in
                      if d \<le> gps_radius_meters cfg then Gps_passed d else Gps_failed (Some d)))))"

definition evidence_gate :: "event \<Rightarrow> evidence \<Rightarrow> submit_error option" where
  "evidence_gate e ev =
     (if (event_requires_selfie e \<and> \<not> ev_selfie ev) \<or> (event_requires_signature e \<and> \<not> ev_signature ev)
      then Some Missing_evidence else None)"

section \<open>Score, record, validations and audit entry\<close>

text \<open>
  The confidence score in thousandths: 400 for the eligibility, duplicate and window
  gates, 200 for a verified token, up to 200 for GPS falling linearly from the venue
  to the edge of the radius, 100 each for a selfie and a signature.
\<close>

definition gps_score :: "nat \<Rightarrow> nat \<Rightarrow> nat" where
  "gps_score radius d = (if radius = 0 then 200 else 200 * (radius - d) div radius)"

definition verification_score :: "campus_configuration \<Rightarrow> bool \<Rightarrow> gps_outcome \<Rightarrow> evidence \<Rightarrow> nat" where
  "verification_score cfg token_checked g ev =
     400 + (if token_checked then 200 else 0)
     + (case g of Gps_passed d \<Rightarrow> gps_score (gps_radius_meters cfg) d | _ \<Rightarrow> 0)
     + (if ev_selfie ev then 100 else 0) + (if ev_signature ev then 100 else 0)"

definition build_attendance :: "timestamp \<Rightarrow> user \<Rightarrow> event \<Rightarrow> evidence \<Rightarrow> nat \<Rightarrow> attendance" where
  "build_attendance now u e ev score =
     (new_attendance (event_pk e) (user_pk u) (ev_method ev) now)\<lparr>att_selfie := ev_selfie ev,
        att_signature := ev_signature ev, att_gps := ev_gps ev, att_score := Some score,
        att_ip := ev_ip ev, att_user_agent := ev_user_agent ev\<rparr>"

definition validation_row :: "record_id \<Rightarrow> validation_type \<Rightarrow> nat \<Rightarrow> attendance_validation" where
  "validation_row k t conf = \<lparr>val_attendance = k, val_type = t, val_status = Passed,
     val_confidence = conf, val_details = []\<rparr>"

text \<open>One row per gate that ran: duplicate and window always, GPS when it was checked,
  images when the event requires one.\<close>

definition validation_rows :: "campus_configuration \<Rightarrow> record_id \<Rightarrow> event \<Rightarrow> gps_outcome \<Rightarrow> attendance_validation list" where
  "validation_rows cfg k e g =
     [validation_row k Duplicate_check 1000, validation_row k Time_window 1000]
     @ (case g of Gps_passed d \<Rightarrow> [validation_row k Gps_distance (5 * gps_score (gps_radius_meters cfg) d)] | _ \<Rightarrow> [])
     @ (if event_requires_selfie e \<or> event_requires_signature e then [validation_row k Image_verification 1000] else [])"

definition audit_entry :: "attendance \<Rightarrow> record_id \<Rightarrow> user \<Rightarrow> timestamp \<Rightarrow> attendance_log" where
  "audit_entry a k u now = \<lparr>log_attendance = k,
     log_campus = (case att_campus a of Some c \<Rightarrow> c | None \<Rightarrow> 0), log_action = Marked,
     log_performed_by = Some (user_pk u), log_details = [], log_ip = att_ip a, log_timestamp = now\<rparr>"

section \<open>Submission\<close>

definition commit ::
  "campus_configuration \<Rightarrow> timestamp \<Rightarrow> user \<Rightarrow> event \<Rightarrow> gps_outcome \<Rightarrow> attendance \<Rightarrow> store
     \<Rightarrow> submit_error + attendance \<times> store" where
  "commit cfg now u e g a st =
     (case attendance_save u e a (st_attendance st) of
        Inl Integrity_error \<Rightarrow> Inl Already_marked
      | Inr (a', rows') \<Rightarrow>
          (case att_pk a' of
             None \<Rightarrow> Inl Already_marked
           | Some k \<Rightarrow>
               if \<not> st_audit_up st then Inl Audit_write_failure
               else Inr (a', st\<lparr>st_attendance := rows',
                                st_validations := st_validations st @ validation_rows cfg k e g,
                                st_logs := append_log (audit_entry a' k u now) (st_logs st)\<rparr>)))"

definition submit ::
  "distance_fn \<Rightarrow> campus_configuration \<Rightarrow> campus \<Rightarrow> timestamp \<Rightarrow> timestamp \<Rightarrow> user \<Rightarrow> event \<Rightarrow> evidence
     \<Rightarrow> store \<Rightarrow> submit_error + attendance \<times> store" where
  "submit dist cfg c issued now u e ev st =
     (case eligibility_gate now u e (st_attendance st) of
        Some err \<Rightarrow> Inl err
      | None \<Rightarrow>
          (case token_gate cfg issued now e ev of
             Some err \<Rightarrow> Inl err
           | None \<Rightarrow>
               (let g = gps_check dist cfg c e ev in
                case g of
                  Gps_failed d \<Rightarrow> Inl (Location_out_of_range d)
                | _ \<Rightarrow>
                    (case evidence_gate e ev of
                       Some err \<Rightarrow> Inl err
                     | None \<Rightarrow>
                         commit cfg now u e g
                           (build_attendance now u e ev
                              (verification_score cfg (ev_method ev = Qr_code) g ev)) st))))"

text \<open>Fixtures for the concrete scenarios: an empty store whose audit sink is up, the
  evidence a client submits, and an event of campus 1 with the given capacity whose window
  \<open>Event.save\<close> has set to [1000, 4600].\<close>

definition empty_store :: store where
  "empty_store = \<lparr>st_attendance = [], st_validations = [], st_logs = [], st_audit_up = True\<rparr>"

definition sample_evidence :: "verification_method \<Rightarrow> string option \<Rightarrow> gps_reading option \<Rightarrow> evidence" where
  "sample_evidence m t g = \<lparr>ev_method = m, ev_token = t, ev_gps = g, ev_selfie = True,
     ev_signature = True, ev_ip = Some ''10.0.0.5'', ev_user_agent = ''Mozilla/5.0''\<rparr>"

definition scenario_event :: "nat option \<Rightarrow> event" where
  "scenario_event cap = (sample_event 7 1 0 2800 7200)\<lparr>event_window_start := Some 1000,
     event_window_end := Some 4600, event_max_participants := cap\<rparr>"

definition scenario_gps :: gps_reading where
  "scenario_gps = \<lparr>gps_lat = 97893100, gps_lng = 1254954000, gps_accuracy = Some 5\<rparr>"

text \<open>Actor 3 of campus 1 submits manually with a reading 20 m from the venue, at 1500,
  for the event without a capacity, into the empty store.\<close>

abbreviation scenario_first :: "submit_error + attendance \<times> store" where
  "scenario_first \<equiv> submit (\<lambda>_ _. 20) (seed_configuration 1) (hd seed_campuses) 0 1500 (sample_user 3 Student 1 [])
     (scenario_event None) (sample_evidence Manual None (Some scenario_gps)) empty_store"

text \<open>The store's invariant: the attendance table's, and one validation row per record
  and validation type, each for a stored record.\<close>

definition store_ok :: "store \<Rightarrow> bool" where
  "store_ok st \<longleftrightarrow> attendance_table_ok (st_attendance st)
     \<and> distinct (map validation_key (st_validations st))
     \<and> (\<forall>v \<in> set (st_validations st). Some (val_attendance v) \<in> set (map att_pk (st_attendance st)))"

section \<open>Lemmas\<close>

lemma error_of_message_simps [simp]:
  "error_of_message msg_not_available = Not_eligible_for_campus"
  "error_of_message msg_at_capacity = Event_at_capacity"
  "error_of_message msg_already_marked = Already_marked"
  "error_of_message msg_window_closed = Window_closed"
  by (simp_all add: error_of_message_def msg_not_available_def msg_at_capacity_def
      msg_already_marked_def msg_window_closed_def)

lemma eligibility_gate_None: "eligibility_gate now u e rows = None \<longleftrightarrow> fst (can_user_attend now u e rows)"
  by (simp add: eligibility_gate_def split: prod.splits)

lemma token_gate_None:
  "token_gate cfg issued now e ev = None \<longleftrightarrow>
     (ev_method ev = Qr_code \<longrightarrow> (\<exists>t. ev_token ev = Some t \<and> validate_token cfg issued t now = Inr (event_pk e)))"
  by (auto simp: token_gate_def split: option.splits sum.splits)

lemma gps_check_not_failed:
  assumes "\<forall>d. gps_check dist cfg c e ev \<noteq> Gps_failed d" "event_requires_gps e" "gps_validation_enabled cfg"
  shows "ev_gps ev \<noteq> None \<and> (\<forall>g t. ev_gps ev = Some g \<and> gps_target c e = Some t
           \<longrightarrow> dist (gps_lat g, gps_lng g) t \<le> gps_radius_meters cfg)"
  using assms by (auto simp: gps_check_def Let_def split: option.splits if_splits)

lemma evidence_gate_None:
  "evidence_gate e ev = None \<longleftrightarrow>
     (event_requires_selfie e \<longrightarrow> ev_selfie ev) \<and> (event_requires_signature e \<longrightarrow> ev_signature ev)"
  by (auto simp: evidence_gate_def)

lemma gps_score_le: "gps_score r d \<le> 200"
proof (cases "r = 0")
  case False
  have "200 * (r - d) div r \<le> 200 * r div r" by (rule div_le_mono) simp
  also have "200 * r div r = 200" using False by simp
  finally show ?thesis by (simp add: gps_score_def)
qed (simp add: gps_score_def)

lemma verification_score_bounds:
  "400 \<le> verification_score cfg b g ev \<and> verification_score cfg b g ev \<le> 1000"
proof -
  have "(case g of Gps_passed d \<Rightarrow> gps_score (gps_radius_meters cfg) d | _ \<Rightarrow> 0) \<le> (200::nat)"
    using gps_score_le by (cases g) simp_all
  then show ?thesis by (simp add: verification_score_def)
qed

lemma build_attendance_simps [simp]:
  "att_pk (build_attendance now u e ev s) = None"
  "att_event (build_attendance now u e ev s) = event_pk e"
  "att_user (build_attendance now u e ev s) = user_pk u"
  "att_score (build_attendance now u e ev s) = Some s"
  by (simp_all add: build_attendance_def new_attendance_def)

lemma attendance_prepare_score [simp]: "att_score (attendance_prepare u e a) = att_score a"
  by (simp add: attendance_prepare_def Let_def)

lemma attendance_save_new:
  assumes "att_pk b = None" "attendance_save u e b rows = Inr (a, rows')"
  shows "a = (attendance_prepare u e b)\<lparr>att_pk := Some (next_record_id rows)\<rparr> \<and> rows' = rows @ [a]"
proof -
  from assms(2) have "attendance_db_save (attendance_prepare u e b) rows = Inr (a, rows')"
    by (simp add: attendance_save_def)
  from attendance_db_save_Inr [OF this] assms(1) show ?thesis by simp
qed

lemma commit_Inr:
  assumes "commit cfg now u e g b st = Inr (a, st')"
  shows "st_audit_up st \<and> attendance_save u e b (st_attendance st) = Inr (a, st_attendance st')
    \<and> (\<exists>k. att_pk a = Some k \<and> st_validations st' = st_validations st @ validation_rows cfg k e g
          \<and> st_logs st' = append_log (audit_entry a k u now) (st_logs st))"
  using assms
  by (auto simp: commit_def split: sum.splits db_error.splits prod.splits option.splits if_splits)

lemma submit_Inr:
  assumes "submit dist cfg c issued now u e ev st = Inr (a, st')"
  shows "eligibility_gate now u e (st_attendance st) = None \<and> token_gate cfg issued now e ev = None
    \<and> (\<forall>d. gps_check dist cfg c e ev \<noteq> Gps_failed d) \<and> evidence_gate e ev = None
    \<and> commit cfg now u e (gps_check dist cfg c e ev)
        (build_attendance now u e ev
           (verification_score cfg (ev_method ev = Qr_code) (gps_check dist cfg c e ev) ev)) st = Inr (a, st')"
  using assms
  by (cases "eligibility_gate now u e (st_attendance st)"; cases "token_gate cfg issued now e ev";
      cases "gps_check dist cfg c e ev"; cases "evidence_gate e ev") (simp_all add: submit_def Let_def)

lemma validation_rows_keys:
  "distinct (map validation_key (validation_rows cfg k e g))
   \<and> (\<forall>v \<in> set (validation_rows cfg k e g). val_attendance v = k)"
  by (simp add: validation_rows_def validation_row_def validation_key_def split: gps_outcome.split)

lemma commit_store_ok:
  assumes ok: "store_ok st" and b: "att_pk b = None" and c: "commit cfg now u e g b st = Inr (a, st')"
  shows "store_ok st' \<and> a \<in> set (st_attendance st')
    \<and> (\<exists>k. att_pk a = Some k \<and> st_logs st' = st_logs st @ [audit_entry a k u now])"
proof -
  from commit_Inr [OF c] obtain k where
    save: "attendance_save u e b (st_attendance st) = Inr (a, st_attendance st')"
    and k: "att_pk a = Some k"
    and vs: "st_validations st' = st_validations st @ validation_rows cfg k e g"
    and logs: "st_logs st' = append_log (audit_entry a k u now) (st_logs st)"
    by blast
  from ok have rows_ok: "attendance_table_ok (st_attendance st)"
    and vd: "distinct (map validation_key (st_validations st))"
    and vin: "\<forall>v \<in> set (st_validations st). Some (val_attendance v) \<in> set (map att_pk (st_attendance st))"
    by (simp_all add: store_ok_def)
  from attendance_save_Inr_in [OF rows_ok save]
  have ok': "attendance_table_ok (st_attendance st')" and mem: "a \<in> set (st_attendance st')" by simp_all
  from attendance_save_new [OF b save] k
  have kn: "k = next_record_id (st_attendance st)" and rows': "st_attendance st' = st_attendance st @ [a]"
    by simp_all
  have fresh: "\<forall>v \<in> set (st_validations st). val_attendance v \<noteq> k"
  proof
    fix v assume "v \<in> set (st_validations st)"
    with vin obtain r where "r \<in> set (st_attendance st)" "att_pk r = Some (val_attendance v)" by auto
    with next_record_id_fresh kn show "val_attendance v \<noteq> k" by metis
  qed
  have new: "distinct (map validation_key (validation_rows cfg k e g))"
    and newk: "\<forall>v \<in> set (validation_rows cfg k e g). val_attendance v = k"
    using validation_rows_keys by blast+
  have disj: "set (map validation_key (st_validations st)) \<inter> set (map validation_key (validation_rows cfg k e g)) = {}"
    using fresh newk by (auto simp: validation_key_def)
  have "distinct (map validation_key (st_validations st'))"
    using vd new disj vs by simp
  moreover have "\<forall>v \<in> set (st_validations st'). Some (val_attendance v) \<in> set (map att_pk (st_attendance st'))"
    using vin newk vs rows' k by auto
  ultimately have "store_ok st'" using ok' by (simp add: store_ok_def)
  with mem k logs show ?thesis by (simp add: append_log_def)
qed

lemma submit_Inr_row:
  assumes "submit dist cfg c issued now u e ev st = Inr (a, st')"
  shows "st_attendance st' = st_attendance st @ [a] \<and> att_event a = event_pk e \<and> att_user a = user_pk u
    \<and> att_status a = Present
    \<and> att_score a = Some (verification_score cfg (ev_method ev = Qr_code) (gps_check dist cfg c e ev) ev)"
proof -
  from submit_Inr [OF assms] have "commit cfg now u e (gps_check dist cfg c e ev)
     (build_attendance now u e ev (verification_score cfg (ev_method ev = Qr_code) (gps_check dist cfg c e ev) ev))
     st = Inr (a, st')" by blast
  from commit_Inr [OF this] have "attendance_save u e
     (build_attendance now u e ev (verification_score cfg (ev_method ev = Qr_code) (gps_check dist cfg c e ev) ev))
     (st_attendance st) = Inr (a, st_attendance st')" by blast
  from attendance_save_new [OF _ this] show ?thesis
    by (simp add: build_attendance_def new_attendance_def)
qed

lemma submit_at_capacity:
  assumes "if event_is_multi_campus e then user_campus u \<in> set (event_allowed_campuses e)
           else user_campus u = event_campus e"
    "at_capacity e (st_attendance st)"
  shows "submit dist cfg c issued now u e ev st = Inl Event_at_capacity"
  using assms by (auto simp: submit_def eligibility_gate_def can_user_attend_def split: if_splits)

lemma scenario_first_submit:
  assumes "cap = None \<or> cap = Some 1"
  shows "\<exists>a st'. submit (\<lambda>_ _. 20) (seed_configuration 1) (hd seed_campuses) 0 1500 (sample_user 3 Student 1 [])
     (scenario_event cap) (sample_evidence Manual None (Some scenario_gps)) empty_store = Inr (a, st')"
  using assms by (elim disjE) (simp_all add: submit_def eligibility_gate_def can_user_attend_def scenario_event_def sample_event_def
      sample_user_def at_capacity_def attendance_count_def has_record_def can_mark_attendance_def
      empty_store_def token_gate_def sample_evidence_def gps_check_def gps_target_def seed_campuses_def
      seed_campus_def seed_configuration_def default_configuration_def evidence_gate_def commit_def
      attendance_save_def attendance_db_save_def Let_def)

lemma scenario_first_Inr: "scenario_first = Inr (fst (projr scenario_first), snd (projr scenario_first))"
  by (rule Inr_projr, rule scenario_first_submit [OF disjI1 [OF refl]])

section \<open>Properties\<close>

text \<open>C2: A successful submission keeps the store's invariant (one attendance record per
  event and actor, unique record keys, one validation row per record and gate, each for a
  stored record), stores the new record, and appends exactly one audit entry \<open>marked\<close>
  for it.\<close>

theorem submit_preserves_store_ok:
  assumes "store_ok st" "submit dist cfg c issued now u e ev st = Inr (a, st')"
  shows "store_ok st' \<and> a \<in> set (st_attendance st')
    \<and> (\<exists>k. att_pk a = Some k \<and> st_logs st' = st_logs st @ [audit_entry a k u now])"
proof -
  from submit_Inr [OF assms(2)] have "commit cfg now u e (gps_check dist cfg c e ev)
     (build_attendance now u e ev (verification_score cfg (ev_method ev = Qr_code) (gps_check dist cfg c e ev) ev))
     st = Inr (a, st')" by blast
  from commit_store_ok [OF assms(1) _ this] show ?thesis by simp
qed

theorem submit_preserves_store_ok_witness:
  "store_ok (snd (projr scenario_first)) \<and> fst (projr scenario_first) \<in> set (st_attendance (snd (projr scenario_first)))"
proof -
  note r = scenario_first_Inr
  have "store_ok empty_store" by (simp add: store_ok_def empty_store_def attendance_table_ok_def)
  from submit_preserves_store_ok [OF this r] show ?thesis by blast
qed

text \<open>C10: No failure is turned into a success: a submission succeeds only when the actor is
  eligible (campus, capacity, duplicate, window), a QR submission carries a token that
  validates to this event, a required GPS reading is present and within the radius, the
  required selfie and signature are present, and the audit sink is up.\<close>

theorem submit_success_gates_passed:
  assumes "submit dist cfg c issued now u e ev st = Inr (a, st')"
  shows "fst (can_user_attend now u e (st_attendance st))
    \<and> (ev_method ev = Qr_code \<longrightarrow> (\<exists>t. ev_token ev = Some t \<and> validate_token cfg issued t now = Inr (event_pk e)))
    \<and> (event_requires_gps e \<and> gps_validation_enabled cfg \<longrightarrow> ev_gps ev \<noteq> None
         \<and> (\<forall>g t. ev_gps ev = Some g \<and> gps_target c e = Some t
              \<longrightarrow> dist (gps_lat g, gps_lng g) t \<le> gps_radius_meters cfg))
    \<and> (event_requires_selfie e \<longrightarrow> ev_selfie ev) \<and> (event_requires_signature e \<longrightarrow> ev_signature ev)
    \<and> st_audit_up st"
proof -
  note s = submit_Inr [OF assms]
  then have "commit cfg now u e (gps_check dist cfg c e ev)
     (build_attendance now u e ev (verification_score cfg (ev_method ev = Qr_code) (gps_check dist cfg c e ev) ev))
     st = Inr (a, st')" by blast
  from commit_Inr [OF this] have "st_audit_up st" by blast
  with s gps_check_not_failed [of dist cfg c e ev] show ?thesis
    by (simp add: eligibility_gate_None token_gate_None evidence_gate_None)
qed

theorem submit_success_gates_passed_witness:
  "fst (can_user_attend 1500 (sample_user 3 Student 1 []) (scenario_event None) [])
   \<and> scenario_gps = scenario_gps \<and> 20 \<le> gps_radius_meters (seed_configuration 1)"
proof -
  note r = scenario_first_Inr
  from submit_success_gates_passed [OF r] show ?thesis
    by (simp add: empty_store_def scenario_event_def sample_event_def sample_evidence_def gps_target_def
        seed_campuses_def seed_campus_def seed_configuration_def default_configuration_def)
qed

text \<open>C11: For an event that is not multi-campus, a submission by an actor whose home campus
  differs from the event's always fails with \<open>NotEligibleForCampus\<close>, whatever the evidence,
  the store or the time.\<close>

theorem submit_foreign_campus_not_eligible:
  assumes "\<not> event_is_multi_campus e" "user_campus u \<noteq> event_campus e"
  shows "submit dist cfg c issued now u e ev st = Inl Not_eligible_for_campus"
  using assms by (simp add: submit_def eligibility_gate_def can_user_attend_def)

theorem submit_foreign_campus_not_eligible_witness:
  "submit (\<lambda>_ _. 0) (seed_configuration 1) (hd seed_campuses) 0 1500 (sample_user 3 Student 2 [])
     (scenario_event None) (sample_evidence Manual None None) empty_store = Inl Not_eligible_for_campus"
  by (rule submit_foreign_campus_not_eligible) (simp_all add: scenario_event_def sample_event_def sample_user_def)

text \<open>C5: Idempotence: once a submission for an event and actor has succeeded, every later
  submission for the same pair fails with \<open>AlreadyMarked\<close> (unless the event has reached
  its capacity, whose gate comes first), whatever its evidence and time.\<close>

theorem submit_repeat_already_marked:
  assumes "submit dist cfg c issued now u e ev st = Inr (a, st')" "\<not> at_capacity e (st_attendance st')"
  shows "submit dist' cfg' c' issued' now' u e ev' st' = Inl Already_marked"
proof -
  from submit_Inr [OF assms(1)] have "fst (can_user_attend now u e (st_attendance st))"
    by (simp add: eligibility_gate_None)
  then have campus: "if event_is_multi_campus e then user_campus u \<in> set (event_allowed_campuses e)
                     else user_campus u = event_campus e"
    by (simp add: can_user_attend_True)
  from submit_Inr_row [OF assms(1)] have "has_record e u (st_attendance st')"
    by (auto simp: has_record_def)
  with campus assms(2) show ?thesis
    by (auto simp: submit_def eligibility_gate_def can_user_attend_def split: if_splits)
qed

theorem submit_repeat_already_marked_witness:
  "submit (\<lambda>_ _. 20) (seed_configuration 1) (hd seed_campuses) 0 1600 (sample_user 3 Student 1 [])
     (scenario_event None) (sample_evidence Manual None (Some scenario_gps)) (snd (projr scenario_first)) = Inl Already_marked"
proof -
  note r = scenario_first_Inr
  have "\<not> at_capacity (scenario_event None) (st_attendance (snd (projr scenario_first)))"
    by (simp add: at_capacity_def scenario_event_def sample_event_def)
  from submit_repeat_already_marked [OF r this] show ?thesis .
qed

text \<open>The specification's capacity scenario: on campus 1, for an event of capacity 1
  and no records, actor A's valid submission inside the window succeeds and the present
  count becomes 1; actor B's submission for the same event then fails with
  \<open>EventAtCapacity\<close>.\<close>

theorem submit_capacity_scenario:
  "\<exists>a st'. submit (\<lambda>_ _. 20) (seed_configuration 1) (hd seed_campuses) 0 1500 (sample_user 3 Student 1 [])
       (scenario_event (Some 1)) (sample_evidence Manual None (Some scenario_gps)) empty_store = Inr (a, st')
     \<and> attendance_count (scenario_event (Some 1)) (st_attendance st') = 1
     \<and> submit (\<lambda>_ _. 20) (seed_configuration 1) (hd seed_campuses) 0 1600 (sample_user 4 Student 1 [])
       (scenario_event (Some 1)) (sample_evidence Manual None (Some scenario_gps)) st' = Inl Event_at_capacity"
proof -
  obtain a st' where r: "submit (\<lambda>_ _. 20) (seed_configuration 1) (hd seed_campuses) 0 1500 (sample_user 3 Student 1 [])
       (scenario_event (Some 1)) (sample_evidence Manual None (Some scenario_gps)) empty_store = Inr (a, st')"
    using scenario_first_submit [OF disjI2 [OF refl]] by blast
  from submit_Inr_row [OF r] have rows: "st_attendance st' = [a]" "att_event a = 7" "att_status a = Present"
    by (simp_all add: empty_store_def scenario_event_def sample_event_def)
  then have count: "attendance_count (scenario_event (Some 1)) (st_attendance st') = 1"
    by (simp add: attendance_count_def scenario_event_def sample_event_def)
  then have "submit (\<lambda>_ _. 20) (seed_configuration 1) (hd seed_campuses) 0 1600 (sample_user 4 Student 1 [])
       (scenario_event (Some 1)) (sample_evidence Manual None (Some scenario_gps)) st' = Inl Event_at_capacity"
    by (intro submit_at_capacity) (simp_all add: at_capacity_def scenario_event_def sample_event_def sample_user_def)
  with r count show ?thesis by blast
qed

text \<open>C16: When GPS is required and enabled and the reading is farther from the venue than the
  campus radius, an otherwise eligible submission fails with \<open>LocationOutOfRange\<close> carrying
  the computed distance (spec scenario: 150 m against a 100 m radius).\<close>

theorem submit_gps_out_of_range:
  assumes "fst (can_user_attend now u e (st_attendance st))" "token_gate cfg issued now e ev = None"
    "event_requires_gps e" "gps_validation_enabled cfg" "ev_gps ev = Some g" "gps_target c e = Some t"
    "gps_radius_meters cfg < dist (gps_lat g, gps_lng g) t"
  shows "submit dist cfg c issued now u e ev st = Inl (Location_out_of_range (Some (dist (gps_lat g, gps_lng g) t)))"
  using assms by (simp add: submit_def eligibility_gate_None [symmetric] gps_check_def)

theorem submit_gps_out_of_range_witness:
  "submit (\<lambda>_ _. 150) (seed_configuration 1) (hd seed_campuses) 0 1500 (sample_user 3 Student 1 [])
     (scenario_event None) (sample_evidence Manual None (Some scenario_gps)) empty_store
   = Inl (Location_out_of_range (Some 150))"
  using submit_gps_out_of_range [of 1500 "sample_user 3 Student 1 []" "scenario_event None" empty_store
      "seed_configuration 1" 0 "sample_evidence Manual None (Some scenario_gps)" scenario_gps
      "hd seed_campuses" "(97893000, 1254954000)" "\<lambda>_ _. 150"]
  by (simp add: can_user_attend_def scenario_event_def sample_event_def sample_user_def at_capacity_def
      has_record_def can_mark_attendance_def empty_store_def token_gate_def sample_evidence_def gps_target_def
      seed_campuses_def seed_campus_def seed_configuration_def default_configuration_def)

text \<open>C17: Audit-write failure is fatal: with the audit sink down, a submission that would have
  succeeded fails with \<open>AuditWriteFailure\<close> and stores nothing, and every other outcome is
  unchanged.\<close>

theorem submit_audit_failure_aborts:
  assumes "\<not> st_audit_up st"
  shows "submit dist cfg c issued now u e ev st =
     (case submit dist cfg c issued now u e ev (st\<lparr>st_audit_up := True\<rparr>) of
        Inl err \<Rightarrow> Inl err | Inr _ \<Rightarrow> Inl Audit_write_failure)"
  using assms
  by (simp add: submit_def commit_def Let_def split: option.split gps_outcome.split sum.split prod.split
      db_error.split)

theorem submit_audit_failure_aborts_witness:
  "submit (\<lambda>_ _. 20) (seed_configuration 1) (hd seed_campuses) 0 1500 (sample_user 3 Student 1 [])
     (scenario_event None) (sample_evidence Manual None (Some scenario_gps)) (empty_store\<lparr>st_audit_up := False\<rparr>)
   = Inl Audit_write_failure"
proof -
  have d: "\<not> st_audit_up (empty_store\<lparr>st_audit_up := False\<rparr>)" by simp
  have e: "empty_store\<lparr>st_audit_up := False\<rparr>\<lparr>st_audit_up := True\<rparr> = empty_store"
    by (simp add: empty_store_def)
  have "submit (\<lambda>_ _. 20) (seed_configuration 1) (hd seed_campuses) 0 1500 (sample_user 3 Student 1 [])
     (scenario_event None) (sample_evidence Manual None (Some scenario_gps)) (empty_store\<lparr>st_audit_up := False\<rparr>)
     = (case scenario_first of Inl err \<Rightarrow> Inl err | Inr _ \<Rightarrow> Inl Audit_write_failure)"
    using submit_audit_failure_aborts [OF d] by (simp only: e)
  also have "\<dots> = Inl Audit_write_failure" by (subst scenario_first_Inr) simp
  finally show ?thesis .
qed

text \<open>The stored confidence score of a successful submission is the weighted sum of the
  gates' outcomes and lies between 400 and 1000 thousandths.\<close>

theorem submit_score_bounds:
  assumes "submit dist cfg c issued now u e ev st = Inr (a, st')"
  shows "\<exists>s. att_score a = Some s \<and> s = verification_score cfg (ev_method ev = Qr_code) (gps_check dist cfg c e ev) ev
    \<and> 400 \<le> s \<and> s \<le> 1000"
  using submit_Inr_row [OF assms] verification_score_bounds by blast

theorem submit_score_bounds_witness:
  "\<exists>s. att_score (fst (projr scenario_first)) = Some s \<and> 400 \<le> s \<and> s \<le> 1000"
proof -
  note r = scenario_first_Inr
  from submit_score_bounds [OF r] show ?thesis by blast
qed

text \<open>The pipeline's first four gates, read off \<open>can_user_attend\<close>'s message, are the
  specification's gates 1 to 4 in its order: campus eligibility, then capacity, then the
  duplicate check, then the time window, each with its own error kind.\<close>

theorem eligibility_gate_spec_order:
  "eligibility_gate now u e rows =
     (if \<not> (if event_is_multi_campus e then user_campus u \<in> set (event_allowed_campuses e)
            else user_campus u = event_campus e) then Some Not_eligible_for_campus
      else if at_capacity e rows then Some Event_at_capacity
      else if has_record e u rows then Some Already_marked
      else if \<not> can_mark_attendance now e then Some Window_closed
      else None)"
  by (simp add: eligibility_gate_def can_user_attend_def)

end
