(* ===== verification/Concurrency.thy ===== *)
theory Concurrency
  imports Pipeline
begin

text \<open>
  Concurrent submissions (section 5). A request runs in two phases: it validates gates
  1 to 7 against the attendance table as it reads it, and later commits against the
  store as it is then. Requests interleave freely: \<open>conc_step\<close> lets any waiting
  request validate or any validated request commit. The duplicate pre-check may thus
  read a stale table; the database's unique constraint in \<open>Attendance.save\<close> is what
  keeps one record per (event, actor), and the pipeline reports its violation as
  \<open>AlreadyMarked\<close>. The capacity gate is advisory under such races, as section 5 allows.
  Every step lowers a rank (two per waiting request, one per validated one), so every
  interleaving terminates, and a world is stuck exactly when all its requests have
  returned. A request that has not returned may instead time out at the repository
  boundary: its transaction is rolled back, so the store is left as it was and the
  request returns no record (section 5's all-or-nothing boundary).
\<close>

section \<open>Model\<close>

record request =
  rq_user :: user
  rq_event :: event
  rq_evidence :: evidence
  rq_issued :: timestamp
  rq_now :: timestamp

datatype phase = Waiting | Validated gps_outcome | Finished "submit_error + attendance" | Timed_out

type_synonym world = "store \<times> (request \<times> phase) list"

text \<open>The read phase: gates 1 to 7 of \<open>submit\<close> on the table the request reads.\<close>

definition check_phase ::
  "distance_fn \<Rightarrow> campus_configuration \<Rightarrow> campus \<Rightarrow> request \<Rightarrow> attendance list \<Rightarrow> submit_error + gps_outcome" where
  "check_phase dist cfg c r rows =
     (case eligibility_gate (rq_now r) (rq_user r) (rq_event r) rows of
        Some err \<Rightarrow> Inl err
      | None \<Rightarrow>
          (case token_gate cfg (rq_issued r) (rq_now r) (rq_event r) (rq_evidence r) of
             Some err \<Rightarrow> Inl err
           | None \<Rightarrow>
               (case gps_check dist cfg c (rq_event r) (rq_evidence r) of
                  Gps_failed d \<Rightarrow> Inl (Location_out_of_range d)
                | g \<Rightarrow>
                    (case evidence_gate (rq_event r) (rq_evidence r) of
                       Some err \<Rightarrow> Inl err
                     | None \<Rightarrow> Inr g))))"

text \<open>The write phase: the record, its validations and its audit entry, in one transaction.\<close>

definition commit_request ::
  "campus_configuration \<Rightarrow> request \<Rightarrow> gps_outcome \<Rightarrow> store \<Rightarrow> submit_error + attendance \<times> store" where
  "commit_request cfg r g st =
     commit cfg (rq_now r) (rq_user r) (rq_event r) g
       (build_attendance (rq_now r) (rq_user r) (rq_event r) (rq_evidence r)
          (verification_score cfg (ev_method (rq_evidence r) = Qr_code) g (rq_evidence r))) st"

inductive conc_step :: "distance_fn \<Rightarrow> campus_configuration \<Rightarrow> campus \<Rightarrow> world \<Rightarrow> world \<Rightarrow> bool"
  for dist cfg c where
  check_pass: "\<lbrakk>i < length rs; rs ! i = (r, Waiting); check_phase dist cfg c r (st_attendance st) = Inr g\<rbrakk>
    \<Longrightarrow> conc_step dist cfg c (st, rs) (st, rs[i := (r, Validated g)])"
| check_fail: "\<lbrakk>i < length rs; rs ! i = (r, Waiting); check_phase dist cfg c r (st_attendance st) = Inl err\<rbrakk>
    \<Longrightarrow> conc_step dist cfg c (st, rs) (st, rs[i := (r, Finished (Inl err))])"
| commit_pass: "\<lbrakk>i < length rs; rs ! i = (r, Validated g); commit_request cfg r g st = Inr (a, st')\<rbrakk>
    \<Longrightarrow> conc_step dist cfg c (st, rs) (st', rs[i := (r, Finished (Inr a))])"
| commit_fail: "\<lbrakk>i < length rs; rs ! i = (r, Validated g); commit_request cfg r g st = Inl err\<rbrakk>
    \<Longrightarrow> conc_step dist cfg c (st, rs) (st, rs[i := (r, Finished (Inl err))])"
| time_out: "\<lbrakk>i < length rs; rs ! i = (r, p); p = Waiting \<or> (\<exists>g. p = Validated g)\<rbrakk>
    \<Longrightarrow> conc_step dist cfg c (st, rs) (st, rs[i := (r, Timed_out)])"

definition requests_start :: "request list \<Rightarrow> (request \<times> phase) list" where
  "requests_start rqs = map (\<lambda>r. (r, Waiting)) rqs"

definition success_of :: "phase \<Rightarrow> attendance option" where
  "success_of p = (case p of Finished (Inr a) \<Rightarrow> Some a | _ \<Rightarrow> None)"

fun succ_records :: "(request \<times> phase) list \<Rightarrow> attendance list" where
  "succ_records [] = []"
| "succ_records ((r, p) # rs) =
     (case success_of p of None \<Rightarrow> succ_records rs | Some a \<Rightarrow> a # succ_records rs)"

text \<open>The invariant of the interleaving: the store's, and the records of the successful
  requests are distinct stored records.\<close>

definition conc_inv :: "world \<Rightarrow> bool" where
  "conc_inv w \<longleftrightarrow> store_ok (fst w) \<and> set (succ_records (snd w)) \<subseteq> set (st_attendance (fst w))
     \<and> distinct (map att_pk (succ_records (snd w)))"

text \<open>All-or-nothing accounting against the initial store: the records stored are the
  initial ones and those of the successful requests, each added once, and the audit log has
  grown by one entry per success; failed and timed-out requests leave no trace.\<close>

definition conc_accounts :: "store \<Rightarrow> world \<Rightarrow> bool" where
  "conc_accounts st0 w \<longleftrightarrow>
     set (st_attendance (fst w)) = set (st_attendance st0) \<union> set (succ_records (snd w))
     \<and> length (st_attendance (fst w)) = length (st_attendance st0) + length (succ_records (snd w))
     \<and> length (st_logs (fst w)) = length (st_logs st0) + length (succ_records (snd w))"

text \<open>A request has returned once it is finished; the rank counts the steps a request
  has still to take (validate and commit), so every step lowers the world's rank.\<close>

definition is_finished :: "phase \<Rightarrow> bool" where
  "is_finished p = (case p of Finished _ \<Rightarrow> True | Timed_out \<Rightarrow> True | _ \<Rightarrow> False)"

definition phase_rank :: "phase \<Rightarrow> nat" where
  "phase_rank p = (case p of Waiting \<Rightarrow> 2 | Validated _ \<Rightarrow> 1 | Finished _ \<Rightarrow> 0 | Timed_out \<Rightarrow> 0)"

definition world_rank :: "world \<Rightarrow> nat" where
  "world_rank w = sum_list (map (\<lambda>x. phase_rank (snd x)) (snd w))"

text \<open>A request of the concrete scenarios, with the evidence of \<open>scenario_first\<close>.\<close>

abbreviation scenario_step :: "world \<Rightarrow> world \<Rightarrow> bool" where
  "scenario_step \<equiv> conc_step (\<lambda>_ _. 20) (seed_configuration 1) (hd seed_campuses)"

definition sample_request :: "user_id \<Rightarrow> nat option \<Rightarrow> timestamp \<Rightarrow> request" where
  "sample_request i cap now = \<lparr>rq_user = sample_user i Student 1 [], rq_event = scenario_event cap,
     rq_evidence = sample_evidence Manual None (Some scenario_gps), rq_issued = 0, rq_now = now\<rparr>"

text \<open>A store in which actor 3's submission for the scenario event (key 7) has already
  been committed, under record key 1.\<close>

definition race_store :: store where
  "race_store = empty_store\<lparr>st_attendance :=
     [(new_attendance 7 3 Manual 1500)\<lparr>att_pk := Some 1, att_campus := Some 1\<rparr>]\<rparr>"

section \<open>Lemmas\<close>

lemma success_of_simps [simp]:
  "success_of Waiting = None" "success_of (Validated g) = None" "success_of Timed_out = None"
  "success_of (Finished (Inl err)) = None" "success_of (Finished (Inr a)) = Some a"
  by (simp_all add: success_of_def)

lemma succ_records_append [simp]: "succ_records (xs @ ys) = succ_records xs @ succ_records ys"
  by (induction xs rule: succ_records.induct) (auto split: option.split)

lemma succ_records_requests_start [simp]: "succ_records (requests_start rqs) = []"
  by (induction rqs) (simp_all add: requests_start_def)

lemma succ_records_update:
  assumes "i < length rs" "success_of (snd (rs ! i)) = None"
  shows "succ_records rs = succ_records (take i rs) @ succ_records (drop (Suc i) rs)
    \<and> succ_records (rs[i := (r, p)]) =
        succ_records (take i rs) @ succ_records [(r, p)] @ succ_records (drop (Suc i) rs)"
proof -
  have split: "rs = take i rs @ [rs ! i] @ drop (Suc i) rs" using assms(1) by (simp add: id_take_nth_drop)
  have one: "succ_records [rs ! i] = []" using assms(2) by (cases "rs ! i") simp
  have "succ_records rs = succ_records (take i rs) @ succ_records [rs ! i] @ succ_records (drop (Suc i) rs)"
    by (subst split) (simp only: succ_records_append)
  moreover have "rs[i := (r, p)] = take i rs @ [(r, p)] @ drop (Suc i) rs"
    using assms(1) by (simp add: upd_conv_take_nth_drop)
  ultimately show ?thesis using one by (simp split: option.split)
qed

lemma succ_records_update_same:
  assumes "i < length rs" "success_of (snd (rs ! i)) = None" "success_of p = None"
  shows "succ_records (rs[i := (r, p)]) = succ_records rs"
  using succ_records_update [OF assms(1,2), of r p] assms(3) by simp

lemma commit_request_Inr:
  assumes "store_ok st" "commit_request cfg r g st = Inr (a, st')"
  shows "store_ok st' \<and> st_attendance st' = st_attendance st @ [a] \<and> st_audit_up st' = st_audit_up st
    \<and> att_pk a \<notin> set (map att_pk (st_attendance st))
    \<and> att_key a = (event_pk (rq_event r), user_pk (rq_user r)) \<and> att_status a = Present"
proof -
  let ?b = "build_attendance (rq_now r) (rq_user r) (rq_event r) (rq_evidence r)
          (verification_score cfg (ev_method (rq_evidence r) = Qr_code) g (rq_evidence r))"
  from assms(2) have c: "commit cfg (rq_now r) (rq_user r) (rq_event r) g ?b st = Inr (a, st')"
    by (simp add: commit_request_def)
  from commit_store_ok [OF assms(1) _ c] have ok: "store_ok st'" by simp
  from c have up: "st_audit_up st' = st_audit_up st"
    by (auto simp: commit_def split: sum.splits db_error.splits prod.splits option.splits if_splits)
  from commit_Inr [OF c] have "attendance_save (rq_user r) (rq_event r) ?b (st_attendance st) = Inr (a, st_attendance st')"
    by blast
  from attendance_save_new [OF _ this]
  have a: "a = (attendance_prepare (rq_user r) (rq_event r) ?b)\<lparr>att_pk := Some (next_record_id (st_attendance st))\<rparr>"
    and rows: "st_attendance st' = st_attendance st @ [a]" by simp_all
  have "att_pk a \<notin> set (map att_pk (st_attendance st))"
    using a next_record_id_fresh by fastforce
  moreover have "att_key a = (event_pk (rq_event r), user_pk (rq_user r)) \<and> att_status a = Present"
    using a by (simp add: att_key_def build_attendance_def new_attendance_def)
  ultimately show ?thesis using ok up rows by simp
qed

lemma commit_request_dup:
  assumes "\<exists>x \<in> set (st_attendance st). att_key x = (event_pk (rq_event r), user_pk (rq_user r))"
  shows "commit_request cfg r g st = Inl Already_marked"
  using assms
  by (auto simp: commit_request_def commit_def attendance_save_def attendance_db_save_def att_key_def
      build_attendance_def new_attendance_def)

lemma commit_request_fresh:
  assumes "st_audit_up st" "\<forall>x \<in> set (st_attendance st). att_key x \<noteq> (event_pk (rq_event r), user_pk (rq_user r))"
  shows "\<exists>a st'. commit_request cfg r g st = Inr (a, st')"
  using assms
  by (simp add: commit_request_def commit_def attendance_save_def attendance_db_save_def att_key_def
      build_attendance_def new_attendance_def Let_def)

lemma conc_step_inv:
  assumes "conc_step dist cfg c w w'" "conc_inv w"
  shows "conc_inv w'"
  using assms
proof (induction rule: conc_step.induct)
  case (check_pass i rs r st g)
  then show ?case by (simp add: conc_inv_def succ_records_update_same)
next
  case (check_fail i rs r st err)
  then show ?case by (simp add: conc_inv_def succ_records_update_same)
next
  case (commit_fail i rs r g st err)
  then show ?case by (simp add: conc_inv_def succ_records_update_same)
next
  case (time_out i rs r p st)
  then show ?case by (auto simp: conc_inv_def succ_records_update_same)
next
  case (commit_pass i rs r g st a st')
  from commit_pass.prems have ok: "store_ok st" and sub: "set (succ_records rs) \<subseteq> set (st_attendance st)"
    and dist: "distinct (map att_pk (succ_records rs))" by (simp_all add: conc_inv_def)
  from commit_request_Inr [OF ok commit_pass.hyps(3)]
  have ok': "store_ok st'" and rows': "st_attendance st' = st_attendance st @ [a]"
    and fresh: "att_pk a \<notin> set (map att_pk (st_attendance st))" by simp_all
  from succ_records_update [of i rs r "Finished (Inr a)"] commit_pass.hyps(1,2)
  obtain A B where old: "succ_records rs = A @ B"
    and new: "succ_records (rs[i := (r, Finished (Inr a))]) = A @ [a] @ B" by auto
  have "att_pk a \<notin> set (map att_pk (A @ B))" using fresh sub old by auto
  with dist old have "distinct (map att_pk (A @ [a] @ B))" by auto
  moreover have "set (A @ [a] @ B) \<subseteq> set (st_attendance st')" using sub old rows' by auto
  ultimately show ?case using ok' new by (simp add: conc_inv_def)
qed

lemma conc_reachable_inv:
  assumes "(conc_step dist cfg c)\<^sup>*\<^sup>* w w'" "conc_inv w"
  shows "conc_inv w'"
  using assms by (induction rule: rtranclp_induct) (auto intro: conc_step_inv)

lemma commit_request_logs:
  "commit_request cfg r g st = Inr (a, st') \<Longrightarrow> length (st_logs st') = Suc (length (st_logs st))"
  by (auto simp: commit_request_def append_log_def dest!: commit_Inr)

lemma conc_step_accounts:
  assumes "conc_step dist cfg c w w'" "conc_inv w" "conc_accounts st0 w"
  shows "conc_accounts st0 w'"
  using assms
proof (induction rule: conc_step.induct)
  case (commit_pass i rs r g st a st')
  from commit_pass.prems(1) have ok: "store_ok st" by (simp add: conc_inv_def)
  from commit_request_Inr [OF ok commit_pass.hyps(3)]
  have rows': "st_attendance st' = st_attendance st @ [a]" by simp
  from commit_request_logs [OF commit_pass.hyps(3)]
  have logs': "length (st_logs st') = Suc (length (st_logs st))" .
  from succ_records_update [of i rs r "Finished (Inr a)"] commit_pass.hyps(1,2)
  obtain A B where old: "succ_records rs = A @ B"
    and new: "succ_records (rs[i := (r, Finished (Inr a))]) = A @ [a] @ B" by auto
  from commit_pass.prems(2) rows' logs' old new show ?case
    by (auto simp: conc_accounts_def)
qed (auto simp: conc_accounts_def succ_records_update_same)

lemma conc_reachable_accounts:
  assumes "(conc_step dist cfg c)\<^sup>*\<^sup>* w w'" "conc_inv w" "conc_accounts st0 w"
  shows "conc_accounts st0 w'"
  using assms
proof (induction rule: rtranclp_induct)
  case base then show ?case by simp
next
  case (step y z)
  from conc_reachable_inv [OF step.hyps(1) step.prems(1)] step show ?case
    by (blast intro: conc_step_accounts)
qed

lemma conc_inv_key_distinct:
  assumes "conc_inv (st, rs)"
  shows "distinct (map att_key (succ_records rs))"
proof -
  from assms have sub: "set (succ_records rs) \<subseteq> set (st_attendance st)"
    and d: "distinct (map att_pk (succ_records rs))"
    and k: "distinct (map att_key (st_attendance st))"
    by (simp_all add: conc_inv_def store_ok_def attendance_table_ok_def)
  from k have "inj_on att_key (set (st_attendance st))" by (simp add: distinct_map)
  then have "inj_on att_key (set (succ_records rs))" using sub by (rule inj_on_subset)
  moreover from d have "distinct (succ_records rs)" by (simp add: distinct_map)
  ultimately show ?thesis by (simp add: distinct_map)
qed

lemma submit_check_commit:
  "submit dist cfg c (rq_issued r) (rq_now r) (rq_user r) (rq_event r) (rq_evidence r) st =
     (case check_phase dist cfg c r (st_attendance st) of
        Inl err \<Rightarrow> Inl err | Inr g \<Rightarrow> commit_request cfg r g st)"
  by (cases "eligibility_gate (rq_now r) (rq_user r) (rq_event r) (st_attendance st)";
      cases "token_gate cfg (rq_issued r) (rq_now r) (rq_event r) (rq_evidence r)";
      cases "gps_check dist cfg c (rq_event r) (rq_evidence r)";
      cases "evidence_gate (rq_event r) (rq_evidence r)")
     (simp_all add: submit_def check_phase_def commit_request_def Let_def)

lemma check_phase_scenario:
  assumes "1000 \<le> now" "now \<le> 4600" "cap = None \<or> cap = Some 1"
  shows "check_phase (\<lambda>_ _. 20) (seed_configuration 1) (hd seed_campuses) (sample_request i cap now) []
    = Inr (Gps_passed 20)"
  using assms(3)
proof (elim disjE)
  assume "cap = None"
  with assms(1,2) show ?thesis
    by (simp add: check_phase_def eligibility_gate_def can_user_attend_def sample_request_def
      scenario_event_def sample_event_def sample_user_def at_capacity_def attendance_count_def has_record_def
      can_mark_attendance_def token_gate_def sample_evidence_def gps_check_def gps_target_def seed_campuses_def
      seed_campus_def seed_configuration_def default_configuration_def evidence_gate_def)
next
  assume "cap = Some 1"
  with assms(1,2) show ?thesis
    by (simp add: check_phase_def eligibility_gate_def can_user_attend_def sample_request_def
      scenario_event_def sample_event_def sample_user_def at_capacity_def attendance_count_def has_record_def
      can_mark_attendance_def token_gate_def sample_evidence_def gps_check_def gps_target_def seed_campuses_def
      seed_campus_def seed_configuration_def default_configuration_def evidence_gate_def)
qed

lemma overshoot_run:
  "\<exists>a b st. scenario_step\<^sup>*\<^sup>*
      (empty_store, requests_start [sample_request 3 (Some 1) 1500, sample_request 4 (Some 1) 1500])
      (st, [(sample_request 3 (Some 1) 1500, Finished (Inr a)), (sample_request 4 (Some 1) 1500, Finished (Inr b))])
    \<and> st_attendance st = [a, b] \<and> att_status a = Present \<and> att_status b = Present
    \<and> att_key a = (event_pk (scenario_event (Some 1)), 3) \<and> att_key b = (event_pk (scenario_event (Some 1)), 4)"
proof -
  let ?R1 = "sample_request 3 (Some 1) 1500" and ?R2 = "sample_request 4 (Some 1) 1500" and ?g = "Gps_passed 20"
  have ok0: "store_ok empty_store" by (simp add: store_ok_def empty_store_def attendance_table_ok_def)
  have c1: "check_phase (\<lambda>_ _. 20) (seed_configuration 1) (hd seed_campuses) ?R1 (st_attendance empty_store) = Inr ?g"
    using check_phase_scenario [of 1500 "Some 1" 3] by (simp add: empty_store_def)
  have c2: "check_phase (\<lambda>_ _. 20) (seed_configuration 1) (hd seed_campuses) ?R2 (st_attendance empty_store) = Inr ?g"
    using check_phase_scenario [of 1500 "Some 1" 4] by (simp add: empty_store_def)
  have s1: "scenario_step (empty_store, [(?R1, Waiting), (?R2, Waiting)]) (empty_store, [(?R1, Validated ?g), (?R2, Waiting)])"
    using conc_step.check_pass [where i = 0 and rs = "[(?R1, Waiting), (?R2, Waiting)]"] c1 by simp
  have s2: "scenario_step (empty_store, [(?R1, Validated ?g), (?R2, Waiting)]) (empty_store, [(?R1, Validated ?g), (?R2, Validated ?g)])"
    using conc_step.check_pass [where i = 1 and rs = "[(?R1, Validated ?g), (?R2, Waiting)]"] c2 by simp
  obtain a st1 where cm1: "commit_request (seed_configuration 1) ?R1 ?g empty_store = Inr (a, st1)"
    using commit_request_fresh [of empty_store ?R1 "seed_configuration 1" ?g] by (auto simp: empty_store_def)
  from commit_request_Inr [OF ok0 cm1] have ok1: "store_ok st1" and rows1: "st_attendance st1 = [a]"
    and up1: "st_audit_up st1" and ka: "att_key a = (event_pk (rq_event ?R1), user_pk (rq_user ?R1))"
    and pa: "att_status a = Present" by (simp_all add: empty_store_def)
  obtain b st where cm2: "commit_request (seed_configuration 1) ?R2 ?g st1 = Inr (b, st)"
    using commit_request_fresh [of st1 ?R2 "seed_configuration 1" ?g] up1 rows1 ka
    by (auto simp: sample_request_def sample_user_def)
  from commit_request_Inr [OF ok1 cm2] have rows: "st_attendance st = [a, b]"
    and kb: "att_key b = (event_pk (rq_event ?R2), user_pk (rq_user ?R2))"
    and pb: "att_status b = Present" by (simp_all add: rows1)
  have s3: "scenario_step (empty_store, [(?R1, Validated ?g), (?R2, Validated ?g)]) (st1, [(?R1, Finished (Inr a)), (?R2, Validated ?g)])"
    using conc_step.commit_pass [where i = 0 and rs = "[(?R1, Validated ?g), (?R2, Validated ?g)]"] cm1 by simp
  have s4: "scenario_step (st1, [(?R1, Finished (Inr a)), (?R2, Validated ?g)])
      (st, [(?R1, Finished (Inr a)), (?R2, Finished (Inr b))])"
    using conc_step.commit_pass [where i = 1 and rs = "[(?R1, Finished (Inr a)), (?R2, Validated ?g)]"] cm2 by simp
  have w0: "requests_start [?R1, ?R2] = [(?R1, Waiting), (?R2, Waiting)]" by (simp add: requests_start_def)
  have "scenario_step\<^sup>*\<^sup>* (empty_store, [(?R1, Waiting), (?R2, Waiting)])
      (st, [(?R1, Finished (Inr a)), (?R2, Finished (Inr b))])"
  proof -
    note step = converse_rtranclp_into_rtranclp [of scenario_step]
    show ?thesis by (rule step [OF s1 step [OF s2 step [OF s3 r_into_rtranclp [of scenario_step, OF s4]]]])
  qed
  moreover have "att_key a = (event_pk (scenario_event (Some 1)), 3) \<and> att_key b = (event_pk (scenario_event (Some 1)), 4)"
    using ka kb by (simp add: sample_request_def sample_user_def)
  ultimately show ?thesis unfolding w0 using rows pa pb by blast
qed

text \<open>Every step moves exactly one request to another phase.\<close>

lemma conc_step_one_changes:
  "conc_step dist cfg c (st, rs) (st', rs') \<Longrightarrow>
     \<exists>j p. j < length rs \<and> rs' = rs[j := (fst (rs ! j), p)] \<and> rs' ! j \<noteq> rs ! j"
  by (induction "(st, rs)" "(st', rs')" rule: conc_step.induct) fastforce+

lemma phase_simps [simp]:
  "is_finished Waiting = False" "is_finished (Validated g) = False" "is_finished (Finished res) = True"
  "is_finished Timed_out = True"
  "phase_rank Waiting = 2" "phase_rank (Validated g) = 1" "phase_rank (Finished res) = 0"
  "phase_rank Timed_out = 0"
  by (simp_all add: is_finished_def phase_rank_def)

lemma world_rank_update:
  assumes "i < length rs" "phase_rank p < phase_rank (snd (rs ! i))"
  shows "world_rank (st', rs[i := (r, p)]) < world_rank (st, rs)"
  using sum_list_map_update [OF assms(1), of "\<lambda>x. phase_rank (snd x)" "(r, p)"] assms(2)
  by (simp add: world_rank_def)

lemma conc_step_rank:
  "conc_step dist cfg c w w' \<Longrightarrow> world_rank w' < world_rank w"
  by (induction rule: conc_step.induct) (auto simp: world_rank_update)

text \<open>Progress: a request that has not returned can always take a step, since each
  phase's outcome is either a success or an error.\<close>

lemma conc_step_progress:
  assumes "i < length rs" "\<not> is_finished (snd (rs ! i))"
  shows "\<exists>w'. conc_step dist cfg c (st, rs) w'"
proof (cases "rs ! i")
  case (Pair r p)
  show ?thesis
  proof (cases p)
    case Waiting
    with Pair assms(1) show ?thesis
      by (cases "check_phase dist cfg c r (st_attendance st)") (blast intro: conc_step.check_pass conc_step.check_fail)+
  next
    case (Validated g)
    with Pair assms(1) show ?thesis
      by (cases "commit_request cfg r g st") (auto intro: conc_step.commit_pass conc_step.commit_fail)
  next
    case (Finished res)
    with Pair assms(2) show ?thesis by simp
  next
    case Timed_out
    with Pair assms(2) show ?thesis by simp
  qed
qed

lemma conc_step_not_finished:
  "conc_step dist cfg c w w' \<Longrightarrow> \<not> list_all (\<lambda>x. is_finished (snd x)) (snd w)"
  by (induction rule: conc_step.induct) (auto simp: list_all_length)

lemma conc_stuck_iff_finished:
  "(\<nexists>w'. conc_step dist cfg c w w') \<longleftrightarrow> list_all (\<lambda>x. is_finished (snd x)) (snd w)"
proof
  assume "\<nexists>w'. conc_step dist cfg c w w'"
  then show "list_all (\<lambda>x. is_finished (snd x)) (snd w)"
    using conc_step_progress [of _ "snd w" dist cfg c "fst w"] by (auto simp: list_all_length)
next
  assume "list_all (\<lambda>x. is_finished (snd x)) (snd w)"
  then show "\<nexists>w'. conc_step dist cfg c w w'" using conc_step_not_finished by blast
qed

section \<open>Properties\<close>

text \<open>C3: However submissions interleave, the unique constraint keeps the store's invariant:
  in every state reachable from a store satisfying it, the store still satisfies it, every
  successful request's record is stored, and no two successful requests share an
  (event, actor) pair.\<close>

theorem conc_one_record_per_pair:
  assumes "(conc_step dist cfg c)\<^sup>*\<^sup>* (st0, requests_start rqs) (st, rs)" "store_ok st0"
  shows "store_ok st \<and> set (succ_records rs) \<subseteq> set (st_attendance st) \<and> distinct (map att_key (succ_records rs))"
proof -
  have "conc_inv (st0, requests_start rqs)" using assms(2) by (simp add: conc_inv_def)
  from conc_reachable_inv [OF assms(1) this] have inv: "conc_inv (st, rs)" .
  with conc_inv_key_distinct [OF inv] show ?thesis by (simp add: conc_inv_def)
qed

theorem conc_one_record_per_pair_witness:
  "\<exists>st rs. scenario_step\<^sup>*\<^sup>* (empty_store, requests_start [sample_request 3 (Some 1) 1500, sample_request 4 (Some 1) 1500]) (st, rs)
     \<and> length (succ_records rs) = 2 \<and> distinct (map att_key (succ_records rs))"
proof -
  obtain a b st where r: "scenario_step\<^sup>*\<^sup>*
      (empty_store, requests_start [sample_request 3 (Some 1) 1500, sample_request 4 (Some 1) 1500])
      (st, [(sample_request 3 (Some 1) 1500, Finished (Inr a)), (sample_request 4 (Some 1) 1500, Finished (Inr b))])"
    using overshoot_run by blast
  have ok0: "store_ok empty_store" by (simp add: store_ok_def empty_store_def attendance_table_ok_def)
  from conc_one_record_per_pair [OF r ok0] r show ?thesis by fastforce
qed

text \<open>The double-submit race of section 5: two submissions by the same actor for the same
  event both pass validation on the empty table; the first commit succeeds and the second
  fails with \<open>AlreadyMarked\<close>, the kind the explicit duplicate gate reports, and the
  store holds the one record.\<close>

theorem conc_race_one_success:
  "\<exists>a st. scenario_step\<^sup>*\<^sup>*
      (empty_store, requests_start [sample_request 3 None 1500, sample_request 3 None 1510])
      (st, [(sample_request 3 None 1500, Finished (Inr a)), (sample_request 3 None 1510, Finished (Inl Already_marked))])
    \<and> st_attendance st = [a]"
proof -
  let ?R1 = "sample_request 3 None 1500" and ?R2 = "sample_request 3 None 1510" and ?g = "Gps_passed 20"
  have ok0: "store_ok empty_store" by (simp add: store_ok_def empty_store_def attendance_table_ok_def)
  have c1: "check_phase (\<lambda>_ _. 20) (seed_configuration 1) (hd seed_campuses) ?R1 (st_attendance empty_store) = Inr ?g"
    using check_phase_scenario [of 1500 None 3] by (simp add: empty_store_def)
  have c2: "check_phase (\<lambda>_ _. 20) (seed_configuration 1) (hd seed_campuses) ?R2 (st_attendance empty_store) = Inr ?g"
    using check_phase_scenario [of 1510 None 3] by (simp add: empty_store_def)
  have s1: "scenario_step (empty_store, [(?R1, Waiting), (?R2, Waiting)]) (empty_store, [(?R1, Validated ?g), (?R2, Waiting)])"
    using conc_step.check_pass [where i = 0 and rs = "[(?R1, Waiting), (?R2, Waiting)]"] c1 by simp
  have s2: "scenario_step (empty_store, [(?R1, Validated ?g), (?R2, Waiting)]) (empty_store, [(?R1, Validated ?g), (?R2, Validated ?g)])"
    using conc_step.check_pass [where i = 1 and rs = "[(?R1, Validated ?g), (?R2, Waiting)]"] c2 by simp
  obtain a st where cm: "commit_request (seed_configuration 1) ?R1 ?g empty_store = Inr (a, st)"
    using commit_request_fresh [of empty_store ?R1 "seed_configuration 1" ?g] by (auto simp: empty_store_def)
  from commit_request_Inr [OF ok0 cm] have rows: "st_attendance st = [a]"
    and key: "att_key a = (event_pk (rq_event ?R1), user_pk (rq_user ?R1))" by (simp_all add: empty_store_def)
  have s3: "scenario_step (empty_store, [(?R1, Validated ?g), (?R2, Validated ?g)]) (st, [(?R1, Finished (Inr a)), (?R2, Validated ?g)])"
    using conc_step.commit_pass [where i = 0 and rs = "[(?R1, Validated ?g), (?R2, Validated ?g)]"] cm by simp
  have dup: "commit_request (seed_configuration 1) ?R2 ?g st = Inl Already_marked"
    by (rule commit_request_dup) (simp add: rows key sample_request_def)
  have s4: "scenario_step (st, [(?R1, Finished (Inr a)), (?R2, Validated ?g)])
      (st, [(?R1, Finished (Inr a)), (?R2, Finished (Inl Already_marked))])"
    using conc_step.commit_fail [where i = 1 and rs = "[(?R1, Finished (Inr a)), (?R2, Validated ?g)]"] dup by simp
  have w0: "requests_start [?R1, ?R2] = [(?R1, Waiting), (?R2, Waiting)]" by (simp add: requests_start_def)
  have "scenario_step\<^sup>*\<^sup>* (empty_store, [(?R1, Waiting), (?R2, Waiting)])
      (st, [(?R1, Finished (Inr a)), (?R2, Finished (Inl Already_marked))])"
  proof -
    note step = converse_rtranclp_into_rtranclp [of scenario_step]
    show ?thesis by (rule step [OF s1 step [OF s2 step [OF s3 r_into_rtranclp [of scenario_step, OF s4]]]])
  qed
  with rows show ?thesis unfolding w0 by blast
qed

text \<open>Capacity is advisory under races, as section 5 accepts: two actors validating on the
  same snapshot of an event with capacity 1 both succeed, leaving two present records.\<close>

theorem conc_capacity_overshoot:
  "\<exists>a b st. scenario_step\<^sup>*\<^sup>*
      (empty_store, requests_start [sample_request 3 (Some 1) 1500, sample_request 4 (Some 1) 1500])
      (st, [(sample_request 3 (Some 1) 1500, Finished (Inr a)), (sample_request 4 (Some 1) 1500, Finished (Inr b))])
    \<and> event_max_participants (scenario_event (Some 1)) = Some 1
    \<and> attendance_count (scenario_event (Some 1)) (st_attendance st) = 2"
proof -
  obtain a b st where r: "scenario_step\<^sup>*\<^sup>*
      (empty_store, requests_start [sample_request 3 (Some 1) 1500, sample_request 4 (Some 1) 1500])
      (st, [(sample_request 3 (Some 1) 1500, Finished (Inr a)), (sample_request 4 (Some 1) 1500, Finished (Inr b))])"
    and rows: "st_attendance st = [a, b]" and pa: "att_status a = Present" and pb: "att_status b = Present"
    and ka: "att_key a = (event_pk (scenario_event (Some 1)), 3)" and kb: "att_key b = (event_pk (scenario_event (Some 1)), 4)"
    using overshoot_run by blast
  have "attendance_count (scenario_event (Some 1)) (st_attendance st) = 2"
    using rows pa pb ka kb by (simp add: attendance_count_def att_key_def)
  moreover have "event_max_participants (scenario_event (Some 1)) = Some 1" by (simp add: scenario_event_def)
  ultimately show ?thesis using r by blast
qed

text \<open>The sequential pipeline is one run of the interleaving: validating and then
  committing a lone request reaches exactly the outcome and store of \<open>submit\<close>.\<close>

theorem submit_refines_conc:
  "(conc_step dist cfg c)\<^sup>*\<^sup>* (st, [(r, Waiting)])
     (case submit dist cfg c (rq_issued r) (rq_now r) (rq_user r) (rq_event r) (rq_evidence r) st of
        Inl err \<Rightarrow> (st, [(r, Finished (Inl err))])
      | Inr (a, st') \<Rightarrow> (st', [(r, Finished (Inr a))]))"
proof (cases "check_phase dist cfg c r (st_attendance st)")
  case (Inl err)
  have "conc_step dist cfg c (st, [(r, Waiting)]) (st, [(r, Finished (Inl err))])"
    using conc_step.check_fail [where i = 0 and rs = "[(r, Waiting)]"] Inl by simp
  then show ?thesis using Inl by (simp add: submit_check_commit)
next
  case (Inr g)
  have s1: "conc_step dist cfg c (st, [(r, Waiting)]) (st, [(r, Validated g)])"
    using conc_step.check_pass [where i = 0 and rs = "[(r, Waiting)]"] Inr by simp
  note step = converse_rtranclp_into_rtranclp [of "conc_step dist cfg c"]
  show ?thesis
  proof (cases "commit_request cfg r g st")
    case (Inl err)
    have "conc_step dist cfg c (st, [(r, Validated g)]) (st, [(r, Finished (Inl err))])"
      using conc_step.commit_fail [where i = 0 and rs = "[(r, Validated g)]"] Inl by simp
    from step [OF s1 r_into_rtranclp [of "conc_step dist cfg c", OF this]] show ?thesis
      using Inr Inl by (simp add: submit_check_commit)
  next
    case (Inr p)
    then obtain a st' where p: "commit_request cfg r g st = Inr (a, st')" by (cases p) auto
    have "conc_step dist cfg c (st, [(r, Validated g)]) (st', [(r, Finished (Inr a))])"
      using conc_step.commit_pass [where i = 0 and rs = "[(r, Validated g)]"] p by simp
    from step [OF s1 r_into_rtranclp [of "conc_step dist cfg c", OF this]] show ?thesis
      using \<open>check_phase dist cfg c r (st_attendance st) = Inr g\<close> p by (simp add: submit_check_commit)
  qed
qed

text \<open>Every interleaving terminates: the converse of the step relation is well-founded,
  as each step moves one request from waiting to validated or to finished, or from
  validated to finished; no run of concurrent submissions goes on for ever.\<close>

theorem conc_terminates: "wfP (\<lambda>w' w. conc_step dist cfg c w w')"
proof -
  have "{(w', w). conc_step dist cfg c w w'} \<subseteq> measure world_rank"
    using conc_step_rank by auto
  from wf_subset [OF wf_measure this] show ?thesis by (simp add: wfp_def)
qed

text \<open>Every submission returns: from any world some run reaches a world in which every
  request has finished, with a success or an error, and a world has no further step exactly
  when all its requests have finished, so no request is left waiting or validated.\<close>

theorem conc_completes:
  "(\<exists>w'. (conc_step dist cfg c)\<^sup>*\<^sup>* w w' \<and> list_all (\<lambda>x. is_finished (snd x)) (snd w'))
   \<and> ((\<nexists>w'. conc_step dist cfg c w w') \<longleftrightarrow> list_all (\<lambda>x. is_finished (snd x)) (snd w))"
proof -
  have "\<exists>w'. (conc_step dist cfg c)\<^sup>*\<^sup>* w w' \<and> list_all (\<lambda>x. is_finished (snd x)) (snd w')"
  proof (induction w rule: measure_induct_rule [of world_rank])
    case (less v)
    show ?case
    proof (cases "list_all (\<lambda>x. is_finished (snd x)) (snd v)")
      case True then show ?thesis by blast
    next
      case False
      with conc_stuck_iff_finished obtain v1 where s: "conc_step dist cfg c v v1" by blast
      from less [OF conc_step_rank [OF s]] obtain w' where
        "(conc_step dist cfg c)\<^sup>*\<^sup>* v1 w'" "list_all (\<lambda>x. is_finished (snd x)) (snd w')" by blast
      with s show ?thesis by (blast intro: converse_rtranclp_into_rtranclp)
    qed
  qed
  with conc_stuck_iff_finished show ?thesis by blast
qed

theorem conc_completes_witness:
  "\<exists>w'. scenario_step\<^sup>*\<^sup>* (empty_store, requests_start [sample_request 3 None 1500, sample_request 3 None 1510]) w'
     \<and> list_all (\<lambda>x. is_finished (snd x)) (snd w')"
  using conc_completes [of "\<lambda>_ _. 20" "seed_configuration 1" "hd seed_campuses"
      "(empty_store, requests_start [sample_request 3 None 1500, sample_request 3 None 1510])"] by blast

text \<open>C7: The transaction boundary of section 5 is all-or-nothing under any interleaving,
  time-outs included: in every state reachable from a consistent store, the stored records
  are exactly the initial ones plus one record per successful request, and the audit log
  has grown by exactly one entry per successful request; a request that failed or timed
  out has created no record and no log entry.\<close>

theorem conc_all_or_nothing:
  assumes "(conc_step dist cfg c)\<^sup>*\<^sup>* (st0, requests_start rqs) (st, rs)" "store_ok st0"
  shows "set (st_attendance st) = set (st_attendance st0) \<union> set (succ_records rs)
    \<and> length (st_attendance st) = length (st_attendance st0) + length (succ_records rs)
    \<and> length (st_logs st) = length (st_logs st0) + length (succ_records rs)"
proof -
  have "conc_inv (st0, requests_start rqs)" using assms(2) by (simp add: conc_inv_def)
  moreover have "conc_accounts st0 (st0, requests_start rqs)" by (simp add: conc_accounts_def)
  ultimately have "conc_accounts st0 (st, rs)" by (rule conc_reachable_accounts [OF assms(1)])
  then show ?thesis by (simp add: conc_accounts_def)
qed

text \<open>A run in which actor 3's submission validates and then times out: the store it
  reaches is the empty one, with no record and no log entry.\<close>

theorem conc_all_or_nothing_witness:
  "scenario_step\<^sup>*\<^sup>* (empty_store, requests_start [sample_request 3 None 1500])
     (empty_store, [(sample_request 3 None 1500, Timed_out)])
   \<and> st_attendance empty_store = [] \<and> st_logs empty_store = []"
proof -
  let ?R = "sample_request 3 None 1500" and ?g = "Gps_passed 20"
  have ok0: "store_ok empty_store" by (simp add: store_ok_def empty_store_def attendance_table_ok_def)
  have c1: "check_phase (\<lambda>_ _. 20) (seed_configuration 1) (hd seed_campuses) ?R (st_attendance empty_store) = Inr ?g"
    using check_phase_scenario [of 1500 None 3] by (simp add: empty_store_def)
  have s1: "scenario_step (empty_store, [(?R, Waiting)]) (empty_store, [(?R, Validated ?g)])"
    using conc_step.check_pass [where i = 0 and rs = "[(?R, Waiting)]"] c1 by simp
  have s2: "scenario_step (empty_store, [(?R, Validated ?g)]) (empty_store, [(?R, Timed_out)])"
    using conc_step.time_out [where i = 0 and rs = "[(?R, Validated ?g)]"] by simp
  have run: "scenario_step\<^sup>*\<^sup>* (empty_store, requests_start [?R]) (empty_store, [(?R, Timed_out)])"
    using converse_rtranclp_into_rtranclp [OF s1 r_into_rtranclp [of scenario_step, OF s2]]
    by (simp add: requests_start_def)
  from conc_all_or_nothing [OF run ok0] run show ?thesis by (simp add: empty_store_def)
qed

text \<open>C6: The unique constraint, not the pre-check, decides a stale race (section 5): if a
  request validated on a table without its (event, actor) pair and that pair has since been
  stored by another request, then whatever step the request takes next leaves the store
  unchanged and ends it with \<open>AlreadyMarked\<close>, the kind the explicit duplicate gate
  reports, or with a time-out; it can never commit a second record.\<close>

theorem conc_stale_commit_rejected:
  assumes "conc_step dist cfg c (st, rs) (st', rs')" "i < length rs" "rs ! i = (r, Validated g)"
    "has_record (rq_event r) (rq_user r) (st_attendance st)" "rs' ! i \<noteq> rs ! i"
  shows "st' = st \<and> (rs' ! i = (r, Finished (Inl Already_marked)) \<or> rs' ! i = (r, Timed_out))"
proof -
  have dup: "commit_request cfg r g st = Inl Already_marked"
    using assms(4) by (intro commit_request_dup) (auto simp: has_record_def att_key_def)
  from assms(1) show ?thesis
  proof cases
    case (check_pass j r' g')
    with assms(2,3,5) show ?thesis by (cases "j = i") auto
  next
    case (check_fail j r' err)
    with assms(2,3,5) show ?thesis by (cases "j = i") auto
  next
    case (commit_pass j r' g' a)
    with assms(2,3,5) dup show ?thesis by (cases "j = i") auto
  next
    case (commit_fail j r' g' err)
    with assms(2,3,5) dup show ?thesis by (cases "j = i") auto
  next
    case (time_out j r' p)
    with assms(2,3,5) show ?thesis by (cases "j = i") auto
  qed
qed

text \<open>Actor 3's second submission, validated before the first was committed, meets the
  first one's record: from that world every step leaves the store as it was and ends the
  request with \<open>AlreadyMarked\<close> or a time-out.\<close>

theorem conc_stale_commit_rejected_witness:
  "\<not> (\<exists>st' rs'. scenario_step (race_store, [(sample_request 3 None 1510, Validated (Gps_passed 20))]) (st', rs')
        \<and> st' \<noteq> race_store)
   \<and> \<not> (\<exists>st' a. scenario_step (race_store, [(sample_request 3 None 1510, Validated (Gps_passed 20))])
        (st', [(sample_request 3 None 1510, Finished (Inr a))]))"
proof -
  let ?R = "sample_request 3 None 1510" and ?g = "Gps_passed 20"
  have hr: "has_record (rq_event ?R) (rq_user ?R) (st_attendance race_store)"
    by (simp add: has_record_def race_store_def empty_store_def sample_request_def scenario_event_def
        sample_event_def sample_user_def new_attendance_def)
  have out: "st' = race_store \<and> (rs' ! 0 = (?R, Finished (Inl Already_marked)) \<or> rs' ! 0 = (?R, Timed_out))"
    if s: "scenario_step (race_store, [(?R, Validated ?g)]) (st', rs')" for st' rs'
  proof -
    from conc_step_one_changes [OF s] obtain j p where j: "j < 1"
      and ch: "rs' ! j \<noteq> [(?R, Validated ?g)] ! j"
      by auto
    from j have j0: "j = 0" by simp
    from conc_stale_commit_rejected [OF s, of 0 ?R ?g] hr ch j0 show ?thesis by simp
  qed
  then show ?thesis by fastforce
qed

end
