(* ===== verification/Setup.thy ===== *)
theory Setup
  imports Accounts
begin

text \<open>
  The \<open>setup_initial_data\<close> management command
  (\<open>apps/campus/management/commands/setup_initial_data.py\<close>, \<open>Command.handle\<close>).
  It optionally clears the campus and user tables, then \<open>get_or_create\<close>s the four
  seed campuses by id, creating a \<open>CampusConfiguration\<close> for each campus it created,
  looks the main campus up by code \<open>SNSU\<close>, and \<open>get_or_create\<close>s the three demo
  users by username.

  The database is a record of the three tables. Inserts check the model's unique
  constraints (\<open>Campus.code\<close>, \<open>Campus.domain\<close>, the primary keys, the one-to-one
  \<open>CampusConfiguration.campus\<close>, \<open>User.username\<close>, \<open>User.student_id\<close>); a violation is
  Django's \<open>IntegrityError\<close>, a failed \<open>get\<close> its \<open>DoesNotExist\<close> or
  \<open>MultipleObjectsReturned\<close>. The command runs without a transaction, so an error
  is returned together with the database as the command left it.
  \<open>get_or_create\<close> does not run field validators, and passwords, e-mail, phone and the
  other fields the model does not keep are not modelled.
\<close>

section \<open>Database and ORM operations\<close>

datatype orm_error = Integrity_violation string | Does_not_exist | Multiple_objects_returned

record seed_db =
  db_campuses :: "campus list"
  db_configs :: "campus_configuration list"
  db_users :: "user list"

definition empty_db :: seed_db where
  "empty_db = \<lparr>db_campuses = [], db_configs = [], db_users = []\<rparr>"

text \<open>\<open>Campus.objects.all().delete()\<close> cascades to the configurations and to the users
  (both foreign keys are \<open>on_delete=CASCADE\<close>); \<open>User.objects.all().delete()\<close> then
  finds nothing left.\<close>

definition clear_db :: "seed_db \<Rightarrow> seed_db" where
  "clear_db db = db\<lparr>db_campuses := [], db_configs := [], db_users := []\<rparr>"

definition campus_insert :: "campus \<Rightarrow> seed_db \<Rightarrow> orm_error + seed_db" where
  "campus_insert c db =
     (if \<exists>x \<in> set (db_campuses db). campus_pk x = campus_pk c then Inl (Integrity_violation ''campus.id'')
      else if \<exists>x \<in> set (db_campuses db). campus_code x = campus_code c then Inl (Integrity_violation ''campus.code'')
      else if \<exists>x \<in> set (db_campuses db). campus_domain x = campus_domain c
        then Inl (Integrity_violation ''campus.domain'')
      else Inr (db\<lparr>db_campuses := db_campuses db @ [c]\<rparr>))"

text \<open>\<open>Campus.objects.get_or_create(id=..., defaults=campus_data)\<close>: the row with that
  id unchanged, or an insert of the defaults.\<close>

definition campus_get_or_create :: "campus \<Rightarrow> seed_db \<Rightarrow> orm_error + (campus \<times> bool) \<times> seed_db" where
  "campus_get_or_create c db =
     (case find (\<lambda>x. campus_pk x = campus_pk c) (db_campuses db) of
        Some x \<Rightarrow> Inr ((x, False), db)
      | None \<Rightarrow> (case campus_insert c db of Inl e \<Rightarrow> Inl e | Inr db' \<Rightarrow> Inr ((c, True), db')))"

definition config_create :: "campus_configuration \<Rightarrow> seed_db \<Rightarrow> orm_error + seed_db" where
  "config_create k db =
     (if \<exists>x \<in> set (db_configs db). cfg_campus x = cfg_campus k
      then Inl (Integrity_violation ''campus_configuration.campus_id'')
      else Inr (db\<lparr>db_configs := db_configs db @ [k]\<rparr>))"

text \<open>The \<open>for campus_data in campuses_data\<close> loop.\<close>

fun seed_campus_loop :: "campus list \<Rightarrow> seed_db \<Rightarrow> (orm_error \<times> seed_db) + seed_db" where
  "seed_campus_loop [] db = Inr db"
| "seed_campus_loop (c # cs) db =
     (case campus_get_or_create c db of
        Inl e \<Rightarrow> Inl (e, db)
      | Inr ((campus, created), db1) \<Rightarrow>
          (if created then
             (case config_create (seed_configuration (campus_pk campus)) db1 of
                Inl e \<Rightarrow> Inl (e, db1)
              | Inr db2 \<Rightarrow> seed_campus_loop cs db2)
           else seed_campus_loop cs db1))"

text \<open>\<open>Campus.objects.get(code=...)\<close>.\<close>

definition campus_get_by_code :: "string \<Rightarrow> campus list \<Rightarrow> orm_error + campus" where
  "campus_get_by_code code cs =
     (case filter (\<lambda>c. campus_code c = code) cs of
        [] \<Rightarrow> Inl Does_not_exist
      | [c] \<Rightarrow> Inr c
      | _ \<Rightarrow> Inl Multiple_objects_returned)"

definition next_user_id :: "user list \<Rightarrow> user_id" where
  "next_user_id us = Suc (fold max (map user_pk us) 0)"

definition user_insert :: "user \<Rightarrow> seed_db \<Rightarrow> orm_error + seed_db" where
  "user_insert u db =
     (if \<exists>x \<in> set (db_users db). user_username x = user_username u then Inl (Integrity_violation ''users.username'')
      else if \<exists>x \<in> set (db_users db). user_student_id x = user_student_id u
        then Inl (Integrity_violation ''users.student_id'')
      else Inr (db\<lparr>db_users := db_users db @ [u]\<rparr>))"

text \<open>\<open>User.objects.get_or_create(username=..., defaults=...)\<close>; the new row gets the
  next key the database assigns.\<close>

definition user_get_or_create ::
  "string \<Rightarrow> (user_id \<Rightarrow> user) \<Rightarrow> seed_db \<Rightarrow> orm_error + (user \<times> bool) \<times> seed_db" where
  "user_get_or_create name mk db =
     (case find (\<lambda>x. user_username x = name) (db_users db) of
        Some x \<Rightarrow> Inr ((x, False), db)
      | None \<Rightarrow>
          (let u = mk (next_user_id (db_users db)) in
           case user_insert u db of Inl e \<Rightarrow> Inl e | Inr db' \<Rightarrow> Inr ((u, True), db')))"

section \<open>The command\<close>

definition demo_user ::
  "string \<Rightarrow> string \<Rightarrow> string \<Rightarrow> string \<Rightarrow> string \<Rightarrow> role \<Rightarrow> campus \<Rightarrow> user_id \<Rightarrow> user" where
  "demo_user name first_name middle_name last_name sid r main i = \<lparr>user_pk = i, user_username = name,
     user_first_name = first_name, user_middle_name = middle_name, user_last_name = last_name, user_student_id = sid,
     user_campus = campus_pk main, user_role = r, user_accessible_campus_ids = [], user_is_active = True\<rparr>"

definition admin_defaults :: "campus \<Rightarrow> user_id \<Rightarrow> user" where
  "admin_defaults = demo_user ''admin'' ''Nilo'' ''Jr.'' ''Olang'' ''ADMIN001'' Super_admin"

definition organizer_defaults :: "campus \<Rightarrow> user_id \<Rightarrow> user" where
  "organizer_defaults = demo_user ''organizer'' ''Maria'' [] ''Santos'' ''ORG001'' Organizer"

definition student_defaults :: "campus \<Rightarrow> user_id \<Rightarrow> user" where
  "student_defaults = demo_user ''student'' ''Juan'' [] ''Cruz'' ''2024-000001'' Student"

definition seed_users :: "campus \<Rightarrow> seed_db \<Rightarrow> (orm_error \<times> seed_db) + seed_db" where
  "seed_users main db1 =
     (case user_get_or_create ''admin'' (admin_defaults main) db1 of
        Inl e \<Rightarrow> Inl (e, db1)
      | Inr (_, db2) \<Rightarrow>
          (case user_get_or_create ''organizer'' (organizer_defaults main) db2 of
             Inl e \<Rightarrow> Inl (e, db2)
           | Inr (_, db3) \<Rightarrow>
               (case user_get_or_create ''student'' (student_defaults main) db3 of
                  Inl e \<Rightarrow> Inl (e, db3)
                | Inr (_, db4) \<Rightarrow> Inr db4)))"

definition setup_initial_data :: "bool \<Rightarrow> seed_db \<Rightarrow> (orm_error \<times> seed_db) + seed_db" where
  "setup_initial_data clear db0 =
     (let db = (if clear then clear_db db0 else db0) in
      case seed_campus_loop seed_campuses db of
        Inl r \<Rightarrow> Inl r
      | Inr db1 \<Rightarrow>
          (case campus_get_by_code ''SNSU'' (db_campuses db1) of
             Inl e \<Rightarrow> Inl (e, db1)
           | Inr main \<Rightarrow> seed_users main db1))"

text \<open>The database the command leaves behind, whether it finished or stopped at an error.\<close>

definition outcome_db :: "(orm_error \<times> seed_db) + seed_db \<Rightarrow> seed_db" where
  "outcome_db r = (case r of Inl p \<Rightarrow> snd p | Inr db \<Rightarrow> db)"

text \<open>The database's integrity: the unique columns are unique and every foreign key
  names a stored campus.\<close>

definition seed_db_ok :: "seed_db \<Rightarrow> bool" where
  "seed_db_ok db \<longleftrightarrow>
     distinct (map campus_pk (db_campuses db)) \<and> distinct (map campus_code (db_campuses db))
     \<and> distinct (map campus_domain (db_campuses db))
     \<and> distinct (map cfg_campus (db_configs db))
     \<and> set (map cfg_campus (db_configs db)) \<subseteq> set (map campus_pk (db_campuses db))
     \<and> distinct (map user_pk (db_users db)) \<and> distinct (map user_username (db_users db))
     \<and> distinct (map user_student_id (db_users db))
     \<and> set (map user_campus (db_users db)) \<subseteq> set (map campus_pk (db_campuses db))"

section \<open>Lemmas\<close>

lemma outcome_db_simps [simp]: "outcome_db (Inl p) = snd p" "outcome_db (Inr db) = db"
  by (simp_all add: outcome_db_def)

lemma campus_insert_ok:
  assumes "seed_db_ok db" "campus_insert c db = Inr db'"
  shows "seed_db_ok db' \<and> db_campuses db' = db_campuses db @ [c]
    \<and> db_configs db' = db_configs db \<and> db_users db' = db_users db"
proof -
  from assms(2) have fresh: "campus_pk c \<notin> set (map campus_pk (db_campuses db))"
    "campus_code c \<notin> set (map campus_code (db_campuses db))"
    "campus_domain c \<notin> set (map campus_domain (db_campuses db))"
    and db': "db' = db\<lparr>db_campuses := db_campuses db @ [c]\<rparr>"
    by (auto simp: campus_insert_def split: if_splits)
  with assms(1) show ?thesis by (auto simp: seed_db_ok_def)
qed

lemma config_create_ok:
  assumes "seed_db_ok db" "cfg_campus k \<in> set (map campus_pk (db_campuses db))" "config_create k db = Inr db'"
  shows "seed_db_ok db' \<and> db_campuses db' = db_campuses db \<and> db_users db' = db_users db"
proof -
  from assms(3) have fresh: "cfg_campus k \<notin> set (map cfg_campus (db_configs db))"
    and db': "db' = db\<lparr>db_configs := db_configs db @ [k]\<rparr>"
    by (auto simp: config_create_def split: if_splits)
  with assms(1,2) show ?thesis by (simp add: seed_db_ok_def)
qed

lemma user_insert_ok:
  assumes "seed_db_ok db" "user_campus u \<in> set (map campus_pk (db_campuses db))"
    "user_pk u \<notin> set (map user_pk (db_users db))" "user_insert u db = Inr db'"
  shows "seed_db_ok db' \<and> db_campuses db' = db_campuses db \<and> db_configs db' = db_configs db
    \<and> db_users db' = db_users db @ [u]"
proof -
  from assms(4) have fresh: "user_username u \<notin> set (map user_username (db_users db))"
    "user_student_id u \<notin> set (map user_student_id (db_users db))"
    and db': "db' = db\<lparr>db_users := db_users db @ [u]\<rparr>"
    by (auto simp: user_insert_def split: if_splits)
  with assms(1-3) show ?thesis by (simp add: seed_db_ok_def)
qed

lemma campus_get_or_create_Inr:
  assumes "campus_get_or_create c db = Inr ((x, created), db')"
  shows "(if created then x = c \<and> campus_insert c db = Inr db' else db' = db)
    \<and> x \<in> set (db_campuses db') \<and> campus_pk x = campus_pk c"
  using assms
  by (auto simp: campus_get_or_create_def campus_insert_def find_Some_iff
      split: option.splits sum.splits if_splits dest: nth_mem)

lemma seed_campus_loop_ok:
  "seed_db_ok db \<Longrightarrow> seed_db_ok (outcome_db (seed_campus_loop cs db))"
proof (induction cs arbitrary: db)
  case (Cons c cs)
  show ?case
  proof (cases "campus_get_or_create c db")
    case (Inr r)
    then obtain x created db1 where r: "campus_get_or_create c db = Inr ((x, created), db1)"
      by (metis prod.collapse)
    note g = campus_get_or_create_Inr [OF r]
    have ok1: "seed_db_ok db1"
      using g campus_insert_ok [OF Cons.prems] Cons.prems by (cases created) auto
    show ?thesis
    proof (cases created)
      case True
      have "x \<in> set (db_campuses db1)" using g by blast
      then have "campus_pk x \<in> set (map campus_pk (db_campuses db1))" by simp
      then have k: "cfg_campus (seed_configuration (campus_pk x)) \<in> set (map campus_pk (db_campuses db1))"
        by (simp add: seed_configuration_def default_configuration_def)
      show ?thesis
      proof (cases "config_create (seed_configuration (campus_pk x)) db1")
        case (Inr db2)
        with config_create_ok [OF ok1 k Inr] Cons.IH r True show ?thesis by simp
      qed (use r True ok1 in simp)
    next
      case False
      with Cons.IH [OF ok1] r show ?thesis by simp
    qed
  qed (use Cons.prems in simp)
qed simp

lemma campus_get_by_code_Inr:
  assumes "campus_get_by_code code cs = Inr c"
  shows "c \<in> set cs \<and> campus_code c = code"
proof -
  from assms have "filter (\<lambda>c. campus_code c = code) cs = [c]"
    by (auto simp: campus_get_by_code_def split: list.splits)
  then have "c \<in> set (filter (\<lambda>c. campus_code c = code) cs)" by simp
  then show ?thesis by simp
qed

lemma demo_user_simps [simp]:
  "user_pk (demo_user n f m l s r main i) = i" "user_username (demo_user n f m l s r main i) = n"
  "user_campus (demo_user n f m l s r main i) = campus_pk main"
  by (simp_all add: demo_user_def)

lemma user_get_or_create_cases:
  assumes "user_get_or_create name mk db = Inr (res, db')"
  shows "(db' = db \<and> name \<in> set (map user_username (db_users db)))
    \<or> user_insert (mk (next_user_id (db_users db))) db = Inr db'"
proof (cases "find (\<lambda>x. user_username x = name) (db_users db)")
  case (Some x)
  with assms have "db' = db" by (simp add: user_get_or_create_def)
  moreover from Some have "x \<in> set (db_users db)" "user_username x = name"
    by (auto simp: find_Some_iff dest: nth_mem)
  ultimately show ?thesis by force
qed (use assms in \<open>auto simp: user_get_or_create_def Let_def split: sum.splits\<close>)

lemma user_get_or_create_Inr:
  assumes mk: "\<forall>i. user_username (mk i) = name" and r: "user_get_or_create name mk db = Inr (res, db')"
  shows "db_campuses db' = db_campuses db \<and> db_configs db' = db_configs db
    \<and> set (db_users db) \<subseteq> set (db_users db') \<and> name \<in> set (map user_username (db_users db'))"
  using user_get_or_create_cases [OF r] mk by (auto simp: user_insert_def split: if_splits)

lemma user_get_or_create_ok:
  assumes ok: "seed_db_ok db" and mk: "\<forall>i. user_pk (mk i) = i"
    and cp: "\<forall>i. user_campus (mk i) \<in> set (map campus_pk (db_campuses db))"
    and r: "user_get_or_create name mk db = Inr (res, db')"
  shows "seed_db_ok db'"
proof -
  have fresh: "user_pk (mk (next_user_id (db_users db))) \<notin> set (map user_pk (db_users db))"
    using mk fold_max_Suc_fresh [of "map user_pk (db_users db)"] by (simp add: next_user_id_def)
  from user_get_or_create_cases [OF r] show ?thesis
  proof
    assume ins: "user_insert (mk (next_user_id (db_users db))) db = Inr db'"
    from cp have "user_campus (mk (next_user_id (db_users db))) \<in> set (map campus_pk (db_campuses db))" by blast
    from user_insert_ok [OF ok this fresh ins] show ?thesis by simp
  qed (use ok in simp)
qed

lemma user_get_or_create_present:
  assumes "name \<in> set (map user_username (db_users db))"
  shows "\<exists>x. user_get_or_create name mk db = Inr ((x, False), db)"
proof -
  from assms have "find (\<lambda>x. user_username x = name) (db_users db) \<noteq> None"
    by (auto simp: find_None_iff)
  then show ?thesis by (auto simp: user_get_or_create_def)
qed

lemma seed_users_Inr:
  assumes "seed_users main db = Inr db'"
  shows "db_campuses db' = db_campuses db
    \<and> set [''admin'', ''organizer'', ''student''] \<subseteq> set (map user_username (db_users db'))"
proof -
  from assms obtain r1 db2 r2 db3 r3 where
    s1: "user_get_or_create ''admin'' (admin_defaults main) db = Inr (r1, db2)"
    and s2: "user_get_or_create ''organizer'' (organizer_defaults main) db2 = Inr (r2, db3)"
    and s3: "user_get_or_create ''student'' (student_defaults main) db3 = Inr (r3, db')"
    by (auto simp: seed_users_def split: sum.splits)
  from user_get_or_create_Inr [OF _ s1] user_get_or_create_Inr [OF _ s2] user_get_or_create_Inr [OF _ s3]
  show ?thesis by (auto simp: admin_defaults_def organizer_defaults_def student_defaults_def)
qed

lemma seed_users_ok:
  assumes ok: "seed_db_ok db" and main: "campus_pk main \<in> set (map campus_pk (db_campuses db))"
  shows "seed_db_ok (outcome_db (seed_users main db))"
proof (cases "user_get_or_create ''admin'' (admin_defaults main) db")
  case (Inr p1)
  then obtain r1 db2 where s1: "user_get_or_create ''admin'' (admin_defaults main) db = Inr (r1, db2)"
    by (cases p1) auto
  have ok2: "seed_db_ok db2" using user_get_or_create_ok [OF ok _ _ s1] main by (simp add: admin_defaults_def)
  have c2: "db_campuses db2 = db_campuses db" using user_get_or_create_Inr [OF _ s1] by (simp add: admin_defaults_def)
  show ?thesis
  proof (cases "user_get_or_create ''organizer'' (organizer_defaults main) db2")
    case (Inr p2)
    then obtain r2 db3 where s2: "user_get_or_create ''organizer'' (organizer_defaults main) db2 = Inr (r2, db3)"
      by (cases p2) auto
    have ok3: "seed_db_ok db3" using user_get_or_create_ok [OF ok2 _ _ s2] main c2
      by (simp add: organizer_defaults_def)
    have c3: "db_campuses db3 = db_campuses db"
      using user_get_or_create_Inr [OF _ s2] c2 by (simp add: organizer_defaults_def)
    show ?thesis
    proof (cases "user_get_or_create ''student'' (student_defaults main) db3")
      case (Inr p3)
      then obtain r3 db4 where s3: "user_get_or_create ''student'' (student_defaults main) db3 = Inr (r3, db4)"
        by (cases p3) auto
      have "seed_db_ok db4" using user_get_or_create_ok [OF ok3 _ _ s3] main c3
        by (simp add: student_defaults_def)
      with s1 s2 s3 show ?thesis by (simp add: seed_users_def)
    qed (use s1 s2 ok3 in \<open>simp add: seed_users_def\<close>)
  qed (use s1 ok2 in \<open>simp add: seed_users_def\<close>)
qed (use ok in \<open>simp add: seed_users_def\<close>)

lemma seed_users_present:
  assumes "set [''admin'', ''organizer'', ''student''] \<subseteq> set (map user_username (db_users db))"
  shows "seed_users main db = Inr db"
proof -
  from assms obtain x y z where
    "user_get_or_create ''admin'' (admin_defaults main) db = Inr ((x, False), db)"
    "user_get_or_create ''organizer'' (organizer_defaults main) db = Inr ((y, False), db)"
    "user_get_or_create ''student'' (student_defaults main) db = Inr ((z, False), db)"
    using user_get_or_create_present by (metis insert_subset list.simps(15))
  then show ?thesis by (simp add: seed_users_def)
qed

lemma seed_campus_loop_present:
  "\<forall>c \<in> set cs. campus_pk c \<in> set (map campus_pk (db_campuses db)) \<Longrightarrow> seed_campus_loop cs db = Inr db"
proof (induction cs)
  case (Cons c cs)
  then have "find (\<lambda>x. campus_pk x = campus_pk c) (db_campuses db) \<noteq> None"
    by (auto simp: find_None_iff)
  with Cons show ?case by (auto simp: campus_get_or_create_def)
qed simp

lemma seed_campus_loop_Inr:
  "seed_campus_loop cs db = Inr db' \<Longrightarrow>
     (\<forall>c \<in> set cs. campus_pk c \<in> set (map campus_pk (db_campuses db')))
     \<and> set (db_campuses db) \<subseteq> set (db_campuses db')"
proof (induction cs arbitrary: db)
  case (Cons c cs)
  obtain x created db1 where r: "campus_get_or_create c db = Inr ((x, created), db1)"
    using Cons.prems by (cases "campus_get_or_create c db") (auto split: prod.splits)
  note g = campus_get_or_create_Inr [OF r]
  have grow1: "set (db_campuses db) \<subseteq> set (db_campuses db1)" and in1: "campus_pk c \<in> set (map campus_pk (db_campuses db1))"
    using g by (auto simp: campus_insert_def split: if_splits) (metis image_eqI)
  obtain db2 where l: "seed_campus_loop cs db2 = Inr db'" and c12: "db_campuses db2 = db_campuses db1"
    using Cons.prems r by (cases created; cases "config_create (seed_configuration (campus_pk x)) db1")
      (auto simp: config_create_def split: if_splits)
  from Cons.IH [OF l] grow1 in1 c12 show ?case by auto
qed simp

lemma campus_get_or_create_found:
  "campus_pk c \<in> set (map campus_pk (db_campuses db)) \<Longrightarrow> \<exists>x. campus_get_or_create c db = Inr ((x, False), db)"
proof -
  assume "campus_pk c \<in> set (map campus_pk (db_campuses db))"
  then have "find (\<lambda>x. campus_pk x = campus_pk c) (db_campuses db) \<noteq> None" by (auto simp: find_None_iff)
  then show ?thesis by (auto simp: campus_get_or_create_def)
qed

text \<open>On a consistent database a campus the loop has just created has no configuration
  yet, so creating one cannot fail.\<close>

lemma config_create_after_insert:
  assumes ok: "seed_db_ok db" and ins: "campus_insert c db = Inr db1"
  shows "\<exists>db2. config_create (seed_configuration (campus_pk c)) db1 = Inr db2"
proof -
  from ins have "campus_pk c \<notin> set (map campus_pk (db_campuses db))" and cf: "db_configs db1 = db_configs db"
    by (auto simp: campus_insert_def split: if_splits)
  with ok have "campus_pk c \<notin> set (map cfg_campus (db_configs db1))" by (auto simp: seed_db_ok_def)
  then show ?thesis by (auto simp: config_create_def seed_configuration_def default_configuration_def image_iff)
qed

lemma seed_campus_loop_rerun:
  "seed_db_ok db \<Longrightarrow> seed_campus_loop cs db = Inl (e, db') \<Longrightarrow>
     seed_campus_loop cs db' = Inl (e, db') \<and> set (db_campuses db) \<subseteq> set (db_campuses db')"
proof (induction cs arbitrary: db)
  case (Cons c cs)
  show ?case
  proof (cases "campus_get_or_create c db")
    case (Inl e0)
    with Cons.prems show ?thesis by simp
  next
    case (Inr r)
    then obtain x created db1 where r: "campus_get_or_create c db = Inr ((x, created), db1)"
      by (metis prod.collapse)
    note g = campus_get_or_create_Inr [OF r]
    obtain db2 where l: "seed_campus_loop cs db2 = Inl (e, db')" and ok2: "seed_db_ok db2"
      and c2: "set (db_campuses db) \<subseteq> set (db_campuses db2)" and in2: "campus_pk c \<in> set (map campus_pk (db_campuses db2))"
    proof (cases created)
      case True
      with g have x: "x = c" and ins: "campus_insert c db = Inr db1" by simp_all
      note i1 = campus_insert_ok [OF Cons.prems(1) ins]
      obtain db2 where cc: "config_create (seed_configuration (campus_pk c)) db1 = Inr db2"
        using config_create_after_insert [OF Cons.prems(1) ins] by blast
      have k: "cfg_campus (seed_configuration (campus_pk c)) \<in> set (map campus_pk (db_campuses db1))"
        using i1 by (simp add: seed_configuration_def default_configuration_def)
      note c1 = config_create_ok [OF conjunct1 [OF i1] k cc]
      from Cons.prems(2) r True x cc have l2: "seed_campus_loop cs db2 = Inl (e, db')" by simp
      show ?thesis by (rule that [OF l2]) (use c1 i1 in auto)
    next
      case False
      with g have db1: "db1 = db" and "x \<in> set (db_campuses db)" "campus_pk x = campus_pk c" by auto
      then have inc: "campus_pk c \<in> set (map campus_pk (db_campuses db))" by (metis image_eqI list.set_map)
      from Cons.prems(2) r False db1 have l2: "seed_campus_loop cs db = Inl (e, db')" by simp
      show ?thesis by (rule that [OF l2 Cons.prems(1) _ inc]) simp
    qed
    from Cons.IH [OF ok2 l] have re: "seed_campus_loop cs db' = Inl (e, db')"
      and sub: "set (db_campuses db2) \<subseteq> set (db_campuses db')" by simp_all
    from in2 sub have "campus_pk c \<in> set (map campus_pk (db_campuses db'))" by auto
    then obtain y where "campus_get_or_create c db' = Inr ((y, False), db')"
      using campus_get_or_create_found by blast
    with re c2 sub show ?thesis by auto
  qed
qed simp

lemma seed_users_rerun:
  assumes "seed_users main db = Inl (e, db')"
  shows "seed_users main db' = Inl (e, db') \<and> db_campuses db' = db_campuses db"
proof -
  have names: "\<forall>i. user_username (admin_defaults main i) = ''admin''"
    "\<forall>i. user_username (organizer_defaults main i) = ''organizer''"
    "\<forall>i. user_username (student_defaults main i) = ''student''"
    by (simp_all add: admin_defaults_def organizer_defaults_def student_defaults_def)
  show ?thesis
  proof (cases "user_get_or_create ''admin'' (admin_defaults main) db")
    case (Inl e1)
    with assms show ?thesis by (simp add: seed_users_def)
  next
    case (Inr p1)
    then obtain r1 db2 where s1: "user_get_or_create ''admin'' (admin_defaults main) db = Inr (r1, db2)"
      by (metis prod.collapse)
    note u1 = user_get_or_create_Inr [OF names(1) s1]
    obtain x1 where a2: "user_get_or_create ''admin'' (admin_defaults main) db2 = Inr ((x1, False), db2)"
      using u1 user_get_or_create_present by blast
    show ?thesis
    proof (cases "user_get_or_create ''organizer'' (organizer_defaults main) db2")
      case (Inl e2)
      with assms s1 a2 show ?thesis using u1 by (simp add: seed_users_def)
    next
      case (Inr p2)
      then obtain r2 db3 where s2: "user_get_or_create ''organizer'' (organizer_defaults main) db2 = Inr (r2, db3)"
        by (metis prod.collapse)
      note u2 = user_get_or_create_Inr [OF names(2) s2]
      have "''admin'' \<in> set (map user_username (db_users db3))" using u1 u2 by auto
      moreover have "''organizer'' \<in> set (map user_username (db_users db3))" using u2 by simp
      ultimately obtain x2 x3 where a3: "user_get_or_create ''admin'' (admin_defaults main) db3 = Inr ((x2, False), db3)"
        "user_get_or_create ''organizer'' (organizer_defaults main) db3 = Inr ((x3, False), db3)"
        using user_get_or_create_present by blast
      have s3: "\<exists>e3. user_get_or_create ''student'' (student_defaults main) db3 = Inl e3 \<and> e = e3 \<and> db' = db3"
        using assms s1 s2 by (auto simp: seed_users_def split: sum.splits)
      with a3 u1 u2 show ?thesis by (auto simp: seed_users_def)
    qed
  qed
qed

text \<open>The definitions a concrete run of the command unfolds to.\<close>

lemmas setup_run_defs = setup_initial_data_def empty_db_def seed_campuses_def seed_campus_def campus_get_or_create_def
  campus_insert_def config_create_def campus_get_by_code_def seed_users_def user_get_or_create_def
  user_insert_def next_user_id_def admin_defaults_def organizer_defaults_def student_defaults_def demo_user_def
  seed_configuration_def default_configuration_def Let_def

lemma setup_initial_data_Inr:
  assumes "setup_initial_data clear db = Inr db'"
  obtains db1 main where "seed_campus_loop seed_campuses (if clear then clear_db db else db) = Inr db1"
    "campus_get_by_code ''SNSU'' (db_campuses db1) = Inr main" "seed_users main db1 = Inr db'"
  using assms by (auto simp: setup_initial_data_def Let_def split: sum.splits)

lemma setup_fresh_eq:
  "setup_initial_data False empty_db = Inr \<lparr>db_campuses = seed_campuses,
     db_configs = map seed_configuration [1, 2, 3, 4],
     db_users = [admin_defaults (hd seed_campuses) 1, organizer_defaults (hd seed_campuses) 2,
                 student_defaults (hd seed_campuses) 3]\<rparr>"
  by (simp add: setup_run_defs)

section \<open>Properties\<close>

text \<open>C15: The command keeps the database's integrity: from a database whose unique columns
  are unique and whose foreign keys resolve, it leaves one with the same properties, whether
  it finishes or stops at an error.\<close>

theorem setup_preserves_integrity:
  assumes "seed_db_ok db"
  shows "seed_db_ok (outcome_db (setup_initial_data clear db))"
proof -
  let ?db = "if clear then clear_db db else db"
  have ok: "seed_db_ok ?db" using assms by (simp add: clear_db_def seed_db_ok_def)
  show ?thesis
  proof (cases "seed_campus_loop seed_campuses ?db")
    case (Inl p)
    from seed_campus_loop_ok [OF ok, of seed_campuses] Inl have "seed_db_ok (snd p)" by simp
    with Inl show ?thesis by (simp add: setup_initial_data_def Let_def)
  next
    case (Inr db1)
    with seed_campus_loop_ok [OF ok, of seed_campuses] have ok1: "seed_db_ok db1" by simp
    show ?thesis
    proof (cases "campus_get_by_code ''SNSU'' (db_campuses db1)")
      case (Inr main)
      from campus_get_by_code_Inr [OF this]
      have "campus_pk main \<in> set (map campus_pk (db_campuses db1))" by simp
      from seed_users_ok [OF ok1 this] \<open>seed_campus_loop seed_campuses ?db = Inr db1\<close> Inr
      show ?thesis by (simp add: setup_initial_data_def Let_def)
    qed (use Inr ok1 in \<open>simp add: setup_initial_data_def Let_def\<close>)
  qed
qed

theorem setup_preserves_integrity_witness:
  "seed_db_ok (outcome_db (setup_initial_data False empty_db))"
  by (rule setup_preserves_integrity) (simp add: seed_db_ok_def empty_db_def)

text \<open>C20: The command is idempotent: run again on the database a successful run left, it
  succeeds and changes nothing (every seed campus and demo user is found by its key).\<close>

theorem setup_idempotent:
  assumes "setup_initial_data clear db = Inr db'"
  shows "setup_initial_data False db' = Inr db'"
proof -
  from assms obtain db1 main where l: "seed_campus_loop seed_campuses (if clear then clear_db db else db) = Inr db1"
    and m: "campus_get_by_code ''SNSU'' (db_campuses db1) = Inr main" and u: "seed_users main db1 = Inr db'"
    by (rule setup_initial_data_Inr)
  from seed_users_Inr [OF u] have same: "db_campuses db' = db_campuses db1"
    and names: "set [''admin'', ''organizer'', ''student''] \<subseteq> set (map user_username (db_users db'))" by simp_all
  from seed_campus_loop_Inr [OF l] same
  have l': "seed_campus_loop seed_campuses db' = Inr db'" by (intro seed_campus_loop_present) simp
  have m': "campus_get_by_code ''SNSU'' (db_campuses db') = Inr main" using m same by simp
  have "setup_initial_data False db' =
      (case seed_campus_loop seed_campuses db' of
         Inl r \<Rightarrow> Inl r
       | Inr db1 \<Rightarrow> (case campus_get_by_code ''SNSU'' (db_campuses db1) of
                      Inl e \<Rightarrow> Inl (e, db1) | Inr main \<Rightarrow> seed_users main db1))"
    by (simp only: setup_initial_data_def Let_def if_False)
  also have "\<dots> = seed_users main db'" by (simp only: l' m' sum.case)
  also have "\<dots> = Inr db'" by (rule seed_users_present [OF names])
  finally show ?thesis .
qed

theorem setup_idempotent_witness:
  "setup_initial_data False (projr (setup_initial_data True empty_db)) = Inr (projr (setup_initial_data True empty_db))"
proof -
  have "setup_initial_data True empty_db = Inr (projr (setup_initial_data True empty_db))"
    using setup_fresh_eq by (simp add: setup_initial_data_def clear_db_def empty_db_def)
  then show ?thesis by (rule setup_idempotent)
qed

text \<open>The command is not atomic: when a pre-existing campus already holds the code of
  a seed campus, creating that campus fails on the unique constraint after the seed campuses
  before it, and their configurations, were already written.\<close>

theorem setup_partial_on_conflict:
  "setup_initial_data False (empty_db\<lparr>db_campuses := [seed_campus 9 ''Legacy'' ''DELCARMEN'' ''legacy.ph'' [] 0 0]\<rparr>)
     = Inl (Integrity_violation ''campus.code'',
            \<lparr>db_campuses = [seed_campus 9 ''Legacy'' ''DELCARMEN'' ''legacy.ph'' [] 0 0] @ take 2 seed_campuses,
             db_configs = map seed_configuration [1, 2], db_users = []\<rparr>)"
  by (simp add: setup_run_defs)

text \<open>\<open>get_or_create\<close> does not run the model's validators: on a fresh database the
  command creates the admin and organizer with student ids (\<open>ADMIN001\<close>, \<open>ORG001\<close>) that
  the \<open>YYYY-XXXXXX\<close> validator rejects, while every seed campus code passes its own.\<close>

theorem setup_seed_users_violate_validator:
  "\<exists>db. setup_initial_data False empty_db = Inr db
     \<and> map user_username (filter (\<lambda>u. \<not> valid_student_id (user_student_id u)) (db_users db)) = [''admin'', ''organizer'']
     \<and> list_all (\<lambda>c. valid_campus_code (campus_code c)) (db_campuses db)"
  using setup_fresh_eq
  by (simp add: seed_campuses_def seed_campus_def admin_defaults_def organizer_defaults_def student_defaults_def
      demo_user_def valid_student_id_def student_id_core_def is_digit_def valid_campus_code_def campus_code_core_def dec_val_def)

text \<open>C21: A failure of the command is reproducible: on a consistent database, running the
  command again on what a failed run left behind fails with the same error and writes
  nothing, since every campus and user the failed run created is found by its key and the
  same insert is refused again.\<close>

theorem setup_failure_reproducible:
  assumes ok: "seed_db_ok db" and r: "setup_initial_data clear db = Inl (e, db')"
  shows "setup_initial_data False db' = Inl (e, db')"
proof -
  let ?db0 = "if clear then clear_db db else db"
  have ok0: "seed_db_ok ?db0" using ok by (simp add: clear_db_def seed_db_ok_def)
  have unf: "setup_initial_data False d =
      (case seed_campus_loop seed_campuses d of
         Inl p \<Rightarrow> Inl p
       | Inr d1 \<Rightarrow> (case campus_get_by_code ''SNSU'' (db_campuses d1) of
                      Inl e \<Rightarrow> Inl (e, d1) | Inr main \<Rightarrow> seed_users main d1))" for d
    by (simp only: setup_initial_data_def Let_def if_False)
  have unf0: "setup_initial_data clear db =
      (case seed_campus_loop seed_campuses ?db0 of
         Inl p \<Rightarrow> Inl p
       | Inr d1 \<Rightarrow> (case campus_get_by_code ''SNSU'' (db_campuses d1) of
                      Inl e \<Rightarrow> Inl (e, d1) | Inr main \<Rightarrow> seed_users main d1))"
    by (simp only: setup_initial_data_def Let_def)
  show ?thesis
  proof (cases "seed_campus_loop seed_campuses ?db0")
    case (Inl p)
    with r unf0 have "seed_campus_loop seed_campuses ?db0 = Inl (e, db')" by simp
    from seed_campus_loop_rerun [OF ok0 this] show ?thesis by (simp add: unf)
  next
    case (Inr db1)
    have pres: "seed_campus_loop seed_campuses d = Inr d" if "db_campuses d = db_campuses db1" for d
      using seed_campus_loop_Inr [OF Inr] that by (intro seed_campus_loop_present) simp
    show ?thesis
    proof (cases "campus_get_by_code ''SNSU'' (db_campuses db1)")
      case (Inl e0)
      with r unf0 Inr have "e = e0" "db' = db1" by simp_all
      with pres [of db1] Inl show ?thesis by (simp add: unf)
    next
      case (Inr main)
      with r unf0 \<open>seed_campus_loop seed_campuses ?db0 = Inr db1\<close>
      have su: "seed_users main db1 = Inl (e, db')" by simp
      from seed_users_rerun [OF su] have re: "seed_users main db' = Inl (e, db')"
        and same: "db_campuses db' = db_campuses db1" by simp_all
      from pres [OF same] Inr same re show ?thesis by (simp add: unf)
    qed
  qed
qed

theorem setup_failure_reproducible_witness:
  "setup_initial_data False
     \<lparr>db_campuses = [seed_campus 9 ''Legacy'' ''DELCARMEN'' ''legacy.ph'' [] 0 0] @ take 2 seed_campuses,
      db_configs = map seed_configuration [1, 2], db_users = []\<rparr>
   = Inl (Integrity_violation ''campus.code'',
          \<lparr>db_campuses = [seed_campus 9 ''Legacy'' ''DELCARMEN'' ''legacy.ph'' [] 0 0] @ take 2 seed_campuses,
           db_configs = map seed_configuration [1, 2], db_users = []\<rparr>)"
proof (rule setup_failure_reproducible)
  show "seed_db_ok (empty_db\<lparr>db_campuses := [seed_campus 9 ''Legacy'' ''DELCARMEN'' ''legacy.ph'' [] 0 0]\<rparr>)"
    by (simp add: seed_db_ok_def empty_db_def seed_campus_def)
  show "setup_initial_data False (empty_db\<lparr>db_campuses := [seed_campus 9 ''Legacy'' ''DELCARMEN'' ''legacy.ph'' [] 0 0]\<rparr>)
     = Inl (Integrity_violation ''campus.code'',
            \<lparr>db_campuses = [seed_campus 9 ''Legacy'' ''DELCARMEN'' ''legacy.ph'' [] 0 0] @ take 2 seed_campuses,
             db_configs = map seed_configuration [1, 2], db_users = []\<rparr>)"
    by (simp add: setup_run_defs)
qed

end
