(* ===== verification/Statistics.thy ===== *)
theory Statistics
  imports Complex_Main Tenancy Attendance
begin

text \<open>
  The read-only figures of a campus and an event: \<open>Campus.get_active_events_count\<close>
  and \<open>get_total_users_count\<close> (\<open>apps/campus/models.py\<close>), \<open>Event.capacity_percentage\<close>
  (\<open>apps/events/models.py\<close>), and the \<open>statistics\<close> and \<open>accessible\<close> actions of
  \<open>CampusViewSet\<close> (\<open>apps/campus/api/views.py\<close>). The object an action works on is
  \<open>get_object\<close> on \<open>get_queryset\<close> (\<open>Tenancy.campus_view_queryset\<close>): a campus outside
  it is DRF's \<open>Http404\<close>. A \<open>values(field).annotate(count=Count('id'))\<close> grouping read
  into a dict is \<open>count_by\<close>, a map holding a key only for the groups that exist.
  \<open>capacity_percentage\<close> divides in Python floats; here the quotient is the exact
  rational, which the float rounds.
\<close>

section \<open>Model\<close>

definition get_active_events_count :: "campus \<Rightarrow> event list \<Rightarrow> nat" where
  "get_active_events_count c es =
     length (filter (\<lambda>e. event_campus e = campus_pk c \<and> event_is_active e \<and> event_status e = Published) es)"

definition get_total_users_count :: "campus \<Rightarrow> user list \<Rightarrow> nat" where
  "get_total_users_count c us = length (filter (\<lambda>u. user_campus u = campus_pk c \<and> user_is_active u) us)"

definition capacity_percentage :: "event \<Rightarrow> attendance list \<Rightarrow> rat option" where
  "capacity_percentage e rows =
     (if \<not> py_truthy_id (event_max_participants e) then None
      else Some (of_nat (attendance_count e rows) / of_nat (the (event_max_participants e)) * 100))"

definition count_by :: "('a \<Rightarrow> 'k) \<Rightarrow> 'a list \<Rightarrow> 'k \<rightharpoonup> nat" where
  "count_by f xs k = (let n = length (filter (\<lambda>x. f x = k) xs) in if n = 0 then None else Some n)"

datatype http_error = Not_found | Multiple_objects_returned

definition get_object :: "campus list \<Rightarrow> campus_id \<Rightarrow> http_error + campus" where
  "get_object qs pk =
     (case filter (\<lambda>c. campus_pk c = pk) qs of
        [] \<Rightarrow> Inl Not_found
      | [c] \<Rightarrow> Inr c
      | _ \<Rightarrow> Inl Multiple_objects_returned)"

record campus_stats =
  stats_campus :: campus
  stats_users_total :: nat
  stats_users_by_role :: "role \<rightharpoonup> nat"
  stats_events_total :: nat
  stats_events_by_type :: "event_kind \<rightharpoonup> nat"
  stats_attendance_total :: nat
  stats_attendance_verified :: nat

definition statistics ::
  "campus list \<Rightarrow> user \<Rightarrow> campus_id \<Rightarrow> user list \<Rightarrow> event list \<Rightarrow> attendance list \<Rightarrow> http_error + campus_stats" where
  "statistics cs u pk us es rows =
     (case get_object (campus_view_queryset cs u) pk of
        Inl err \<Rightarrow> Inl err
      | Inr c \<Rightarrow> Inr \<lparr>stats_campus = c,
          stats_users_total = get_total_users_count c us,
          stats_users_by_role = count_by user_role (filter (\<lambda>x. user_campus x = campus_pk c) us),
          stats_events_total = get_active_events_count c es,
          stats_events_by_type = count_by event_type (filter (\<lambda>e. event_campus e = campus_pk c) es),
          stats_attendance_total = length (filter (\<lambda>a. att_campus a = Some (campus_pk c)) rows),
          stats_attendance_verified =
            length (filter (\<lambda>a. att_campus a = Some (campus_pk c) \<and> att_is_verified a) rows)\<rparr>)"

definition accessible :: "campus list \<Rightarrow> user \<Rightarrow> request_ctx \<Rightarrow> campus list \<times> campus option" where
  "accessible cs u ctx = (campus_view_queryset cs u, req_campus ctx)"

text \<open>The sum of a grouping's counts over a list of keys, absent keys counting 0.\<close>

definition dict_total :: "('k \<rightharpoonup> nat) \<Rightarrow> 'k list \<Rightarrow> nat" where
  "dict_total m ks = sum_list (map (\<lambda>k. case m k of None \<Rightarrow> 0 | Some n \<Rightarrow> n) ks)"

definition all_roles :: "role list" where
  "all_roles = [Student, Organizer, Campus_admin, Super_admin]"

definition all_event_kinds :: "event_kind list" where
  "all_event_kinds = [Academic, Seminar, Workshop, Conference, Social, Sports, Cultural, Other]"

section \<open>Lemmas\<close>

lemma count_by_total:
  assumes "distinct ks" "set (map f xs) \<subseteq> set ks"
  shows "dict_total (count_by f xs) ks = length xs"
proof -
  have cnt: "(case count_by f xs k of None \<Rightarrow> 0 | Some n \<Rightarrow> n) = length (filter (\<lambda>x. f x = k) xs)" for k
    by (simp add: count_by_def Let_def)
  have "sum_list (map (\<lambda>k. length (filter (\<lambda>x. f x = k) xs)) ks) = length xs" using assms(2)
  proof (induction xs)
    case Nil then show ?case by (simp add: sum_list_eq_0_iff)
  next
    case (Cons x xs)
    have "sum_list (map (\<lambda>k. if f x = k then 1 else 0) ks) = (1::nat)"
      using assms(1) Cons.prems by (simp add: sum_list_distinct_conv_sum_set)
    moreover have "(\<lambda>k. length (filter (\<lambda>y. f y = k) (x # xs)))
        = (\<lambda>k. (if f x = k then 1 else 0) + length (filter (\<lambda>y. f y = k) xs))" by auto
    ultimately show ?case using Cons by (simp only: sum_list_addf) simp
  qed
  then show ?thesis by (simp add: dict_total_def cnt)
qed

lemma set_all_roles: "set (map f xs) \<subseteq> set all_roles" "distinct all_roles"
  by (auto simp: all_roles_def intro: role.exhaust)

lemma all_event_kinds_cover: "set (map f xs) \<subseteq> set all_event_kinds" "distinct all_event_kinds"
  by (auto simp: all_event_kinds_def intro: event_kind.exhaust)

lemma get_object_Inr: "get_object qs pk = Inr c \<Longrightarrow> c \<in> set qs \<and> campus_pk c = pk"
proof -
  assume a: "get_object qs pk = Inr c"
  then have "filter (\<lambda>c. campus_pk c = pk) qs = [c]"
    by (auto simp: get_object_def split: list.splits)
  then have "c \<in> set (filter (\<lambda>c. campus_pk c = pk) qs)" by simp
  then show ?thesis by simp
qed

lemma get_object_Not_found: "pk \<notin> campus_pk ` set qs \<Longrightarrow> get_object qs pk = Inl Not_found"
proof -
  assume "pk \<notin> campus_pk ` set qs"
  then have "filter (\<lambda>c. campus_pk c = pk) qs = []" by (auto simp: filter_empty_conv)
  then show ?thesis by (simp add: get_object_def)
qed

lemma set_campus_view_queryset:
  "set (campus_view_queryset cs u) =
     (if user_role u = Super_admin then set cs else {c \<in> set cs. campus_pk c \<in> set (get_accessible_campus_ids cs u)})"
  by (simp add: campus_view_queryset_def)

lemma statistics_Inr:
  assumes "statistics cs u pk us es rows = Inr s"
  obtains c where "get_object (campus_view_queryset cs u) pk = Inr c" "stats_campus s = c"
    "stats_users_total s = get_total_users_count c us"
    "stats_users_by_role s = count_by user_role (filter (\<lambda>x. user_campus x = campus_pk c) us)"
    "stats_events_total s = get_active_events_count c es"
    "stats_events_by_type s = count_by event_type (filter (\<lambda>e. event_campus e = campus_pk c) es)"
  using assms by (auto simp: statistics_def split: sum.splits)

lemma statistics_campus_2:
  "\<exists>s. statistics seed_campuses (sample_user 7 Campus_admin 1 [2, 3]) 2 us es rows = Inr s"
proof -
  have "get_object (campus_view_queryset seed_campuses (sample_user 7 Campus_admin 1 [2, 3])) 2 = Inr (seed_campuses ! 1)"
    by code_simp
  then show ?thesis by (simp add: statistics_def)
qed

section \<open>Properties\<close>

text \<open>C31: The capacity check of \<open>can_user_attend\<close> and the reported utilisation agree: an
  event is at capacity exactly when \<open>capacity_percentage\<close> is defined and at least 100;
  an event without a truthy \<open>max_participants\<close> has no percentage and is never full.\<close>

theorem at_capacity_iff_percentage:
  "at_capacity e rows \<longleftrightarrow> (case capacity_percentage e rows of None \<Rightarrow> False | Some p \<Rightarrow> 100 \<le> p)"
proof (cases "event_max_participants e")
  case None then show ?thesis by (simp add: at_capacity_def capacity_percentage_def)
next
  case (Some m)
  show ?thesis
  proof (cases "m = 0")
    case True with Some show ?thesis by (simp add: at_capacity_def capacity_percentage_def)
  next
    case False
    then have "(100 \<le> of_nat (attendance_count e rows) / of_nat m * (100::rat))
        \<longleftrightarrow> m \<le> attendance_count e rows"
      by (simp add: le_divide_eq)
    with Some False show ?thesis by (simp add: at_capacity_def capacity_percentage_def)
  qed
qed

text \<open>C28: The \<open>statistics\<close> action only reports on a campus of the view's query set: the
  campus it describes is the requested one, a row of the campus table, and, for every
  role but super_admin, one of the campuses \<open>get_accessible_campus_ids\<close> grants.\<close>

theorem statistics_scoped:
  assumes "statistics cs u pk us es rows = Inr s"
  shows "campus_pk (stats_campus s) = pk \<and> stats_campus s \<in> set cs
     \<and> (user_role u \<noteq> Super_admin \<longrightarrow> pk \<in> set (get_accessible_campus_ids cs u))"
proof -
  obtain c where g: "get_object (campus_view_queryset cs u) pk = Inr c" and sc: "stats_campus s = c"
    using assms by (rule statistics_Inr)
  from get_object_Inr [OF g] show ?thesis
    using sc by (auto simp: set_campus_view_queryset split: if_splits)
qed

theorem statistics_scoped_witness:
  "\<exists>s. statistics seed_campuses (sample_user 7 Campus_admin 1 [2, 3]) 2 [] [] [] = Inr s
     \<and> campus_pk (stats_campus s) = 2 \<and> 2 \<in> set (get_accessible_campus_ids seed_campuses (sample_user 7 Campus_admin 1 [2, 3]))"
proof -
  obtain s where s: "statistics seed_campuses (sample_user 7 Campus_admin 1 [2, 3]) 2 [] [] [] = Inr s"
    using statistics_campus_2 by blast
  from statistics_scoped [OF s] s show ?thesis by (simp add: sample_user_def)
qed

text \<open>C32: The \<open>statistics\<close> figures count different populations: the per-role user counts
  add up to all users of the campus and the per-type event counts to all its events, while
  the totals count only active users and active published events, so the breakdowns exceed
  the totals as soon as the campus has an inactive user or an unpublished event.\<close>

theorem statistics_breakdown:
  assumes "statistics cs u pk us es rows = Inr s"
  shows "dict_total (stats_users_by_role s) all_roles = length (filter (\<lambda>x. user_campus x = pk) us)
     \<and> stats_users_total s = length (filter (\<lambda>x. user_campus x = pk \<and> user_is_active x) us)
     \<and> dict_total (stats_events_by_type s) all_event_kinds = length (filter (\<lambda>e. event_campus e = pk) es)
     \<and> stats_events_total s =
         length (filter (\<lambda>e. event_campus e = pk \<and> event_is_active e \<and> event_status e = Published) es)"
proof -
  obtain c where g: "get_object (campus_view_queryset cs u) pk = Inr c" and
    s: "stats_campus s = c" "stats_users_total s = get_total_users_count c us"
    "stats_users_by_role s = count_by user_role (filter (\<lambda>x. user_campus x = campus_pk c) us)"
    "stats_events_total s = get_active_events_count c es"
    "stats_events_by_type s = count_by event_type (filter (\<lambda>e. event_campus e = campus_pk c) es)"
    using assms by (rule statistics_Inr)
  from get_object_Inr [OF g] have pk: "campus_pk c = pk" by simp
  show ?thesis using s pk
    by (simp add: count_by_total [OF set_all_roles(2) set_all_roles(1)]
        count_by_total [OF all_event_kinds_cover(2) all_event_kinds_cover(1)]
        get_total_users_count_def get_active_events_count_def)
qed

theorem statistics_breakdown_witness:
  "\<exists>s. statistics seed_campuses (sample_user 7 Campus_admin 1 [2, 3]) 2
        [sample_user 8 Student 2 [], (sample_user 9 Organizer 2 [])\<lparr>user_is_active := False\<rparr>] [] [] = Inr s
     \<and> stats_users_total s = 1 \<and> dict_total (stats_users_by_role s) all_roles = 2"
proof -
  obtain s where s: "statistics seed_campuses (sample_user 7 Campus_admin 1 [2, 3]) 2
        [sample_user 8 Student 2 [], (sample_user 9 Organizer 2 [])\<lparr>user_is_active := False\<rparr>] [] [] = Inr s"
    using statistics_campus_2 by blast
  from statistics_breakdown [OF s] s show ?thesis by (simp add: sample_user_def)
qed

text \<open>C29: For every campus_admin whose explicit campus list is non-empty and leaves out
  the home campus, on any campus table holding the home campus, a request without an
  override reports the home campus as the current one (the middleware's effective
  campus), the \<open>accessible\<close> action's campus list does not contain it, and
  \<open>statistics\<close> on that current campus is a 404.\<close>

theorem accessible_current_outside_list:
  assumes "user_role u = Campus_admin" "user_accessible_campus_ids u \<noteq> []"
    "user_campus u \<notin> set (user_accessible_campus_ids u)" "find_campus cs (user_campus u) = Some c"
  shows "snd (accessible cs u (process_request cs (Some u) None)) = Some c
    \<and> c \<notin> set (fst (accessible cs u (process_request cs (Some u) None)))
    \<and> statistics cs u (campus_pk c) us es rows = Inl Not_found"
proof -
  have ids: "get_accessible_campus_ids cs u = user_accessible_campus_ids u"
    using assms(1,2) by (simp add: get_accessible_campus_ids_def)
  from find_campus_Some [OF assms(4)] have pk: "campus_pk c = user_campus u" by simp
  have out: "campus_pk c \<notin> campus_pk ` set (campus_view_queryset cs u)"
    using assms(1,3) pk by (auto simp: set_campus_view_queryset ids)
  then have "c \<notin> set (campus_view_queryset cs u)" by blast
  moreover have "statistics cs u (campus_pk c) us es rows = Inl Not_found"
    using out by (simp add: statistics_def get_object_Not_found)
  moreover have "req_campus (process_request cs (Some u) None) = Some c"
    using assms(4) by (simp add: process_request_campus)
  ultimately show ?thesis by (simp add: accessible_def)
qed

text \<open>The case of a campus-admin of SNSU (id 1) with the explicit list {2, 3}.\<close>

theorem accessible_current_outside_list_witness:
  "snd (accessible seed_campuses (sample_user 7 Campus_admin 1 [2, 3])
          (process_request seed_campuses (Some (sample_user 7 Campus_admin 1 [2, 3])) None)) = Some (hd seed_campuses)
   \<and> statistics seed_campuses (sample_user 7 Campus_admin 1 [2, 3]) 1 [] [] [] = Inl Not_found"
proof -
  have "user_role (sample_user 7 Campus_admin 1 [2, 3]) = Campus_admin"
    "user_accessible_campus_ids (sample_user 7 Campus_admin 1 [2, 3]) \<noteq> []"
    "user_campus (sample_user 7 Campus_admin 1 [2, 3]) \<notin> set (user_accessible_campus_ids (sample_user 7 Campus_admin 1 [2, 3]))"
    by (simp_all add: sample_user_def)
  moreover have "find_campus seed_campuses (user_campus (sample_user 7 Campus_admin 1 [2, 3])) = Some (hd seed_campuses)"
    by (simp add: sample_user_def find_campus_def seed_campuses_def seed_campus_def)
  moreover have "campus_pk (hd seed_campuses) = 1" by (simp add: seed_campuses_def seed_campus_def)
  ultimately show ?thesis
    using accessible_current_outside_list [where us = "[]" and es = "[]" and rows = "[]"] by metis
qed

end
