(* ===== verification/Registration.thy ===== *)
theory Registration
  imports Attendance
begin

text \<open>
  Event tags and registrations (\<open>apps/events/models.py\<close>, \<open>EventTag\<close> and
  \<open>EventRegistration\<close>). The repository has no view or service that creates them, so
  their operations are the ORM's \<open>save\<close> under the models' constraints: a tag's
  \<open>name\<close> is unique, a registration's \<open>(event, user)\<close> pair is
  (\<open>unique_together\<close>); \<open>registered_at\<close> is \<open>auto_now_add\<close> and \<open>updated_at\<close>
  \<open>auto_now\<close>. Tags are listed in \<open>Meta.ordering = ['name']\<close>. Nothing in the source
  reads a registration: \<open>Event.can_user_attend\<close> never consults
  \<open>requires_registration\<close>.
\<close>

section \<open>Model\<close>

record event_tag =
  tag_pk :: "record_id option"
  tag_name :: string
  tag_color :: string

definition new_event_tag :: "string \<Rightarrow> event_tag" where
  "new_event_tag n = \<lparr>tag_pk = None, tag_name = n, tag_color = ''#3b82f6''\<rparr>"

datatype registration_status = Pending | Approved | Rejected | Cancelled

record event_registration =
  reg_pk :: "record_id option"
  reg_event :: uuid
  reg_user :: user_id
  reg_campus :: campus_id
  reg_status :: registration_status
  reg_notes :: string
  reg_admin_notes :: string
  reg_registered_at :: timestamp
  reg_updated_at :: timestamp

definition new_registration :: "uuid \<Rightarrow> user_id \<Rightarrow> campus_id \<Rightarrow> event_registration" where
  "new_registration e u c = \<lparr>reg_pk = None, reg_event = e, reg_user = u, reg_campus = c,
     reg_status = Pending, reg_notes = [], reg_admin_notes = [], reg_registered_at = 0, reg_updated_at = 0\<rparr>"

definition reg_key :: "event_registration \<Rightarrow> uuid \<times> user_id" where
  "reg_key r = (reg_event r, reg_user r)"

definition opt_key :: "nat option \<Rightarrow> nat" where
  "opt_key k = (case k of Some n \<Rightarrow> n | None \<Rightarrow> 0)"

text \<open>The write of \<open>save()\<close>: \<open>auto_now\<close> stamps \<open>updated_at\<close>; an object without a key
  is inserted under the next key with \<open>registered_at\<close> stamped too, one with a key
  updates its row; the unique constraint refuses a second row for the pair.\<close>

definition registration_save ::
  "timestamp \<Rightarrow> event_registration \<Rightarrow> event_registration list \<Rightarrow> db_error + event_registration \<times> event_registration list" where
  "registration_save now r rows =
     (let r1 = r\<lparr>reg_updated_at := now\<rparr> in
      if \<exists>x \<in> set rows. reg_key x = reg_key r1 \<and> (reg_pk r1 = None \<or> reg_pk x \<noteq> reg_pk r1)
      then Inl Integrity_error
      else (case reg_pk r1 of
              None \<Rightarrow> (let r2 = r1\<lparr>reg_pk := Some (Suc (fold max (map (\<lambda>x. opt_key (reg_pk x)) rows) 0)),
                                  reg_registered_at := now\<rparr>
                       in Inr (r2, rows @ [r2]))
            | Some _ \<Rightarrow> Inr (r1, table_save reg_pk r1 rows)))"

definition tag_save :: "event_tag \<Rightarrow> event_tag list \<Rightarrow> db_error + event_tag \<times> event_tag list" where
  "tag_save t rows =
     (if \<exists>x \<in> set rows. tag_name x = tag_name t \<and> (tag_pk t = None \<or> tag_pk x \<noteq> tag_pk t)
      then Inl Integrity_error
      else (case tag_pk t of
              None \<Rightarrow> (let t' = t\<lparr>tag_pk := Some (Suc (fold max (map (\<lambda>x. opt_key (tag_pk x)) rows) 0))\<rparr>
                       in Inr (t', rows @ [t']))
            | Some _ \<Rightarrow> Inr (t, table_save tag_pk t rows)))"

definition tag_list :: "event_tag list \<Rightarrow> event_tag list" where
  "tag_list rows = sort_key tag_name rows"

definition registration_status_str :: "registration_status \<Rightarrow> string" where
  "registration_status_str s = (case s of Pending \<Rightarrow> ''pending'' | Approved \<Rightarrow> ''approved''
     | Rejected \<Rightarrow> ''rejected'' | Cancelled \<Rightarrow> ''cancelled'')"

definition registration_str :: "user \<Rightarrow> event \<Rightarrow> event_registration \<Rightarrow> string" where
  "registration_str u e r = get_full_name u @ '' - '' @ event_title e @ '' ('' @ registration_status_str (reg_status r) @ '')''"

definition registration_table_ok :: "event_registration list \<Rightarrow> bool" where
  "registration_table_ok rows \<longleftrightarrow>
     distinct (map reg_key rows) \<and> distinct (map reg_pk rows) \<and> None \<notin> set (map reg_pk rows)"

section \<open>Lemmas\<close>

lemma opt_key_fresh:
  "r \<in> set rows \<Longrightarrow> k r \<noteq> Some (Suc (fold max (map (\<lambda>x. opt_key (k x)) rows) 0))"
proof
  assume "r \<in> set rows" "k r = Some (Suc (fold max (map (\<lambda>x. opt_key (k x)) rows) 0))"
  then have "Suc (fold max (map (\<lambda>x. opt_key (k x)) rows) 0) \<in> set (map (\<lambda>x. opt_key (k x)) rows)"
    by (force simp: opt_key_def)
  with fold_max_Suc_fresh show False by blast
qed

lemma registration_save_ok:
  assumes ok: "registration_table_ok rows" and s: "registration_save now r rows = Inr (r', rows')"
  shows "registration_table_ok rows' \<and> r' \<in> set rows' \<and> reg_key r' = reg_key r
    \<and> reg_updated_at r' = now \<and> reg_status r' = reg_status r"
proof (cases "reg_pk r")
  case None
  let ?k = "Suc (fold max (map (\<lambda>x. opt_key (reg_pk x)) rows) 0)"
  from s None have guard: "\<forall>x \<in> set rows. reg_key x \<noteq> reg_key r"
    and r': "r' = r\<lparr>reg_updated_at := now, reg_pk := Some ?k, reg_registered_at := now\<rparr>"
    and rows': "rows' = rows @ [r']"
    by (auto simp: registration_save_def reg_key_def Let_def split: if_splits)
  have fresh: "\<forall>x \<in> set rows. reg_pk x \<noteq> reg_pk r'"
    using opt_key_fresh [of _ rows reg_pk] r' by auto
  have "reg_key r' = reg_key r" using r' by (simp add: reg_key_def)
  with ok guard fresh rows' r' show ?thesis
    by (auto simp: registration_table_ok_def image_iff)
next
  case (Some k)
  let ?r1 = "r\<lparr>reg_updated_at := now\<rparr>"
  from s Some have guard: "\<forall>x \<in> set rows. reg_key x = reg_key ?r1 \<longrightarrow> reg_pk x = reg_pk ?r1"
    and r': "r' = ?r1" and rows': "rows' = table_save reg_pk ?r1 rows"
    by (auto simp: registration_save_def Let_def split: if_splits)
  from ok have d1: "distinct (map reg_pk rows)" and d2: "distinct (map reg_key rows)"
    by (simp_all add: registration_table_ok_def)
  have "distinct (map reg_key rows')"
    using table_save_distinct_secondary [OF d1 d2] guard rows' by blast
  moreover have "distinct (map reg_pk rows')"
    using table_save_distinct [OF d1] rows' by blast
  moreover have "None \<notin> set (map reg_pk rows')"
    using ok Some rows' by (auto simp: registration_table_ok_def table_save_def)
  moreover have "r' \<in> set rows'"
    using rows' r' by (auto simp: table_save_def)
  ultimately show ?thesis
    using r' by (simp add: registration_table_ok_def reg_key_def)
qed

lemma registration_save_duplicate:
  "x \<in> set rows \<Longrightarrow> reg_key x = reg_key r \<Longrightarrow> reg_pk r = None \<Longrightarrow> registration_save now r rows = Inl Integrity_error"
  by (auto simp: registration_save_def reg_key_def Let_def)

lemma tag_save_ok:
  assumes d1: "distinct (map tag_pk rows)" and d2: "distinct (map tag_name rows)"
    and s: "tag_save t rows = Inr (t', rows')"
  shows "distinct (map tag_name rows') \<and> t' \<in> set rows' \<and> tag_name t' = tag_name t"
proof (cases "tag_pk t")
  case None
  with s have guard: "\<forall>x \<in> set rows. tag_name x \<noteq> tag_name t"
    and t': "t' = t\<lparr>tag_pk := Some (Suc (fold max (map (\<lambda>x. opt_key (tag_pk x)) rows) 0))\<rparr>"
    and rows': "rows' = rows @ [t']"
    by (auto simp: tag_save_def Let_def split: if_splits)
  with d2 show ?thesis by auto
next
  case (Some k)
  with s have guard: "\<forall>x \<in> set rows. tag_name x = tag_name t \<longrightarrow> tag_pk x = tag_pk t"
    and t': "t' = t" and rows': "rows' = table_save tag_pk t rows"
    by (auto simp: tag_save_def split: if_splits)
  have "distinct (map tag_name rows')"
    using table_save_distinct_secondary [OF d1 d2] guard rows' by blast
  with rows' t' show ?thesis by (auto simp: table_save_def)
qed

lemma tag_list_sorted:
  "sorted (map tag_name (tag_list rows)) \<and> set (tag_list rows) = set rows \<and> length (tag_list rows) = length rows"
  by (simp add: tag_list_def)


end
