(* ===== verification/Core.thy ===== *)
theory Core
  imports Prelude
begin

text \<open>
  The legacy models of \<open>apps/core/models.py\<close>: an abstract \<open>BaseModel\<close> (UUID key,
  timestamps, \<open>created_by\<close>/\<open>updated_by\<close> references to Django's own \<open>auth.User\<close>,
  \<open>is_active\<close>), and its \<open>Campus\<close> and \<open>Department\<close>. No other module uses them; their
  behaviour is the ORM's under their declarations: a unique campus \<open>code\<close>, a unique
  \<open>(campus, code)\<close> pair per department, a campus deletion cascading to its
  departments, and an \<open>auth.User\<close> deletion nulling the references to it
  (\<open>on_delete=SET_NULL\<close>). Decimal coordinates are integers in units of
  \<open>10\<^sup>-\<^sup>8\<close> degree (\<open>decimal_places=8\<close>).
\<close>

section \<open>Model\<close>

record base_fields =
  base_id :: uuid
  base_created_at :: timestamp
  base_updated_at :: timestamp
  base_created_by :: "nat option"
  base_updated_by :: "nat option"
  base_is_active :: bool

record core_campus = base_fields +
  core_campus_name :: string
  core_campus_code :: string
  core_campus_address :: string
  core_campus_latitude :: "int option"
  core_campus_longitude :: "int option"
  core_campus_timezone :: string

record department = base_fields +
  dept_campus :: uuid
  dept_name :: string
  dept_code :: string
  dept_description :: string

record core_db =
  core_campuses :: "core_campus list"
  core_departments :: "department list"

datatype core_error = Core_integrity_error | Core_does_not_exist

definition core_campus_str :: "core_campus \<Rightarrow> string" where
  "core_campus_str c = core_campus_name c @ '' ('' @ core_campus_code c @ '')''"

text \<open>\<open>f"{self.campus.code} - {self.name}"\<close>: the campus is fetched through the foreign
  key; a dangling key raises \<open>DoesNotExist\<close>.\<close>

definition department_str :: "core_db \<Rightarrow> department \<Rightarrow> core_error + string" where
  "department_str db d =
     (case find (\<lambda>c. base_id c = dept_campus d) (core_campuses db) of
        None \<Rightarrow> Inl Core_does_not_exist
      | Some c \<Rightarrow> Inr (core_campus_code c @ '' - '' @ dept_name d))"

definition core_campus_create :: "core_campus \<Rightarrow> core_db \<Rightarrow> core_error + core_db" where
  "core_campus_create c db =
     (if \<exists>x \<in> set (core_campuses db). base_id x = base_id c \<or> core_campus_code x = core_campus_code c
      then Inl Core_integrity_error
      else Inr (db\<lparr>core_campuses := core_campuses db @ [c]\<rparr>))"

definition department_create :: "department \<Rightarrow> core_db \<Rightarrow> core_error + core_db" where
  "department_create d db =
     (if base_id d \<in> base_id ` set (core_departments db)
         \<or> (\<exists>x \<in> set (core_departments db). dept_campus x = dept_campus d \<and> dept_code x = dept_code d)
         \<or> dept_campus d \<notin> base_id ` set (core_campuses db)
      then Inl Core_integrity_error
      else Inr (db\<lparr>core_departments := core_departments db @ [d]\<rparr>))"

definition core_campus_delete :: "uuid \<Rightarrow> core_db \<Rightarrow> core_db" where
  "core_campus_delete k db =
     \<lparr>core_campuses = filter (\<lambda>c. base_id c \<noteq> k) (core_campuses db),
      core_departments = filter (\<lambda>d. dept_campus d \<noteq> k) (core_departments db)\<rparr>"

definition null_user :: "nat \<Rightarrow> 'a base_fields_scheme \<Rightarrow> 'a base_fields_scheme" where
  "null_user u r = r\<lparr>base_created_by := (if base_created_by r = Some u then None else base_created_by r),
                     base_updated_by := (if base_updated_by r = Some u then None else base_updated_by r)\<rparr>"

definition auth_user_delete :: "nat \<Rightarrow> core_db \<Rightarrow> core_db" where
  "auth_user_delete u db =
     \<lparr>core_campuses = map (null_user u) (core_campuses db),
      core_departments = map (null_user u) (core_departments db)\<rparr>"

definition core_db_ok :: "core_db \<Rightarrow> bool" where
  "core_db_ok db \<longleftrightarrow>
     distinct (map base_id (core_campuses db)) \<and> distinct (map core_campus_code (core_campuses db))
     \<and> distinct (map base_id (core_departments db))
     \<and> distinct (map (\<lambda>d. (dept_campus d, dept_code d)) (core_departments db))
     \<and> set (map dept_campus (core_departments db)) \<subseteq> set (map base_id (core_campuses db))"

section \<open>Lemmas\<close>

lemma core_campus_create_ok:
  assumes ok: "core_db_ok db" and s: "core_campus_create c db = Inr db'"
  shows "core_db_ok db'"
proof -
  from s have "base_id c \<notin> base_id ` set (core_campuses db)"
    "core_campus_code c \<notin> core_campus_code ` set (core_campuses db)"
    and db': "db' = db\<lparr>core_campuses := core_campuses db @ [c]\<rparr>"
    by (auto simp: core_campus_create_def split: if_splits)
  with ok show ?thesis by (auto simp: core_db_ok_def)
qed

lemma department_create_ok:
  assumes ok: "core_db_ok db" and s: "department_create d db = Inr db'"
  shows "core_db_ok db'"
proof -
  from s have "base_id d \<notin> base_id ` set (core_departments db)"
    "(dept_campus d, dept_code d) \<notin> (\<lambda>x. (dept_campus x, dept_code x)) ` set (core_departments db)"
    "dept_campus d \<in> base_id ` set (core_campuses db)"
    and db': "db' = db\<lparr>core_departments := core_departments db @ [d]\<rparr>"
    by (auto simp: department_create_def split: if_splits)
  with ok show ?thesis by (simp add: core_db_ok_def)
qed

lemma core_campus_delete_ok: "core_db_ok db \<Longrightarrow> core_db_ok (core_campus_delete k db)"
  by (auto simp: core_campus_delete_def core_db_ok_def distinct_map_filter)

lemma null_user_simps [simp]:
  "base_id (null_user u r) = base_id r"
  "core_campus_code (null_user u c) = core_campus_code c"
  "dept_campus (null_user u d) = dept_campus d" "dept_code (null_user u d) = dept_code d"
  by (simp_all add: null_user_def)

lemma auth_user_delete_ok: "core_db_ok db \<Longrightarrow> core_db_ok (auth_user_delete u db)"
  by (simp add: auth_user_delete_def core_db_ok_def comp_def)

lemma auth_user_delete_no_reference:
  "r \<in> set (core_campuses (auth_user_delete u db)) \<Longrightarrow> base_created_by r \<noteq> Some u \<and> base_updated_by r \<noteq> Some u"
  by (auto simp: auth_user_delete_def null_user_def split: if_splits)

lemma department_str_total:
  assumes "core_db_ok db" "d \<in> set (core_departments db)"
  shows "\<exists>s. department_str db d = Inr s"
proof -
  from assms obtain c where "c \<in> set (core_campuses db)" "base_id c = dept_campus d"
    by (auto simp: core_db_ok_def)
  then have "find (\<lambda>c. base_id c = dept_campus d) (core_campuses db) \<noteq> None" by (auto simp: find_None_iff)
  then show ?thesis by (auto simp: department_str_def)
qed

end
