(* ===== verification/Health.thy ===== *)
theory Health
  imports Prelude
begin

text \<open>
  The unauthenticated endpoints of \<open>apps/common/health.py\<close>. \<open>health_check\<close> runs
  \<open>SELECT 1\<close> on the database connection and answers with a JSON body; the outcome of
  the probe is the parameter \<open>probe\<close> (\<open>None\<close> when the query ran, \<open>Some msg\<close> with
  \<open>str(e)\<close> when it raised), the clock's \<open>isoformat()\<close> the parameter \<open>now\<close>, and
  \<open>settings.DEBUG\<close> the parameter \<open>debug\<close>. \<open>api_info\<close> answers a constant body. A
  response is its HTTP status and its body.
\<close>

section \<open>Model\<close>

record health_data =
  health_status :: string
  health_timestamp :: string
  health_version :: string
  health_database :: string
  health_debug :: bool
  health_message :: string

definition health_check :: "string option \<Rightarrow> string \<Rightarrow> bool \<Rightarrow> nat \<times> health_data" where
  "health_check probe now debug =
     (let db_status = (case probe of None \<Rightarrow> ''healthy'' | Some e \<Rightarrow> ''error: '' @ e) in
      (200, \<lparr>health_status = ''healthy'', health_timestamp = now, health_version = ''1.0.0'',
             health_database = db_status, health_debug = debug, health_message = ''EAS API is running''\<rparr>))"

record info_data =
  info_name :: string
  info_version :: string
  info_description :: string
  info_endpoints :: "(string \<times> string) list"
  info_documentation :: string
  info_support :: string

definition api_info :: "nat \<times> info_data" where
  "api_info = (200, \<lparr>info_name = ''EAS Multi-Campus Event Attendance System API'', info_version = ''1.0.0'',
     info_description = ''Django REST API for multi-campus event attendance management'',
     info_endpoints = [(''auth'', ''/api/v1/auth/''), (''campuses'', ''/api/v1/campuses/''),
                       (''health'', ''/api/v1/health/''), (''info'', ''/api/v1/info/'')],
     info_documentation = ''https://github.com/lowmax205/EAS'',
     info_support = ''Multi-campus architecture with role-based access control''\<rparr>)"

section \<open>Lemmas\<close>

text \<open>The health check reports a healthy service with HTTP 200 whatever the database
  probe says: a failed probe shows only in the \<open>database\<close> field.\<close>

lemma health_check_reports_healthy:
  "fst (health_check probe now debug) = 200 \<and> health_status (snd (health_check probe now debug)) = ''healthy''
   \<and> health_database (snd (health_check probe now debug)) = (case probe of None \<Rightarrow> ''healthy'' | Some e \<Rightarrow> ''error: '' @ e)"
  by (simp add: health_check_def Let_def)

lemma health_check_probe_visible:
  "health_database (snd (health_check probe now debug)) = ''healthy'' \<longleftrightarrow> probe = None"
  by (cases probe) (simp_all add: health_check_def)

end
