(* ===== verification/Serializers.thy ===== *)
theory Serializers
  imports Statistics
begin

text \<open>
  The DRF serializers of \<open>apps/campus/api/serializers.py\<close> as projections of the
  model's records. \<open>CampusConfigurationSerializer\<close> and \<open>CampusListSerializer\<close> copy
  their field lists; \<open>CampusSerializer\<close> nests the campus's configuration (the reverse
  one-to-one \<open>campus.configuration\<close>: a campus without one raises
  \<open>RelatedObjectDoesNotExist\<close>, which DRF turns into an omitted read-only field, the
  \<open>None\<close> here) and calls \<open>get_active_events_count\<close> and \<open>get_total_users_count\<close>.
  The fields the campus record does not keep (\<open>phone\<close>, \<open>email\<close>, \<open>locale\<close>,
  \<open>branding_config\<close>, the timestamps) are left out.
\<close>

section \<open>Model\<close>

record configuration_data =
  cd_multi_campus_events_enabled :: bool
  cd_cross_campus_attendance_enabled :: bool
  cd_qr_code_expiry_hours :: nat
  cd_attendance_window_minutes :: nat
  cd_email_notifications_enabled :: bool
  cd_sms_notifications_enabled :: bool
  cd_gps_validation_enabled :: bool
  cd_gps_radius_meters :: nat

definition serialize_configuration :: "campus_configuration \<Rightarrow> configuration_data" where
  "serialize_configuration k = \<lparr>cd_multi_campus_events_enabled = multi_campus_events_enabled k,
     cd_cross_campus_attendance_enabled = cross_campus_attendance_enabled k,
     cd_qr_code_expiry_hours = qr_code_expiry_hours k, cd_attendance_window_minutes = attendance_window_minutes k,
     cd_email_notifications_enabled = email_notifications_enabled k,
     cd_sms_notifications_enabled = sms_notifications_enabled k,
     cd_gps_validation_enabled = gps_validation_enabled k, cd_gps_radius_meters = gps_radius_meters k\<rparr>"

record campus_list_data =
  cl_id :: campus_id
  cl_name :: string
  cl_code :: string
  cl_domain :: string
  cl_is_active :: bool

definition serialize_campus_list :: "campus \<Rightarrow> campus_list_data" where
  "serialize_campus_list c = \<lparr>cl_id = campus_pk c, cl_name = campus_name c, cl_code = campus_code c,
     cl_domain = campus_domain c, cl_is_active = campus_is_active c\<rparr>"

record campus_data =
  cs_id :: campus_id
  cs_name :: string
  cs_code :: string
  cs_domain :: string
  cs_address :: string
  cs_latitude :: "int option"
  cs_longitude :: "int option"
  cs_timezone :: string
  cs_is_active :: bool
  cs_configuration :: "configuration_data option"
  cs_active_events_count :: nat
  cs_total_users_count :: nat

definition serialize_campus ::
  "campus_configuration list \<Rightarrow> event list \<Rightarrow> user list \<Rightarrow> campus \<Rightarrow> campus_data" where
  "serialize_campus cfgs es us c = \<lparr>cs_id = campus_pk c, cs_name = campus_name c, cs_code = campus_code c,
     cs_domain = campus_domain c, cs_address = campus_address c, cs_latitude = campus_latitude c,
     cs_longitude = campus_longitude c, cs_timezone = campus_timezone c, cs_is_active = campus_is_active c,
     cs_configuration = map_option serialize_configuration (find (\<lambda>k. cfg_campus k = campus_pk c) cfgs),
     cs_active_events_count = get_active_events_count c es, cs_total_users_count = get_total_users_count c us\<rparr>"

text \<open>\<open>CampusViewSet.get_serializer_class\<close> and the two read actions \<open>ModelViewSet\<close>
  provides: \<open>list\<close> serialises \<open>get_queryset()\<close> with the class chosen for \<open>list\<close>,
  \<open>retrieve\<close> the object \<open>get_object\<close> finds there with the class chosen for
  \<open>retrieve\<close>.\<close>

datatype serializer_class = Campus_list_serializer | Campus_serializer

definition get_serializer_class :: "string \<Rightarrow> serializer_class" where
  "get_serializer_class action = (if action = ''list'' then Campus_list_serializer else Campus_serializer)"

definition serialize_with ::
  "serializer_class \<Rightarrow> campus_configuration list \<Rightarrow> event list \<Rightarrow> user list \<Rightarrow> campus \<Rightarrow> campus_list_data + campus_data" where
  "serialize_with k cfgs es us c =
     (case k of Campus_list_serializer \<Rightarrow> Inl (serialize_campus_list c) | Campus_serializer \<Rightarrow> Inr (serialize_campus cfgs es us c))"

definition campus_list_action ::
  "campus list \<Rightarrow> user \<Rightarrow> campus_configuration list \<Rightarrow> event list \<Rightarrow> user list \<Rightarrow> (campus_list_data + campus_data) list" where
  "campus_list_action cs u cfgs es us = map (serialize_with (get_serializer_class ''list'') cfgs es us) (campus_view_queryset cs u)"

definition campus_retrieve_action ::
  "campus list \<Rightarrow> user \<Rightarrow> campus_id \<Rightarrow> campus_configuration list \<Rightarrow> event list \<Rightarrow> user list
     \<Rightarrow> http_error + (campus_list_data + campus_data)" where
  "campus_retrieve_action cs u pk cfgs es us =
     (case get_object (campus_view_queryset cs u) pk of
        Inl e \<Rightarrow> Inl e
      | Inr c \<Rightarrow> Inr (serialize_with (get_serializer_class ''retrieve'') cfgs es us c))"

section \<open>Lemmas\<close>

lemma serialize_campus_configuration:
  "cs_configuration (serialize_campus cfgs es us c) = None \<longleftrightarrow> campus_pk c \<notin> cfg_campus ` set cfgs"
  by (auto simp: serialize_campus_def find_None_iff image_iff)

lemma serialize_campus_counts_statistics:
  assumes "statistics cs u pk us es rows = Inr s"
  shows "cs_total_users_count (serialize_campus cfgs es us (stats_campus s)) = stats_users_total s
     \<and> cs_active_events_count (serialize_campus cfgs es us (stats_campus s)) = stats_events_total s"
proof -
  obtain c where "stats_campus s = c" "stats_users_total s = get_total_users_count c us"
    "stats_events_total s = get_active_events_count c es"
    using assms by (rule statistics_Inr)
  then show ?thesis by (simp add: serialize_campus_def)
qed

lemma campus_list_action_scoped:
  "x \<in> set (campus_list_action cs u cfgs es us) \<Longrightarrow> user_role u \<noteq> Super_admin \<Longrightarrow>
     \<exists>c \<in> set cs. x = Inl (serialize_campus_list c) \<and> campus_pk c \<in> set (get_accessible_campus_ids cs u)"
  by (auto simp: campus_list_action_def get_serializer_class_def serialize_with_def set_campus_view_queryset)

lemma campus_retrieve_action_Inr:
  "campus_retrieve_action cs u pk cfgs es us = Inr x \<Longrightarrow>
     \<exists>c. get_object (campus_view_queryset cs u) pk = Inr c \<and> x = Inr (serialize_campus cfgs es us c)"
  by (auto simp: campus_retrieve_action_def get_serializer_class_def serialize_with_def split: sum.splits)

end
