(* ===== verification/Routing.thy ===== *)
theory Routing
  imports Main Health
begin

text \<open>
  The URL configuration (\<open>App/urls.py\<close>) and the development settings
  (\<open>app/settings/development.py\<close>). \<open>urlpatterns\<close> is an ordered list; Django's
  resolver strips the leading slash and tries the patterns in order: a \<open>path()\<close> to a
  view matches its route exactly, a \<open>path()\<close> with \<open>include()\<close> matches a prefix and
  hands the rest of the path to the included configuration, and the pattern
  \<open>static()\<close> adds matches its prefix and captures the rest as the file path. The
  included configurations (the admin site, DRF's login views, \<open>apps.campus.api.urls\<close>)
  are outside the model: resolving into one yields the include and the remaining path.

  \<open>static(prefix)\<close> raises \<open>ImproperlyConfigured\<close> for an empty prefix, and adds no
  pattern when \<open>DEBUG\<close> is off or the prefix is a URL with a host (\<open>urlsplit\<close> finds a
  network location). The settings module imports \<open>base\<close>, which is not in the
  repository: its values are the parameter \<open>base\<close> of \<open>development_settings\<close>, and an
  unset URL setting is the empty string. The application configurations of
  \<open>apps/*/apps.py\<close> close the theory.
\<close>

section \<open>Settings\<close>

record settings =
  set_debug :: bool
  set_db_engine :: string
  set_db_name :: string
  set_cors_allow_all_origins :: bool
  set_installed_apps :: "string list"
  set_middleware :: "string list"
  set_internal_ips :: "string list"
  set_email_backend :: string
  set_staticfiles_storage :: string
  set_media_url :: string
  set_static_url :: string

definition development_settings :: "settings \<Rightarrow> settings" where
  "development_settings base =
     (let s = base\<lparr>set_debug := True, set_db_engine := ''django.db.backends.sqlite3'', set_db_name := ''db.sqlite3'',
                   set_cors_allow_all_origins := True\<rparr>;
          s = (if set_debug s then
                 s\<lparr>set_installed_apps := set_installed_apps s @ [''debug_toolbar''],
                   set_middleware := ''debug_toolbar.middleware.DebugToolbarMiddleware'' # set_middleware s,
                   set_internal_ips := [''127.0.0.1'', ''localhost'']\<rparr>
               else s)
      in s\<lparr>set_email_backend := ''django.core.mail.backends.console.EmailBackend'',
           set_staticfiles_storage := ''django.contrib.staticfiles.storage.StaticFilesStorage''\<rparr>)"

section \<open>URL patterns\<close>

datatype url_target =
    Admin_site | Drf_auth | Health_check_view | Api_info_view | Campus_api
  | Static_serve string  \<comment> \<open>\<open>django.views.static.serve\<close> with its \<open>document_root\<close>\<close>

datatype url_pattern =
    Endpoint string url_target   \<comment> \<open>\<open>path(route, view)\<close>\<close>
  | Include string url_target    \<comment> \<open>\<open>path(route, include(...))\<close>\<close>
  | Prefix_re string url_target  \<comment> \<open>\<open>re_path(r'^prefix(?P<path>.*)$', view)\<close>\<close>

datatype config_error = Improperly_configured string

definition scheme_char :: "char \<Rightarrow> bool" where
  "scheme_char c \<longleftrightarrow> (CHR ''a'' \<le> c \<and> c \<le> CHR ''z'') \<or> (CHR ''A'' \<le> c \<and> c \<le> CHR ''Z'')
     \<or> (CHR ''0'' \<le> c \<and> c \<le> CHR ''9'') \<or> c \<in> set ''+-.''"

text \<open>\<open>urlsplit(prefix).netloc\<close> is non-empty: the prefix starts with \<open>//\<close>, or with a
  scheme (a letter, then letters, digits, \<open>+\<close>, \<open>-\<close>, \<open>.\<close>) followed by \<open>://\<close>.\<close>

definition has_netloc :: "string \<Rightarrow> bool" where
  "has_netloc p \<longleftrightarrow>
     take 2 p = ''//''
     \<or> (let s = takeWhile (\<lambda>c. c \<noteq> CHR '':'') p; r = dropWhile (\<lambda>c. c \<noteq> CHR '':'') p in
        s \<noteq> [] \<and> (CHR ''a'' \<le> hd s \<and> hd s \<le> CHR ''z'' \<or> CHR ''A'' \<le> hd s \<and> hd s \<le> CHR ''Z'')
        \<and> list_all scheme_char s \<and> take 3 r = '':://'')"

definition static :: "bool \<Rightarrow> string \<Rightarrow> string \<Rightarrow> config_error + url_pattern list" where
  "static debug prefix root =
     (if prefix = [] then Inl (Improperly_configured ''Empty static prefix not permitted'')
      else if \<not> debug \<or> has_netloc prefix then Inr []
      else Inr [Prefix_re (dropWhile (\<lambda>c. c = CHR ''/'') prefix) (Static_serve root)])"

definition base_urlpatterns :: "url_pattern list" where
  "base_urlpatterns =
     [Include ''admin/'' Admin_site, Include ''api/v1/auth/'' Drf_auth,
      Endpoint ''api/v1/health/'' Health_check_view, Endpoint ''api/v1/info/'' Api_info_view,
      Include ''api/v1/'' Campus_api]"

definition urlpatterns :: "settings \<Rightarrow> string \<Rightarrow> string \<Rightarrow> config_error + url_pattern list" where
  "urlpatterns s media_root static_root =
     (if set_debug s then
        (case static (set_debug s) (set_media_url s) media_root of
           Inl e \<Rightarrow> Inl e
         | Inr ms \<Rightarrow> (case static (set_debug s) (set_static_url s) static_root of
                        Inl e \<Rightarrow> Inl e
                      | Inr ss \<Rightarrow> Inr (base_urlpatterns @ ms @ ss)))
      else Inr base_urlpatterns)"

fun match_pattern :: "url_pattern \<Rightarrow> string \<Rightarrow> (url_target \<times> string) option" where
  "match_pattern (Endpoint r t) p = (if p = r then Some (t, []) else None)"
| "match_pattern (Include r t) p = (if take (length r) p = r then Some (t, drop (length r) p) else None)"
| "match_pattern (Prefix_re r t) p = (if take (length r) p = r then Some (t, drop (length r) p) else None)"

text \<open>The root resolver: the path without its leading slash, tried against each pattern
  in order; no match is \<open>Resolver404\<close>, the \<open>None\<close> here.\<close>

fun resolve_patterns :: "url_pattern list \<Rightarrow> string \<Rightarrow> (url_target \<times> string) option" where
  "resolve_patterns [] p = None"
| "resolve_patterns (u # us) p = (case match_pattern u p of Some m \<Rightarrow> Some m | None \<Rightarrow> resolve_patterns us p)"

definition resolve :: "url_pattern list \<Rightarrow> string \<Rightarrow> (url_target \<times> string) option" where
  "resolve us path = (case path of CHR ''/'' # p \<Rightarrow> resolve_patterns us p | _ \<Rightarrow> None)"

section \<open>Application configurations\<close>

text \<open>The \<open>AppConfig\<close> of each application (\<open>apps/*/apps.py\<close>). \<open>ready()\<close> imports the
  application's \<open>signals\<close> module and ignores an \<open>ImportError\<close>; which modules can be
  imported is the parameter \<open>available\<close> (none of them is in the repository). The
  registry calls \<open>ready()\<close> of each application in order.\<close>

record app_config =
  app_name :: string
  app_verbose_name :: string
  app_default_auto_field :: string
  app_signals :: "string option"

definition accounts_config :: app_config where
  "accounts_config = \<lparr>app_name = ''apps.accounts'', app_verbose_name = ''User Management'',
     app_default_auto_field = ''django.db.models.BigAutoField'', app_signals = Some ''apps.accounts.signals''\<rparr>"

definition attendance_config :: app_config where
  "attendance_config = \<lparr>app_name = ''apps.attendance'', app_verbose_name = ''Attendance Tracking'',
     app_default_auto_field = ''django.db.models.BigAutoField'', app_signals = Some ''apps.attendance.signals''\<rparr>"

definition campus_config :: app_config where
  "campus_config = \<lparr>app_name = ''apps.campus'', app_verbose_name = ''Campus Management'',
     app_default_auto_field = ''django.db.models.BigAutoField'', app_signals = Some ''apps.campus.signals''\<rparr>"

definition events_config :: app_config where
  "events_config = \<lparr>app_name = ''apps.events'', app_verbose_name = ''Event Management'',
     app_default_auto_field = ''django.db.models.BigAutoField'', app_signals = Some ''apps.events.signals''\<rparr>"

definition shared_config :: app_config where
  "shared_config = \<lparr>app_name = ''apps.shared'', app_verbose_name = ''Shared Utilities'',
     app_default_auto_field = ''django.db.models.BigAutoField'', app_signals = None\<rparr>"

definition app_ready :: "string set \<Rightarrow> app_config \<Rightarrow> string list" where
  "app_ready available a = (case app_signals a of Some m \<Rightarrow> if m \<in> available then [m] else [] | None \<Rightarrow> [])"

definition apps_ready :: "string set \<Rightarrow> app_config list \<Rightarrow> string list" where
  "apps_ready available cfgs = concat (map (app_ready available) cfgs)"

text \<open>Base settings for the examples, as a project's \<open>base.py\<close> typically sets them.\<close>

definition sample_base_settings :: settings where
  "sample_base_settings = \<lparr>set_debug = False, set_db_engine = ''django.db.backends.postgresql'', set_db_name = ''eas'',
     set_cors_allow_all_origins = False, set_installed_apps = [''apps.campus'', ''apps.accounts''],
     set_middleware = [''django.contrib.sessions.middleware.SessionMiddleware'', ''apps.shared.middleware.CampusContextMiddleware''],
     set_internal_ips = [], set_email_backend = ''django.core.mail.backends.smtp.EmailBackend'',
     set_staticfiles_storage = [], set_media_url = ''/media/'', set_static_url = ''/static/''\<rparr>"

section \<open>Lemmas\<close>

lemma resolve_patterns_append:
  "resolve_patterns (us @ vs) p = (case resolve_patterns us p of Some m \<Rightarrow> Some m | None \<Rightarrow> resolve_patterns vs p)"
  by (induction us) (simp_all split: option.split)

lemma resolve_patterns_first:
  "resolve_patterns us p = Some (t, q) \<Longrightarrow>
     \<exists>i < length us. match_pattern (us ! i) p = Some (t, q) \<and> (\<forall>j < i. match_pattern (us ! j) p = None)"
proof (induction us)
  case Nil then show ?case by simp
next
  case (Cons u us)
  show ?case
  proof (cases "match_pattern u p")
    case None
    with Cons obtain i where "i < length us" "match_pattern (us ! i) p = Some (t, q)"
      "\<forall>j < i. match_pattern (us ! j) p = None" by auto
    with None show ?thesis by (intro exI [of _ "Suc i"]) (auto simp: less_Suc_eq_0_disj)
  next
    case (Some m)
    with Cons.prems show ?thesis by (intro exI [of _ 0]) simp
  qed
qed

lemma static_Inr: "static debug prefix root = Inr ps \<Longrightarrow> prefix \<noteq> [] \<and> (\<not> debug \<longrightarrow> ps = [])"
  by (auto simp: static_def split: if_splits)

lemma apps_ready_imports:
  "set (apps_ready available cfgs) = {m \<in> available. Some m \<in> app_signals ` set cfgs}"
  by (auto simp: apps_ready_def app_ready_def split: option.splits if_splits)

section \<open>Properties\<close>



text \<open>With \<open>DEBUG\<close> on, an unset \<open>MEDIA_URL\<close> or \<open>STATIC_URL\<close> makes the URL
  configuration fail to load with \<open>ImproperlyConfigured\<close>, raised by \<open>static()\<close>.\<close>

theorem static_empty_prefix_error:
  assumes "set_debug s" "set_media_url s = [] \<or> set_static_url s = []"
  shows "\<exists>msg. urlpatterns s media_root static_root = Inl (Improperly_configured msg)"
  using assms by (auto simp: urlpatterns_def static_def split: sum.splits)

lemma development_settings_simps [simp]:
  "set_debug (development_settings base)"
  "set_media_url (development_settings base) = set_media_url base"
  "set_static_url (development_settings base) = set_static_url base"
  "set_middleware (development_settings base) = ''debug_toolbar.middleware.DebugToolbarMiddleware'' # set_middleware base"
  by (simp_all add: development_settings_def Let_def)

text \<open>Under the development settings (which force \<open>DEBUG\<close> on), for any base
  settings with a local media and static URL, a path under the media URL is served as a
  media file, unless one of the application's patterns, tried first, claims it.\<close>

theorem development_serves_media:
  assumes "set_media_url base \<noteq> []" "\<not> has_netloc (set_media_url base)" "set_static_url base \<noteq> []"
  shows "\<exists>us. urlpatterns (development_settings base) mr sr = Inr us
     \<and> resolve us (''/'' @ dropWhile (\<lambda>c. c = CHR ''/'') (set_media_url base) @ f)
         = (if resolve base_urlpatterns (''/'' @ dropWhile (\<lambda>c. c = CHR ''/'') (set_media_url base) @ f) = None
            then Some (Static_serve mr, f)
            else resolve base_urlpatterns (''/'' @ dropWhile (\<lambda>c. c = CHR ''/'') (set_media_url base) @ f))"
proof -
  let ?m = "dropWhile (\<lambda>c. c = CHR ''/'') (set_media_url base)"
  have ms: "static True (set_media_url base) mr = Inr [Prefix_re ?m (Static_serve mr)]"
    using assms(1,2) by (simp add: static_def)
  obtain ss where ss: "static True (set_static_url base) sr = Inr ss"
    using assms(3) by (cases "has_netloc (set_static_url base)") (auto simp: static_def)
  have u: "urlpatterns (development_settings base) mr sr = Inr (base_urlpatterns @ [Prefix_re ?m (Static_serve mr)] @ ss)"
    using ms ss by (simp add: urlpatterns_def)
  have "resolve (base_urlpatterns @ [Prefix_re ?m (Static_serve mr)] @ ss) (''/'' @ ?m @ f)
      = (case resolve base_urlpatterns (''/'' @ ?m @ f) of Some x \<Rightarrow> Some x | None \<Rightarrow> Some (Static_serve mr, f))"
    by (simp add: resolve_def resolve_patterns_append split: option.split)
  with u show ?thesis by (auto split: option.split)
qed

theorem static_empty_prefix_error_witness:
  "\<exists>msg. urlpatterns (development_settings (sample_base_settings\<lparr>set_media_url := []\<rparr>)) ''media'' ''static''
     = Inl (Improperly_configured msg)"
  by (rule static_empty_prefix_error) (simp_all add: sample_base_settings_def)

theorem development_serves_media_witness:
  "\<exists>us. urlpatterns (development_settings sample_base_settings) ''media'' ''static'' = Inr us
     \<and> resolve us ''/media/photo.png'' = Some (Static_serve ''media'', ''photo.png'')"
proof -
  have "set_media_url sample_base_settings \<noteq> []" "\<not> has_netloc (set_media_url sample_base_settings)"
    "set_static_url sample_base_settings \<noteq> []"
    by (simp_all add: sample_base_settings_def has_netloc_def)
  from development_serves_media [OF this, where mr = "''media''" and sr = "''static''" and f = "''photo.png''"]
  show ?thesis by (simp add: sample_base_settings_def resolve_def base_urlpatterns_def)
qed

end
