(* ===== verification/Presentation.thy ===== *)
theory Presentation
  imports Attendance
begin

text \<open>
  How the models present themselves: their \<open>__str__\<close> methods and the default
  orderings of their \<open>Meta\<close> classes (\<open>apps/accounts/models.py\<close>,
  \<open>apps/campus/models.py\<close>, \<open>apps/attendance/models.py\<close>). A method that follows a
  foreign key (\<open>self.campus.code\<close>, \<open>self.user.get_full_name()\<close>) looks the row up in
  its table, and a dangling key raises \<open>DoesNotExist\<close>, the \<open>None\<close> here. A choice field
  prints its stored key. \<open>confidence_score\<close> is a float in the source and thousandths
  here; \<open>str()\<close> of such a float is its shortest decimal, the digits without trailing
  zeros and at least one after the point.
\<close>

section \<open>Choice keys\<close>

definition attendance_status_str :: "attendance_status \<Rightarrow> string" where
  "attendance_status_str s = (case s of Present \<Rightarrow> ''present'' | Absent \<Rightarrow> ''absent''
     | Late \<Rightarrow> ''late'' | Excused \<Rightarrow> ''excused'')"

definition log_action_str :: "log_action \<Rightarrow> string" where
  "log_action_str a = (case a of Marked \<Rightarrow> ''marked'' | Updated \<Rightarrow> ''updated'' | Verified \<Rightarrow> ''verified''
     | Rejected \<Rightarrow> ''rejected'' | Deleted \<Rightarrow> ''deleted'')"

definition validation_type_str :: "validation_type \<Rightarrow> string" where
  "validation_type_str t = (case t of Gps_distance \<Rightarrow> ''gps_distance'' | Time_window \<Rightarrow> ''time_window''
     | Image_verification \<Rightarrow> ''image_verification'' | Duplicate_check \<Rightarrow> ''duplicate_check'')"

definition validation_status_str :: "validation_status \<Rightarrow> string" where
  "validation_status_str s = (case s of Passed \<Rightarrow> ''passed'' | Failed \<Rightarrow> ''failed'' | Warning \<Rightarrow> ''warning'')"

section \<open>String forms\<close>

definition campus_str :: "campus \<Rightarrow> string" where
  "campus_str c = campus_name c @ '' ('' @ campus_code c @ '')''"

definition configuration_str :: "campus list \<Rightarrow> campus_configuration \<Rightarrow> string option" where
  "configuration_str cs k = map_option (\<lambda>c. ''Config for '' @ campus_name c) (find (\<lambda>c. campus_pk c = cfg_campus k) cs)"

definition user_str :: "campus list \<Rightarrow> user \<Rightarrow> string option" where
  "user_str cs u = map_option (\<lambda>c. get_full_name u @ '' ('' @ user_student_id u @ '') - '' @ campus_code c)
     (find (\<lambda>c. campus_pk c = user_campus u) cs)"

definition attendance_str :: "user list \<Rightarrow> event list \<Rightarrow> attendance \<Rightarrow> string option" where
  "attendance_str us es a =
     (case (find (\<lambda>u. user_pk u = att_user a) us, find (\<lambda>e. event_pk e = att_event a) es) of
        (Some u, Some e) \<Rightarrow> Some (get_full_name u @ '' - '' @ event_title e @ '' ('' @ attendance_status_str (att_status a) @ '')'')
      | _ \<Rightarrow> None)"

text \<open>\<open>f"... by {self.performed_by}"\<close>: a user prints with its own \<open>__str__\<close>, a nulled
  reference as \<open>None\<close>.\<close>

definition log_str :: "campus list \<Rightarrow> user list \<Rightarrow> event list \<Rightarrow> attendance list \<Rightarrow> attendance_log \<Rightarrow> string option" where
  "log_str cs us es rows l =
     (case find (\<lambda>a. att_pk a = Some (log_attendance l)) rows of
        None \<Rightarrow> None
      | Some a \<Rightarrow>
          (case attendance_str us es a of
             None \<Rightarrow> None
           | Some sa \<Rightarrow>
               (case log_performed_by l of
                  None \<Rightarrow> Some (log_action_str (log_action l) @ '' - '' @ sa @ '' by None'')
                | Some k \<Rightarrow>
                    (case find (\<lambda>u. user_pk u = k) us of
                       None \<Rightarrow> None
                     | Some u \<Rightarrow> map_option (\<lambda>su. log_action_str (log_action l) @ '' - '' @ sa @ '' by '' @ su)
                                  (user_str cs u)))))"

definition strip_trailing_zeros :: "string \<Rightarrow> string" where
  "strip_trailing_zeros s = rev (dropWhile (\<lambda>c. c = CHR ''0'') (rev s))"

definition confidence_str :: "nat \<Rightarrow> string" where
  "confidence_str k =
     (let f = strip_trailing_zeros (map digit_char [k mod 1000 div 100, k mod 100 div 10, k mod 10]) in
      nat_str (k div 1000) @ ''.'' @ (if f = [] then ''0'' else f))"

definition validation_str :: "attendance_validation \<Rightarrow> string" where
  "validation_str v = validation_type_str (val_type v) @ '' - '' @ validation_status_str (val_status v)
     @ '' ('' @ confidence_str (val_confidence v) @ '')''"

section \<open>Default orderings\<close>

definition attendance_ordering :: "attendance list \<Rightarrow> attendance list" where
  "attendance_ordering rows = sort_key (\<lambda>a. - att_marked_at a) rows"

definition log_ordering :: "attendance_log list \<Rightarrow> attendance_log list" where
  "log_ordering ls = sort_key (\<lambda>l. - log_timestamp l) ls"

section \<open>Lemmas\<close>

lemma confidence_str_examples:
  "confidence_str 1000 = ''1.0''" "confidence_str 850 = ''0.85''" "confidence_str 5 = ''0.005''"
  "confidence_str 0 = ''0.0''"
  by code_simp+

lemma attendance_ordering_latest_first:
  "sorted (map (\<lambda>a. - att_marked_at a) (attendance_ordering rows)) \<and> set (attendance_ordering rows) = set rows
   \<and> length (attendance_ordering rows) = length rows"
  by (simp add: attendance_ordering_def)

lemma log_ordering_latest_first:
  "sorted (map (\<lambda>l. - log_timestamp l) (log_ordering ls)) \<and> set (log_ordering ls) = set ls
   \<and> length (log_ordering ls) = length ls"
  by (simp add: log_ordering_def)

lemma user_str_total: "user_campus u \<in> campus_pk ` set cs \<Longrightarrow> user_str cs u \<noteq> None"
  by (auto simp: user_str_def find_None_iff)

end
