(* ===== verification/Override.thy ===== *)
theory Override
  imports Pipeline
begin

text \<open>
  The administrative override of section 4.5 (\<open>overrideAttendance(adminActor, eventId,
  targetActorId, newStatus, note)\<close> of section 6). As for the submission pipeline, the
  repository has no view that performs it, so the orchestration is modelled from the
  specification on top of the source's pieces: the actor's campus scope is
  \<open>User.get_accessible_campus_ids\<close>, the write is \<open>Attendance.save\<close> (so the
  (event, user) unique constraint, gate 3, still applies), a force-created record carries
  the source's verification method \<open>admin_override\<close>, and the log entry is an
  \<open>AttendanceLog\<close> row. The override bypasses the campus, capacity, window, token, GPS
  and evidence gates; its log entry is written in the same transaction as the record, so
  an unavailable audit sink fails the whole override and nothing is kept.
\<close>

section \<open>Model\<close>

datatype override_error =
    Not_privileged | Campus_not_accessible | Note_required | Override_conflict
  | Override_audit_failure

text \<open>
  \<open>AttendanceLog.ACTION_CHOICES\<close> has no \<open>admin_override\<close> kind, so the entry is an
  \<open>updated\<close> row whose JSON details name the override and carry the note.
\<close>

definition override_entry :: "attendance \<Rightarrow> record_id \<Rightarrow> user \<Rightarrow> string \<Rightarrow> timestamp \<Rightarrow> attendance_log" where
  "override_entry a k admin note now = \<lparr>log_attendance = k,
     log_campus = (case att_campus a of Some c \<Rightarrow> c | None \<Rightarrow> 0), log_action = Updated,
     log_performed_by = Some (user_pk admin),
     log_details = [(''action'', ''admin_override''), (''note'', note)], log_ip = None,
     log_timestamp = now\<rparr>"

text \<open>The record the override writes: the stored record of the pair with the new status,
  or a new record marked \<open>admin_override\<close> when the pair has none.\<close>

definition override_target ::
  "user \<Rightarrow> event \<Rightarrow> user \<Rightarrow> attendance_status \<Rightarrow> string \<Rightarrow> timestamp \<Rightarrow> attendance list \<Rightarrow> attendance" where
  "override_target admin e target s note now rows =
     (case find (\<lambda>r. att_key r = (event_pk e, user_pk target)) rows of
        Some r \<Rightarrow> r\<lparr>att_status := s, att_notes := note, att_marked_by := Some (user_pk admin)\<rparr>
      | None \<Rightarrow> (new_attendance (event_pk e) (user_pk target) Admin_override now)\<lparr>att_status := s,
                  att_notes := note, att_marked_by := Some (user_pk admin)\<rparr>)"

definition override_attendance ::
  "campus list \<Rightarrow> user \<Rightarrow> event \<Rightarrow> user \<Rightarrow> attendance_status \<Rightarrow> string \<Rightarrow> timestamp \<Rightarrow> store
     \<Rightarrow> override_error + attendance \<times> store" where
  "override_attendance cs admin e target s note now st =
     (if \<not> privileged (user_role admin) then Inl Not_privileged
      else if \<not> can_access_campus cs admin (event_campus e) then Inl Campus_not_accessible
      else if note = [] then Inl Note_required
      else (case attendance_save target e (override_target admin e target s note now (st_attendance st))
                   (st_attendance st) of
              Inl Integrity_error \<Rightarrow> Inl Override_conflict
            | Inr (a', rows') \<Rightarrow>
                (case att_pk a' of
                   None \<Rightarrow> Inl Override_conflict
                 | Some k \<Rightarrow>
                     if \<not> st_audit_up st then Inl Override_audit_failure
                     else Inr (a', st\<lparr>st_attendance := rows',
                                      st_logs := append_log (override_entry a' k admin note now) (st_logs st)\<rparr>))))"

text \<open>Fixtures: a campus-admin of campus 1 with the explicit scope [1], and a store holding
  actor 3's manual record (key 1) for the scenario event 7 of campus 1.\<close>

definition override_admin :: user where
  "override_admin = sample_user 1 Campus_admin 1 [1]"

definition override_store :: store where
  "override_store = empty_store\<lparr>st_attendance :=
     [(new_attendance 7 3 Manual 1500)\<lparr>att_pk := Some 1, att_campus := Some 1\<rparr>]\<rparr>"

section \<open>Lemmas\<close>

lemma override_target_cases:
  "(\<exists>r \<in> set rows. att_key r = (event_pk e, user_pk target)
      \<and> override_target admin e target s nt now rows
          = r\<lparr>att_status := s, att_notes := nt, att_marked_by := Some (user_pk admin)\<rparr>)
   \<or> (\<not> has_record e target rows
      \<and> override_target admin e target s nt now rows
          = (new_attendance (event_pk e) (user_pk target) Admin_override now)\<lparr>att_status := s,
              att_notes := nt, att_marked_by := Some (user_pk admin)\<rparr>)"
proof (cases "find (\<lambda>r. att_key r = (event_pk e, user_pk target)) rows")
  case None
  then have "\<not> has_record e target rows"
    by (auto simp: find_None_iff has_record_def att_key_def)
  with None show ?thesis by (simp add: override_target_def)
next
  case (Some r)
  then have "r \<in> set rows" "att_key r = (event_pk e, user_pk target)"
    by (auto simp: find_Some_iff)
  with Some show ?thesis by (auto simp: override_target_def)
qed

lemma override_target_key [simp]:
  "att_key (override_target admin e target s nt now rows) = (event_pk e, user_pk target)"
  "att_status (override_target admin e target s nt now rows) = s"
  using override_target_cases [of rows e target admin s nt now]
  by (auto simp: att_key_def new_attendance_def)

text \<open>The write never meets the unique constraint: the pair's stored record is updated in
  place under its own key, and a pair without a record gets a new row.\<close>

lemma override_save_cases:
  fixes rows admin e target s nt now
  assumes ok: "attendance_table_ok rows"
  defines "b \<equiv> attendance_prepare target e (override_target admin e target s nt now rows)"
  shows "(\<exists>r \<in> set rows. att_key r = (event_pk e, user_pk target) \<and> att_pk b = att_pk r
            \<and> attendance_save target e (override_target admin e target s nt now rows) rows
                = Inr (b, map (\<lambda>x. if x = r then b else x) rows))
         \<or> (\<not> has_record e target rows
            \<and> attendance_save target e (override_target admin e target s nt now rows) rows
                = Inr (b\<lparr>att_pk := Some (next_record_id rows)\<rparr>, rows @ [b\<lparr>att_pk := Some (next_record_id rows)\<rparr>]))"
proof -
  have kb: "att_key b = (event_pk e, user_pk target)" by (simp add: b_def)
  from ok have dk: "distinct (map att_key rows)" and dp: "distinct (map att_pk rows)"
    and np: "None \<notin> set (map att_pk rows)"
    by (simp_all add: attendance_table_ok_def)
  consider (upd) r where "r \<in> set rows" "att_key r = (event_pk e, user_pk target)"
      "override_target admin e target s nt now rows
         = r\<lparr>att_status := s, att_notes := nt, att_marked_by := Some (user_pk admin)\<rparr>"
    | (new) "\<not> has_record e target rows"
      "override_target admin e target s nt now rows
         = (new_attendance (event_pk e) (user_pk target) Admin_override now)\<lparr>att_status := s,
              att_notes := nt, att_marked_by := Some (user_pk admin)\<rparr>"
    using override_target_cases [of rows e target admin s nt now] by blast
  then show ?thesis
  proof cases
    case upd
    have pb: "att_pk b = att_pk r" using upd(3) by (simp add: b_def)
    have "att_pk r \<noteq> None" using upd(1) np by force
    with pb obtain k where k: "att_pk b = Some k" by auto
    have same: "x = r" if "x \<in> set rows" "att_key x = att_key b" for x
    proof -
      from dk have "inj_on att_key (set rows)" by (simp add: distinct_map)
      moreover have "att_key x = att_key r" using upd(2) that(2) kb by simp
      ultimately show ?thesis using that(1) upd(1) by (rule inj_onD)
    qed
    have guard: "\<not> (\<exists>x \<in> set rows. att_key x = att_key b \<and> (att_pk b = None \<or> att_pk x \<noteq> att_pk b))"
    proof
      assume "\<exists>x \<in> set rows. att_key x = att_key b \<and> (att_pk b = None \<or> att_pk x \<noteq> att_pk b)"
      then obtain x where "x \<in> set rows" "att_key x = att_key b" "att_pk b = None \<or> att_pk x \<noteq> att_pk b"
        by blast
      with same [of x] pb k show False by simp
    qed
    have "table_save att_pk b rows = map (\<lambda>x. if x = r then b else x) rows"
      using table_save_replace [OF dp upd(1) pb] .
    with guard k have "attendance_save target e (override_target admin e target s nt now rows) rows
        = Inr (b, map (\<lambda>x. if x = r then b else x) rows)"
      by (simp add: attendance_save_def attendance_db_save_def b_def [symmetric])
    with upd(1,2) pb show ?thesis by blast
  next
    case new
    have pb: "att_pk b = None" using new(2) by (simp add: b_def new_attendance_def)
    have guard: "\<not> (\<exists>x \<in> set rows. att_key x = att_key b)"
      using new(1) kb by (auto simp: has_record_def att_key_def)
    then have "attendance_save target e (override_target admin e target s nt now rows) rows
        = Inr (b\<lparr>att_pk := Some (next_record_id rows)\<rparr>, rows @ [b\<lparr>att_pk := Some (next_record_id rows)\<rparr>])"
      using pb by (simp add: attendance_save_def attendance_db_save_def b_def [symmetric] Let_def)
    with new(1) show ?thesis by blast
  qed
qed

lemma override_attendance_Inr:
  assumes "override_attendance cs admin e target s nt now st = Inr (a, st')"
  shows "privileged (user_role admin) \<and> can_access_campus cs admin (event_campus e) \<and> nt \<noteq> []
    \<and> st_audit_up st
    \<and> attendance_save target e (override_target admin e target s nt now (st_attendance st)) (st_attendance st)
        = Inr (a, st_attendance st')
    \<and> st_validations st' = st_validations st
    \<and> (\<exists>k. att_pk a = Some k \<and> st_logs st' = st_logs st @ [override_entry a k admin nt now])"
  using assms
  by (auto simp: override_attendance_def append_log_def
      split: if_splits sum.splits db_error.splits prod.splits option.splits)

text \<open>What a successful override leaves in the attendance table: the pair's stored record
  replaced in place by the written one under the same key, or the new record appended.\<close>

lemma override_rows:
  assumes ok: "store_ok st" and o: "override_attendance cs admin e target s nt now st = Inr (a, st')"
  shows "attendance_table_ok (st_attendance st') \<and> a \<in> set (st_attendance st')
    \<and> att_key a = (event_pk e, user_pk target) \<and> att_status a = s
    \<and> ((\<exists>r \<in> set (st_attendance st). att_key r = (event_pk e, user_pk target) \<and> att_pk a = att_pk r
          \<and> st_attendance st' = map (\<lambda>x. if x = r then a else x) (st_attendance st))
       \<or> (\<not> has_record e target (st_attendance st) \<and> st_attendance st' = st_attendance st @ [a]))"
proof -
  from ok have tok: "attendance_table_ok (st_attendance st)" by (simp add: store_ok_def)
  from override_attendance_Inr [OF o] have save:
    "attendance_save target e (override_target admin e target s nt now (st_attendance st)) (st_attendance st)
       = Inr (a, st_attendance st')" by blast
  from attendance_save_Inr_in [OF tok save]
  have part: "attendance_table_ok (st_attendance st') \<and> a \<in> set (st_attendance st')
      \<and> att_key a = (event_pk e, user_pk target)" by simp
  let ?b = "attendance_prepare target e (override_target admin e target s nt now (st_attendance st))"
  have sb: "att_status ?b = s" by simp
  from override_save_cases [OF tok, where admin = admin and e = e and target = target and s = s and nt = nt and now = now]
  consider (upd) r where "r \<in> set (st_attendance st)" "att_key r = (event_pk e, user_pk target)"
      "att_pk ?b = att_pk r"
      "attendance_save target e (override_target admin e target s nt now (st_attendance st)) (st_attendance st)
         = Inr (?b, map (\<lambda>x. if x = r then ?b else x) (st_attendance st))"
    | (new) "\<not> has_record e target (st_attendance st)"
      "attendance_save target e (override_target admin e target s nt now (st_attendance st)) (st_attendance st)
         = Inr (?b\<lparr>att_pk := Some (next_record_id (st_attendance st))\<rparr>,
                st_attendance st @ [?b\<lparr>att_pk := Some (next_record_id (st_attendance st))\<rparr>])"
    by blast
  then have "(\<exists>r \<in> set (st_attendance st). att_key r = (event_pk e, user_pk target) \<and> att_pk a = att_pk r
          \<and> st_attendance st' = map (\<lambda>x. if x = r then a else x) (st_attendance st)
          \<and> att_status a = s)
       \<or> (\<not> has_record e target (st_attendance st) \<and> st_attendance st' = st_attendance st @ [a]
          \<and> att_status a = s)"
  proof cases
    case upd
    with save have "a = ?b" "st_attendance st' = map (\<lambda>x. if x = r then ?b else x) (st_attendance st)"
      by simp_all
    with upd(1-3) sb show ?thesis by blast
  next
    case new
    with save have "a = ?b\<lparr>att_pk := Some (next_record_id (st_attendance st))\<rparr>"
      "st_attendance st' = st_attendance st @ [a]" by auto
    with new(1) sb show ?thesis by simp
  qed
  with part show ?thesis by blast
qed

lemma override_keeps_pks:
  assumes "store_ok st" "override_attendance cs admin e target s nt now st = Inr (a, st')"
  shows "set (map att_pk (st_attendance st)) \<subseteq> set (map att_pk (st_attendance st'))"
proof -
  from override_rows [OF assms] consider
      (upd) r where "r \<in> set (st_attendance st)" "att_pk a = att_pk r"
        "st_attendance st' = map (\<lambda>x. if x = r then a else x) (st_attendance st)"
    | (new) "st_attendance st' = st_attendance st @ [a]"
    by blast
  then show ?thesis
  proof cases
    case upd
    then have "map att_pk (st_attendance st') = map att_pk (st_attendance st)" by (auto intro!: map_cong)
    then show ?thesis by simp
  next
    case new
    then show ?thesis by auto
  qed
qed

text \<open>With a consistent table the write always lands, under a stored key: the found
  record keeps its key, a new one gets the next key.\<close>

lemma override_save_Inr:
  assumes "attendance_table_ok rows"
  shows "\<exists>a' rows' k. attendance_save target e (override_target admin e target s nt now rows) rows = Inr (a', rows')
    \<and> att_pk a' = Some k"
proof -
  from assms have np: "None \<notin> set (map att_pk rows)" by (simp add: attendance_table_ok_def)
  from override_save_cases [OF assms, where admin = admin and e = e and target = target and s = s and nt = nt and now = now]
  show ?thesis
  proof (elim disjE bexE conjE)
    fix r assume "r \<in> set rows"
      "att_pk (attendance_prepare target e (override_target admin e target s nt now rows)) = att_pk r"
      "attendance_save target e (override_target admin e target s nt now rows) rows
         = Inr (attendance_prepare target e (override_target admin e target s nt now rows),
                map (\<lambda>x. if x = r then attendance_prepare target e (override_target admin e target s nt now rows) else x) rows)"
    with np show ?thesis by force
  qed auto
qed

text \<open>The concrete runs the witnesses evaluate: the admin sets actor 3's stored record to
  excused, and force-creates actor 4's record at the full event (capacity 1) after its
  window has closed.\<close>

abbreviation override_update_run :: "override_error + attendance \<times> store" where
  "override_update_run \<equiv> override_attendance seed_campuses override_admin (scenario_event None)
     (sample_user 3 Student 1 []) Excused ''medical certificate'' 9000 override_store"

lemma override_store_ok: "store_ok override_store"
  by (simp add: store_ok_def override_store_def empty_store_def attendance_table_ok_def att_key_def
      new_attendance_def)

lemma override_admin_scope:
  "privileged (user_role override_admin) \<and> can_access_campus seed_campuses override_admin 1"
  by (simp add: override_admin_def sample_user_def privileged_def can_access_campus_def
      get_accessible_campus_ids_def)

lemma override_update_run_Inr:
  "override_update_run = Inr (fst (projr override_update_run), snd (projr override_update_run))"
proof (rule Inr_projr)
  show "\<exists>a st'. override_update_run = Inr (a, st')"
    using override_admin_scope
    by (simp add: override_attendance_def override_target_def override_store_def empty_store_def
        scenario_event_def sample_event_def sample_user_def att_key_def new_attendance_def
        attendance_save_def attendance_db_save_def attendance_prepare_def table_save_def Let_def)
qed

section \<open>Properties\<close>

text \<open>C9: A successful administrative override keeps the store's invariant, stores the
  written record under the target pair with the requested status, leaves the validation
  rows alone, and appends exactly one log entry for it, by the overriding actor with the
  note.\<close>

theorem override_preserves_store_ok:
  assumes "store_ok st" "override_attendance cs admin e target s nt now st = Inr (a, st')"
  shows "store_ok st' \<and> a \<in> set (st_attendance st') \<and> att_key a = (event_pk e, user_pk target)
    \<and> att_status a = s \<and> st_validations st' = st_validations st
    \<and> (\<exists>k. att_pk a = Some k \<and> st_logs st' = st_logs st @ [override_entry a k admin nt now])"
proof -
  from override_rows [OF assms] have rows: "attendance_table_ok (st_attendance st')"
    "a \<in> set (st_attendance st')" "att_key a = (event_pk e, user_pk target)" "att_status a = s"
    by simp_all
  from override_attendance_Inr [OF assms(2)] have vs: "st_validations st' = st_validations st"
    and logs: "\<exists>k. att_pk a = Some k \<and> st_logs st' = st_logs st @ [override_entry a k admin nt now]"
    by simp_all
  from override_keeps_pks [OF assms] assms(1) vs rows(1) have "store_ok st'"
    by (auto simp: store_ok_def)
  with rows vs logs show ?thesis by simp
qed

theorem override_preserves_store_ok_witness:
  "store_ok (snd (projr override_update_run))
   \<and> att_status (fst (projr override_update_run)) = Excused"
  using override_preserves_store_ok [OF override_store_ok override_update_run_Inr] by simp

text \<open>C8: Duplicate prevention is absolute under an override: afterwards the target pair
  has exactly one record, the written one; every record of another pair is kept; and the
  table grows by one row exactly when the pair had no record.\<close>

theorem override_one_record_per_pair:
  assumes "store_ok st" "override_attendance cs admin e target s nt now st = Inr (a, st')"
  shows "filter (\<lambda>r. att_key r = (event_pk e, user_pk target)) (st_attendance st') = [a]
    \<and> (\<forall>r \<in> set (st_attendance st). att_key r \<noteq> (event_pk e, user_pk target) \<longrightarrow> r \<in> set (st_attendance st'))
    \<and> length (st_attendance st') = length (st_attendance st) + (if has_record e target (st_attendance st) then 0 else 1)"
proof -
  from override_rows [OF assms] have ok': "attendance_table_ok (st_attendance st')"
    and mem: "a \<in> set (st_attendance st')" and ka: "att_key a = (event_pk e, user_pk target)"
    and cases: "(\<exists>r \<in> set (st_attendance st). att_key r = (event_pk e, user_pk target) \<and> att_pk a = att_pk r
          \<and> st_attendance st' = map (\<lambda>x. if x = r then a else x) (st_attendance st))
       \<or> (\<not> has_record e target (st_attendance st) \<and> st_attendance st' = st_attendance st @ [a])"
    by simp_all
  from ok' have "distinct (map att_key (st_attendance st'))" by (simp add: attendance_table_ok_def)
  from filter_key_distinct [OF this mem] ka
  have one: "filter (\<lambda>r. att_key r = (event_pk e, user_pk target)) (st_attendance st') = [a]" by simp
  from cases show ?thesis
  proof (elim disjE bexE conjE)
    fix r assume r: "r \<in> set (st_attendance st)" "att_key r = (event_pk e, user_pk target)"
      and rows': "st_attendance st' = map (\<lambda>x. if x = r then a else x) (st_attendance st)"
    have "has_record e target (st_attendance st)"
      using r by (auto simp: has_record_def att_key_def)
    moreover have "x \<in> set (st_attendance st')"
      if "x \<in> set (st_attendance st)" "att_key x \<noteq> (event_pk e, user_pk target)" for x
      using that r(2) rows' by force
    ultimately show ?thesis using one rows' by simp
  next
    assume "\<not> has_record e target (st_attendance st)" "st_attendance st' = st_attendance st @ [a]"
    with one show ?thesis by simp
  qed
qed

theorem override_one_record_per_pair_witness:
  "filter (\<lambda>r. att_key r = (7, 3)) (st_attendance (snd (projr override_update_run)))
     = [fst (projr override_update_run)]
   \<and> length (st_attendance (snd (projr override_update_run))) = 1"
  using override_one_record_per_pair [OF override_store_ok override_update_run_Inr]
  by (simp add: scenario_event_def sample_event_def sample_user_def override_store_def empty_store_def
      has_record_def new_attendance_def)

text \<open>C18: The override bypasses the eligibility, capacity, window, token, GPS and evidence
  gates: on a consistent store, a privileged actor with the event's campus in scope, a
  non-empty note and an available audit sink always succeeds.\<close>

theorem override_succeeds:
  assumes "store_ok st" "privileged (user_role admin)" "can_access_campus cs admin (event_campus e)"
    "nt \<noteq> []" "st_audit_up st"
  shows "\<exists>a st'. override_attendance cs admin e target s nt now st = Inr (a, st')"
proof -
  from assms(1) have "attendance_table_ok (st_attendance st)" by (simp add: store_ok_def)
  from override_save_Inr [OF this, where admin = admin and e = e and target = target and s = s and nt = nt and now = now]
  obtain a' rows' k where
    "attendance_save target e (override_target admin e target s nt now (st_attendance st)) (st_attendance st)
       = Inr (a', rows')" "att_pk a' = Some k" by blast
  with assms(2-5) show ?thesis by (simp add: override_attendance_def)
qed

theorem override_succeeds_witness:
  "\<not> fst (can_user_attend 9000 (sample_user 4 Student 1 []) (scenario_event (Some 1)) (st_attendance override_store))
   \<and> (\<exists>a st'. override_attendance seed_campuses override_admin (scenario_event (Some 1))
         (sample_user 4 Student 1 []) Present ''signed in on paper'' 9000 override_store = Inr (a, st'))"
proof
  show "\<not> fst (can_user_attend 9000 (sample_user 4 Student 1 []) (scenario_event (Some 1)) (st_attendance override_store))"
    by (simp add: can_user_attend_def scenario_event_def sample_event_def sample_user_def override_store_def
        empty_store_def at_capacity_def attendance_count_def new_attendance_def)
  have "event_campus (scenario_event (Some 1)) = 1" "st_audit_up override_store"
    by (simp_all add: scenario_event_def sample_event_def override_store_def empty_store_def)
  with override_admin_scope show "\<exists>a st'. override_attendance seed_campuses override_admin (scenario_event (Some 1))
         (sample_user 4 Student 1 []) Present ''signed in on paper'' 9000 override_store = Inr (a, st')"
    using override_succeeds [OF override_store_ok, where admin = override_admin and cs = seed_campuses
        and e = "scenario_event (Some 1)" and target = "sample_user 4 Student 1 []" and s = Present
        and nt = "''signed in on paper''" and now = 9000]
    by simp
qed

text \<open>C19: Every refusal of an override is its own error and keeps nothing: an
  unprivileged actor, an event outside the actor's campus scope, an empty justification
  note, and (on a consistent store) an unavailable audit sink, which fails the override
  instead of writing the record without its log entry.\<close>

theorem override_rejections:
  "(\<not> privileged (user_role admin) \<longrightarrow> override_attendance cs admin e target s nt now st = Inl Not_privileged)
   \<and> (privileged (user_role admin) \<and> \<not> can_access_campus cs admin (event_campus e)
        \<longrightarrow> override_attendance cs admin e target s nt now st = Inl Campus_not_accessible)
   \<and> (privileged (user_role admin) \<and> can_access_campus cs admin (event_campus e) \<and> nt = []
        \<longrightarrow> override_attendance cs admin e target s nt now st = Inl Note_required)
   \<and> (store_ok st \<and> privileged (user_role admin) \<and> can_access_campus cs admin (event_campus e)
        \<and> nt \<noteq> [] \<and> \<not> st_audit_up st
        \<longrightarrow> override_attendance cs admin e target s nt now st = Inl Override_audit_failure)"
proof (intro conjI impI)
  assume a: "store_ok st \<and> privileged (user_role admin) \<and> can_access_campus cs admin (event_campus e)
        \<and> nt \<noteq> [] \<and> \<not> st_audit_up st"
  then have "attendance_table_ok (st_attendance st)" by (simp add: store_ok_def)
  from override_save_Inr [OF this, where admin = admin and e = e and target = target and s = s and nt = nt and now = now]
  obtain a' rows' k where
    "attendance_save target e (override_target admin e target s nt now (st_attendance st)) (st_attendance st)
       = Inr (a', rows')" "att_pk a' = Some k" by blast
  with a show "override_attendance cs admin e target s nt now st = Inl Override_audit_failure"
    by (simp add: override_attendance_def)
qed (simp_all add: override_attendance_def)

theorem override_rejections_witness:
  "override_attendance seed_campuses (sample_user 3 Student 1 []) (scenario_event None)
     (sample_user 3 Student 1 []) Present ''self service'' 9000 override_store = Inl Not_privileged
   \<and> override_attendance seed_campuses override_admin (scenario_event None)
     (sample_user 3 Student 1 []) Excused [] 9000 override_store = Inl Note_required
   \<and> override_attendance seed_campuses override_admin (scenario_event None)
     (sample_user 3 Student 1 []) Excused ''medical certificate'' 9000 (override_store\<lparr>st_audit_up := False\<rparr>)
       = Inl Override_audit_failure"
proof -
  have c: "event_campus (scenario_event None) = 1" by (simp add: scenario_event_def sample_event_def)
  have ok: "store_ok (override_store\<lparr>st_audit_up := False\<rparr>)"
    using override_store_ok by (simp add: store_ok_def)
  have np: "\<not> privileged (user_role (sample_user 3 Student 1 []))"
    by (simp add: sample_user_def privileged_def)
  note r1 = override_rejections [where admin = "sample_user 3 Student 1 []" and cs = seed_campuses
      and e = "scenario_event None" and target = "sample_user 3 Student 1 []" and s = Present
      and nt = "''self service''" and now = 9000 and st = override_store]
  note r2 = override_rejections [where admin = override_admin and cs = seed_campuses
      and e = "scenario_event None" and target = "sample_user 3 Student 1 []" and s = Excused
      and nt = "[]" and now = 9000 and st = override_store]
  note r3 = override_rejections [where admin = override_admin and cs = seed_campuses
      and e = "scenario_event None" and target = "sample_user 3 Student 1 []" and s = Excused
      and nt = "''medical certificate''" and now = 9000 and st = "override_store\<lparr>st_audit_up := False\<rparr>"]
  from r1 np have "override_attendance seed_campuses (sample_user 3 Student 1 []) (scenario_event None)
     (sample_user 3 Student 1 []) Present ''self service'' 9000 override_store = Inl Not_privileged" by blast
  moreover from r2 override_admin_scope c have "override_attendance seed_campuses override_admin (scenario_event None)
     (sample_user 3 Student 1 []) Excused [] 9000 override_store = Inl Note_required" by simp
  moreover from r3 override_admin_scope c ok have "override_attendance seed_campuses override_admin (scenario_event None)
     (sample_user 3 Student 1 []) Excused ''medical certificate'' 9000 (override_store\<lparr>st_audit_up := False\<rparr>)
       = Inl Override_audit_failure" by simp
  ultimately show ?thesis by blast
qed

end
