(* ===== verification/Spec2Isabelle.thy ===== *)
theory Spec2Isabelle
  imports Tenancy Concurrency Setup Statistics Registration Core Health Serializers Routing Presentation Override
begin

text \<open>
  \<^bold>\<open>EAS: campus access control and attendance verification.\<close>
  A shallow embedding of the Django back end under \<open>src/backend/apps/\<close> and of the
  parts of the specification that have no code in the repository.

  \<^bold>\<open>The program.\<close> Every request passes \<open>CampusContextMiddleware\<close>, which fixes
  the request's effective campus from the actor's home campus and, for the two
  privileged roles, an \<open>X-Campus-ID\<close> override; the data access of the views goes
  through \<open>CampusAwareQuerySet\<close>, which scopes rows to the campuses the actor's
  \<open>User.get_accessible_campus_ids\<close> grants. Events carry an attendance window and a
  one-time QR payload written by \<open>Event.save\<close>; \<open>Event.can_user_attend\<close> runs the
  campus, capacity, duplicate and window checks, and \<open>Attendance.save\<close> writes a
  record under the database's \<open>(event, user)\<close> unique constraint. The management
  command \<open>setup_initial_data\<close> seeds the campuses, their configuration and three
  demo users.

  \<^bold>\<open>Theories and the code they model.\<close>
  \<^item> \<open>Prelude\<close>: identifier and time types, the Python built-ins the source relies on
    (truthiness, \<open>int()\<close> and \<open>str()\<close> of integers and UUIDs, with the whitespace
    \<open>int()\<close> strips among the Latin-1 characters a header can carry, \<open>str.join\<close>), generic
    list lemmas and the \<open>py_simps\<close> and \<open>tenant_simps\<close> collections.
  \<^item> \<open>Campus\<close>: \<open>Campus\<close> and \<open>CampusConfiguration\<close> of \<open>apps/campus/models.py\<close>
    as records with the field defaults, the code validator, and the four seeded
    campuses of \<open>setup_initial_data.py\<close> as data.
  \<^item> \<open>Accounts\<close>: \<open>User\<close> of \<open>apps/accounts/models.py\<close>, its roles,
    \<open>get_full_name\<close>, the student-id validator, \<open>get_accessible_campus_ids\<close> and
    \<open>can_access_campus\<close> over the campus table passed in, refined against the
    specification's resolver contract \<open>resolve_spec\<close>.
  \<^item> \<open>Tenancy\<close>: \<open>CampusAwareQuerySet\<close> (\<open>apps/campus/managers.py\<close>), generic in the
    row type and its campus projection; \<open>CampusContextMiddleware.process_request\<close> and
    \<open>process_response\<close> (\<open>apps/shared/middleware.py\<close>); \<open>CampusViewSet.get_queryset\<close>.
  \<^item> \<open>Events\<close>: \<open>Event\<close> (\<open>apps/events/models.py\<close>), \<open>save\<close> with the window and the
    QR payload, \<open>is_ongoing\<close>, \<open>can_mark_attendance\<close>.
  \<^item> \<open>Attendance\<close>: \<open>Attendance\<close>, \<open>AttendanceLog\<close>, \<open>AttendanceValidation\<close>
    (\<open>apps/attendance/models.py\<close>); \<open>Attendance.save\<close> on a table with its unique
    constraint as the error \<open>Integrity_error\<close>; \<open>is_late\<close>,
    \<open>verification_details\<close>; the event's \<open>attendance_count\<close>,
    \<open>get_attendance_for_campus\<close> and \<open>can_user_attend\<close>; the user's counts.
  \<^item> \<open>QRToken\<close>: issuing is \<open>generate_qr_code\<close>; validation (section 4.2 of the
    specification) has no code in the repository and is modelled from the
    specification: parse the payload back to a UUID, check the expiry.
  \<^item> \<open>Pipeline\<close>: the verification pipeline and the audit writer (sections 4.5, 4.6),
    also without code in the repository (the attendance API is commented out of
    \<open>App/urls.py\<close>): gates 1 to 4 are \<open>can_user_attend\<close>, gates 5 to 7 check the token,
    the GPS distance and the evidence, then \<open>Attendance.save\<close> and the audit entry are
    committed together on a \<open>store\<close> of the three tables. A refused submission writes
    nothing, neither validation rows nor an audit entry: the specification asks for a trail of
    decisions but names a record id as the subject of each row, which a refused submission
    does not have.
  \<^item> \<open>Concurrency\<close>: the concurrent submissions of section 5 as the inductive step
    relation \<open>conc_step\<close> on a store and a list of requests, each validating on the
    table it reads and committing later; a pending request may instead time out at the
    repository boundary, which rolls its transaction back and leaves the store as it was.
  \<^item> \<open>Override\<close>: the administrative override of section 4.5
    (\<open>overrideAttendance\<close> of section 6), again without code in the repository: a
    privileged actor with the event's campus in scope and a justification note sets the
    status of the pair's record, or force-creates it with the source's verification
    method \<open>admin_override\<close>, through \<open>Attendance.save\<close>, and logs an
    \<open>AttendanceLog\<close> entry in the same transaction.
  \<^item> \<open>Setup\<close>: \<open>Command.handle\<close> of \<open>setup_initial_data.py\<close> on a database of campuses,
    configurations and users, with Django's \<open>get_or_create\<close>, \<open>get\<close> and unique
    constraints; an error carries the database as the non-atomic command left it.
  \<^item> \<open>Statistics\<close>: \<open>Campus.get_active_events_count\<close> and \<open>get_total_users_count\<close>,
    \<open>Event.capacity_percentage\<close> (the float quotient as an exact rational), and the
    \<open>statistics\<close> and \<open>accessible\<close> actions of \<open>CampusViewSet\<close>
    (\<open>apps/campus/api/views.py\<close>) on the object \<open>get_object\<close> finds in \<open>get_queryset\<close>,
    a 404 otherwise; a \<open>values().annotate(Count)\<close> grouping is the map \<open>count_by\<close>.
  \<^item> \<open>Registration\<close>: \<open>EventTag\<close> and \<open>EventRegistration\<close> of
    \<open>apps/events/models.py\<close>, which no code of the repository writes: their \<open>save\<close>
    under the unique name and the unique \<open>(event, user)\<close> pair, the tag ordering and
    the registration's \<open>__str__\<close>; and the fact that \<open>can_user_attend\<close> never reads
    \<open>requires_registration\<close>.
  \<^item> \<open>Core\<close>: the legacy \<open>apps/core/models.py\<close> (\<open>BaseModel\<close>, its \<open>Campus\<close> and
    \<open>Department\<close>), which no other module uses: creation under the unique columns,
    deletion cascading to departments, \<open>auth.User\<close> deletion nulling the audit
    references, and \<open>__str__\<close>.
  \<^item> \<open>Health\<close>: \<open>health_check\<close> and \<open>api_info\<close> of \<open>apps/common/health.py\<close>, the
    database probe, the clock and \<open>DEBUG\<close> as parameters.
  \<^item> \<open>Serializers\<close>: \<open>CampusConfigurationSerializer\<close>, \<open>CampusListSerializer\<close> and
    \<open>CampusSerializer\<close> of \<open>apps/campus/api/serializers.py\<close> as projections, the
    nested configuration absent for a campus without one.
  \<^item> \<open>Routing\<close>: \<open>App/urls.py\<close> as an ordered list of patterns with Django's in-order
    resolution and the \<open>DEBUG\<close> static routes of \<open>static()\<close>, and
    \<open>app/settings/development.py\<close> over the base settings, which are a parameter since
    \<open>base.py\<close> is not in the repository; the application configurations of
    \<open>apps/*/apps.py\<close> with their \<open>ready()\<close> hooks.
  \<^item> \<open>Presentation\<close>: the \<open>__str__\<close> methods of the campus, configuration, user,
    attendance, log and validation models, with their foreign-key lookups, and the
    \<open>Meta\<close> orderings of attendance records and logs.
  \<^item> this theory: the properties that span components: the seeded users under the
    middleware, and the capacity figure after a concurrent overshoot.

  \<^bold>\<open>What the lemmas show.\<close> Each component theory ends with its properties:
  invariants preserved by every operation (the attendance table's uniqueness under
  \<open>Attendance.save\<close>, the pipeline's \<open>store_ok\<close>, the seeded database's integrity, the
  invariant \<open>conc_inv\<close> of every reachable world, and that a request validated on a stale
  table never commits a second record for its pair), the behaviour of each operation on
  every branch with its error values, refinements (\<open>get_accessible_campus_ids\<close>
  against \<open>resolve_spec\<close>, the sequential pipeline as one run of \<open>conc_step\<close>), round
  trips (the QR payload and the \<open>X-Campus-ID\<close> header), the bounds of the confidence
  score, the agreement of the capacity check with the reported percentage, the scoping
  of the campus statistics, the in-order resolution of every \<open>/api/v1/\<close> path under any
  settings that load and the failure of \<open>static()\<close> on an empty prefix, the reproducibility of a failed seeding run, termination of every
  interleaving (a rank that each step lowers) and progress (a world is stuck exactly when
  every request has finished); the all-or-nothing accounting of every interleaving with
  time-outs (one record and one audit entry per successful request, none for a failed or
  timed-out one); and the override's invariant, its absolute duplicate prevention, its
  success past the bypassed gates and its refusals.

  \<^bold>\<open>Parameters and fixtures.\<close> The time-zone offset \<open>tz_offset\<close> of \<open>make_aware\<close>
  is a parameter (28800 s for Asia/Manila in the examples). The great-circle
  distance of the GPS gate is a parameter \<open>dist\<close>: the haversine formula is real
  trigonometry, and every lemma holds for any distance function. The concrete
  scenarios use the seeded campuses and configuration, a constant distance of 20 m
  and small user and event fixtures. No loop of the program needs fuel: the
  recursions are structural, and the interleaving is a relation whose termination
  is a theorem.

  \<^bold>\<open>Not modelled.\<close> The JSON rendering and HTTP handling of the views' results;
  the configurations \<open>App/urls.py\<close> includes (the admin site, DRF's login views and
  \<open>apps.campus.api.urls\<close>, which is not in the repository); the signal modules the
  \<open>ready()\<close> hooks import, which are not in the repository; QR image
  rendering (an external encoder); passwords and the user and campus fields the records
  leave out (e-mail, phone, locale, branding); \<open>Event.__str__\<close>, which prints a
  \<open>date\<close> (the model has no calendar formatting); a crash between a record's commit
  and its audit write (section 5's reconciliation window), since the model commits
  both in one step.
\<close>

section \<open>Properties across components\<close>

text \<open>On a fresh database, the demo users the seeding command creates are scoped by
  the middleware as their roles demand: the seeded super admin asking for campus 3 gets
  campus 3, while the seeded organizer and student, whose roles are not privileged, stay
  on the main campus SNSU whatever the header says.\<close>

theorem seeded_users_override_scope:
  "(case setup_initial_data False empty_db of
      Inr db \<Rightarrow> map (\<lambda>u. req_campus (process_request (db_campuses db) (Some u) (Some ''3''))) (db_users db)
                = [find_campus (db_campuses db) 3, find_campus (db_campuses db) 1, find_campus (db_campuses db) 1]
    | Inl _ \<Rightarrow> False)"
  unfolding setup_fresh_eq by code_simp

text \<open>Capacity is advisory under races, as section 5 accepts, and the campus figures show
  it: two actors validating on the same snapshot of an event with capacity 1 both succeed,
  leaving two present records, and \<open>capacity_percentage\<close> then reports 200 per cent.\<close>

theorem capacity_overshoot_percentage:
  "\<exists>a b st. scenario_step\<^sup>*\<^sup>*
      (empty_store, requests_start [sample_request 3 (Some 1) 1500, sample_request 4 (Some 1) 1500])
      (st, [(sample_request 3 (Some 1) 1500, Finished (Inr a)), (sample_request 4 (Some 1) 1500, Finished (Inr b))])
    \<and> event_max_participants (scenario_event (Some 1)) = Some 1
    \<and> capacity_percentage (scenario_event (Some 1)) (st_attendance st) = Some 200"
proof -
  obtain a b st where r: "scenario_step\<^sup>*\<^sup>*
      (empty_store, requests_start [sample_request 3 (Some 1) 1500, sample_request 4 (Some 1) 1500])
      (st, [(sample_request 3 (Some 1) 1500, Finished (Inr a)), (sample_request 4 (Some 1) 1500, Finished (Inr b))])"
    and rows: "st_attendance st = [a, b]" and pa: "att_status a = Present" and pb: "att_status b = Present"
    and ka: "att_key a = (event_pk (scenario_event (Some 1)), 3)" and kb: "att_key b = (event_pk (scenario_event (Some 1)), 4)"
    using overshoot_run by blast
  have "attendance_count (scenario_event (Some 1)) (st_attendance st) = 2"
    using rows pa pb ka kb by (simp add: attendance_count_def att_key_def)
  moreover have cap: "event_max_participants (scenario_event (Some 1)) = Some 1" by (simp add: scenario_event_def)
  ultimately have "capacity_percentage (scenario_event (Some 1)) (st_attendance st) = Some 200"
    by (simp add: capacity_percentage_def)
  with cap r show ?thesis by blast
qed

text \<open>Every campus a fresh run of the seeding command creates is served by the campus API
  with its configuration nested (\<open>Serializers.serialize_campus_configuration\<close> says when
  the field is left out instead).\<close>

lemma setup_campuses_serialized_configured:
  "(case setup_initial_data False empty_db of
      Inr db \<Rightarrow> list_all (\<lambda>c. cs_configuration (serialize_campus (db_configs db) [] [] c) \<noteq> None) (db_campuses db)
    | Inl _ \<Rightarrow> False)"
  unfolding setup_fresh_eq by code_simp

end
